theory Spec2Isabelle
  imports Main "HOL-Library.Word" "HOL-Library.Signed_Division"
begin

section \<open>The catchpoint tracker of the ledger: scheduler\<close>

text \<open>
  The tracker lives in package \<open>ledger\<close> (the file beginning \<open>package ledger\<close>).
  Rounds are \<open>basics.Round\<close>, a \<open>uint64\<close>: they are modelled as 64-bit words, so
  that \<open>+\<close>, \<open>-\<close> and \<open>*\<close> wrap around as Go's do.  Go's \<open>int64(x)\<close> of a
  \<open>uint64\<close> keeps the 64 bits and reads them as two's complement: an \<open>int64\<close> is
  the same word, compared with \<open>word_sle\<close>/\<open>word_sless\<close> and divided by
  \<open>int64_div\<close>.
\<close>

type_synonym uint64 = "64 word"
type_synonym int64 = "64 word"
type_synonym Round = "64 word"

text \<open>
  Errors.  The first five are run-time panics of Go; then the sentinels of \<open>io\<close>,
  \<open>os\<close>, \<open>database/sql\<close> and \<open>ledgercore\<close>; \<open>ErrOther\<close> is any other error of the
  environment; \<open>ErrorfMsg\<close> and \<open>ErrorfWrap\<close> are what \<open>fmt.Errorf\<close> makes, without and
  with an error it wraps.
\<close>

datatype error =
    DivideByZero
  | MakeSliceCapOutOfRange
  | MakeSliceLenOutOfRange
  | CloseOfNilChannel
  | NilDereference
  | EOF
  | ErrUnexpectedEOF
  | ErrShortBuffer
  | ErrNotExist
  | ErrNoRows
  | ErrNoEntry
  | ErrOther string
  | ErrorfMsg string
  | ErrorfWrap string error

text \<open>
  Go's \<open>/\<close> on \<open>int64\<close>: the quotient is truncated towards zero and wraps for
  \<open>MinInt64 / -1\<close>; a zero divisor panics, which the callers below test first.
\<close>

definition int64_div :: "int64 \<Rightarrow> int64 \<Rightarrow> int64" where
  "int64_div a b = word_of_int (sint a sdiv sint b)"

subsection \<open>calculateFirstStageRounds\<close>

text \<open>The local variable \<open>minFirstStageRound\<close> of \<open>calculateFirstStageRounds\<close>.\<close>

definition minFirstStageRound :: "Round \<Rightarrow> Round \<Rightarrow> uint64 \<Rightarrow> Round" where
  "minFirstStageRound oldBase reenableCatchpointsRound catchpointLookback =
     (if reenableCatchpointsRound > catchpointLookback \<and>
         reenableCatchpointsRound - catchpointLookback > oldBase + 1
      then reenableCatchpointsRound - catchpointLookback
      else oldBase + 1)"

text \<open>The local variables \<open>first\<close> and \<open>last\<close>, computed on \<open>int64\<close>.\<close>

definition firstStageFirst :: "Round \<Rightarrow> Round \<Rightarrow> uint64 \<Rightarrow> uint64 \<Rightarrow> int64" where
  "firstStageFirst oldBase reenableCatchpointsRound catchpointInterval catchpointLookback =
     int64_div
       (minFirstStageRound oldBase reenableCatchpointsRound catchpointLookback
          + catchpointLookback + catchpointInterval - 1)
       catchpointInterval * catchpointInterval - catchpointLookback"

definition firstStageLast :: "Round \<Rightarrow> uint64 \<Rightarrow> uint64 \<Rightarrow> uint64 \<Rightarrow> int64" where
  "firstStageLast oldBase offset catchpointInterval catchpointLookback =
     int64_div (oldBase + offset + catchpointLookback) catchpointInterval
       * catchpointInterval - catchpointLookback"

text \<open>
  The result is \<open>(hasIntermediateFirstStageRound, hasMultipleIntermediateFirstStageRounds,
  newOffset)\<close>.  The division by \<open>int64(catchpointInterval)\<close> panics when the interval
  is zero; it is reached only when \<open>reenableCatchpointsRound\<close> is not zero.
\<close>

definition calculateFirstStageRounds ::
  "Round \<Rightarrow> uint64 \<Rightarrow> Round \<Rightarrow> uint64 \<Rightarrow> uint64 \<Rightarrow> error + (bool \<times> bool \<times> uint64)" where
  "calculateFirstStageRounds oldBase offset reenableCatchpointsRound catchpointInterval
       catchpointLookback =
     (if reenableCatchpointsRound = 0 then Inr (False, False, offset)
      else if catchpointInterval = 0 then Inl DivideByZero
      else
        let first = firstStageFirst oldBase reenableCatchpointsRound catchpointInterval
                      catchpointLookback;
            last = firstStageLast oldBase offset catchpointInterval catchpointLookback
        in if word_sle first last
           then Inr (True, word_sless first last, last - oldBase)
           else Inr (False, False, offset))"

subsection \<open>calculateCatchpointRounds\<close>

text \<open>
  The loop \<open>for i := l; i <= r; i++\<close>.  The counter is a \<open>uint64\<close>: when \<open>r\<close> is
  \<open>2^64 - 1\<close> the test never fails and the loop does not return, which is the value
  \<open>None\<close>.
\<close>

partial_function (option) calculateCatchpointRounds_loop ::
  "uint64 \<Rightarrow> uint64 \<Rightarrow> uint64 \<Rightarrow> Round list \<Rightarrow> Round list option" where
  "calculateCatchpointRounds_loop i r catchpointInterval res =
     (if i \<le> r
      then calculateCatchpointRounds_loop (i + 1) r catchpointInterval
             (res @ [i * catchpointInterval])
      else Some res)"

text \<open>
  \<open>make\<close> panics when the slice it is asked for takes more than \<open>maxAlloc\<close> bytes, the
  bound of the Go runtime on one allocation: \<open>2^48\<close> on the 64-bit platforms the node
  runs on.  An allocation within the bound is taken to succeed: the memory of the
  machine is not modelled.
\<close>

definition maxAlloc :: int where
  "maxAlloc = 2 ^ 48"

text \<open>
  The free function \<open>calculateCatchpointRounds(min, max, catchpointInterval)\<close>.  The
  unsigned division panics on a zero interval.  \<open>make([]basics.Round, 0, r-l+1)\<close>
  panics when the capacity, at 8 bytes a round, exceeds \<open>maxAlloc\<close>.
\<close>

definition calculateCatchpointRounds ::
  "Round \<Rightarrow> Round \<Rightarrow> uint64 \<Rightarrow> (error + Round list) option" where
  "calculateCatchpointRounds minRound maxRound catchpointInterval =
     (if catchpointInterval = 0 then Some (Inl DivideByZero)
      else
        let l = (minRound + catchpointInterval - 1) div catchpointInterval;
            r = maxRound div catchpointInterval
        in if l > r then Some (Inr [])
           else if 8 * uint (r - l + 1) > maxAlloc then Some (Inl MakeSliceCapOutOfRange)
           else map_option Inr (calculateCatchpointRounds_loop l r catchpointInterval []))"

subsection \<open>The environment: consensus parameters, the trie, the logger\<close>

text \<open>
  What the tracker calls outside its own file is the environment.  A call of the
  environment that can fail is named by an \<open>extOp\<close>; whether it fails, and with what
  error, is fixed by the function \<open>fault\<close> of the environment, so that every error
  branch of the source is a branch of the model.  A call that fails has no effect.
\<close>

type_synonym Digest = "8 word list"
type_synonym ConsensusVersion = string
type_synonym bytes = "8 word list"
type_synonym Address = "8 word list"

datatype trieCall =
    TrieAdd Digest
  | TrieDelete Digest
  | TrieCommit
  | TrieEvict bool
  | TrieRootHash
  | TrieSetCommitter

datatype CatchpointState =
    CatchpointStateLastCatchpoint
  | CatchpointStateWritingFirstStageInfo
  | CatchpointStateCatchpointLookback

datatype extOp =
    OpTrie trieCall
  | OpResourcesHashBuilderV6
  | OpTransactionBegin
  | OpTransactionCommit
  | OpSnapshot
  | OpMakeCatchpointWriter
  | OpMakeCatchpointReader
  | OpMakeCatchpointReaderWriter
  | OpMakeAccountsReader
  | OpMakeMerkleCommitter
  | OpMakeTrie
  | OpAccountsTotals
  | OpGetAllSPContexts
  | OpOnlineAccountsHash
  | OpOnlineRoundParamsHash
  | OpReadCatchpointStateUint64 CatchpointState
  | OpWriteCatchpointStateUint64 CatchpointState
  | OpWriteCatchpointStateString CatchpointState
  | OpInsertOrReplaceCatchpointFirstStageInfo Round
  | OpSelectCatchpointFirstStageInfo Round
  | OpDeleteUnfinishedCatchpoint Round
  | OpStoreCatchpoint Round
  | OpGetOldestCatchpointFiles
  | OpGetCatchpoint Round
  | OpRemove string
  | OpStat string
  | OpMkdirAll string
  | OpOpen string
  | OpCreate string
  | OpClose string
  | OpDecoder
  | OpGzipWriter
  | OpTarNext nat
  | OpTarWriteHeader nat
  | OpTarWrite nat
  | OpTarClose
  | OpGzipClose

text \<open>
  Modelled from the spec: the Merkle trie (package \<open>crypto/merkletrie\<close>, not among the
  sources).  Section 4.2: \<open>add\<close> and \<open>delete\<close> return true iff the digest was newly
  added or actually removed.  The trie is the set of its digests, with the list of
  the calls it has received, which makes "is invoked" a property of the state.
\<close>

record Trie =
  members :: "Digest set"
  calls :: "trieCall list"

text \<open>What the logger has been given; a message keeps its text and the digest it prints.\<close>

datatype logEntry =
    Debugf string
  | Infof string
  | Warnf string
  | Errorf string Digest
  | ErrorfPlain string
  | EventWithDetails string

record ConsensusParams =
  EnableCatchpointsWithSPContexts :: bool
  EnableCatchpointsWithOnlineAccounts :: bool

subsection \<open>Records of the catchpoint store and of the archive\<close>

text \<open>
  \<open>CatchpointFirstStageInfo\<close> (package \<open>trackerdb\<close>) with the fields
  \<open>recordFirstStageInfo\<close> fills in; \<open>AccountTotals\<close> is opaque and stands as a number.
\<close>

type_synonym AccountTotals = nat

record CatchpointFirstStageInfo =
  Totals :: AccountTotals
  TotalAccounts :: uint64
  TotalKVs :: uint64
  TotalOnlineAccounts :: uint64
  TotalOnlineRoundParams :: uint64
  TotalChunks :: uint64
  BiggestChunkLen :: uint64
  TrieBalancesHash :: Digest
  StateProofVerificationHash :: Digest
  OnlineAccountsHash :: Digest
  OnlineRoundParamsHash :: Digest

text \<open>
  \<open>CatchpointFileHeader\<close> with the fields \<open>createCatchpoint\<close> fills in.  The fields it
  shares by name with \<open>CatchpointFirstStageInfo\<close> carry the prefix \<open>Header\<close>.
\<close>

record CatchpointFileHeader =
  Version :: uint64
  BalancesRound :: Round
  BlocksRound :: Round
  HeaderTotals :: AccountTotals
  HeaderTotalAccounts :: uint64
  HeaderTotalKVs :: uint64
  HeaderTotalOnlineAccounts :: uint64
  HeaderTotalOnlineRoundParams :: uint64
  HeaderTotalChunks :: uint64
  Catchpoint :: string
  BlockHeaderDigest :: Digest

text \<open>
  The three label makers of \<open>ledgercore\<close>, with the arguments \<open>createCatchpoint\<close> gives
  them: round, block hash, trie balances hash, totals, and the hashes of the later
  versions.
\<close>

datatype CatchpointLabelMaker =
    CatchpointLabelMakerV6 Round Digest Digest AccountTotals
  | CatchpointLabelMakerV7 Round Digest Digest AccountTotals Digest
  | CatchpointLabelMakerCurrent Round Digest Digest AccountTotals Digest Digest Digest

text \<open>The constants of the file; Go reads \<open>0201\<close> as an octal literal.\<close>

definition CatchpointFileVersionV5 :: uint64 where "CatchpointFileVersionV5 = 128"
definition CatchpointFileVersionV6 :: uint64 where "CatchpointFileVersionV6 = 129"
definition CatchpointFileVersionV7 :: uint64 where "CatchpointFileVersionV7 = 130"
definition CatchpointFileVersionV8 :: uint64 where "CatchpointFileVersionV8 = 131"
definition CatchpointContentFileName :: string where
  "CatchpointContentFileName = ''content.msgpack''"

text \<open>
  A tar archive is the list of its entries.  The content of an entry of an input
  archive need not have the length its header declares: a truncated archive holds
  less.
\<close>

record tarHeader =
  Name :: string
  Mode :: int
  Size :: int

record tarEntry =
  hdr :: tarHeader
  content :: bytes

datatype codec = Snappy | Gzip

record archiveFile =
  fileCodec :: codec
  fileEntries :: "tarEntry list"
  fileDamage :: "error option"

text \<open>
  Modelled from the spec: the catchpoint store (package \<open>trackerdb\<close>, not among the
  sources), section 4.5: the string-addressed slots, the table of first-stage
  records, the unfinished markers and the registry of stored files.  The registry is
  a list of rows \<open>(round, file name, size)\<close> with one row per round.
\<close>

record Store =
  catchpointStateUint64 :: "CatchpointState \<Rightarrow> uint64"
  catchpointStateString :: "CatchpointState \<Rightarrow> string"
  firstStageInfos :: "Round \<rightharpoonup> CatchpointFirstStageInfo"
  unfinishedCatchpoints :: "Round \<rightharpoonup> Digest"
  storedCatchpoints :: "(Round \<times> string \<times> int) list"
  accountTotals :: AccountTotals
  spContexts :: bytes
  persistedTrie :: Trie

type_synonym FileSystem = "string \<rightharpoonup> archiveFile"

text \<open>
  The six counters \<open>generateCatchpointData\<close> returns: accounts, KVs, online accounts,
  online round params, chunks, biggest chunk length.
\<close>

type_synonym dataCounts = "uint64 \<times> uint64 \<times> uint64 \<times> uint64 \<times> uint64 \<times> uint64"

record env =
  Consensus :: "ConsensusVersion \<Rightarrow> ConsensusParams"
  fault :: "extOp \<Rightarrow> error option"
  telemetryEnabled :: bool
  MakeLabel :: "CatchpointLabelMaker \<Rightarrow> string"
  MakeCatchpointFilePath :: "Round \<Rightarrow> string"
  Encode :: "CatchpointFileHeader \<Rightarrow> bytes"
  EncodeAndHash :: "bytes \<Rightarrow> Digest \<times> bytes"
  onlineAccountsHash :: "Store \<Rightarrow> Digest"
  onlineRoundParamsHash :: "Store \<Rightarrow> Digest"
  rootHash :: "Digest set \<Rightarrow> Digest"
  fileSizeOf :: "archiveFile \<Rightarrow> int"
  writeDataFile ::
    "string \<Rightarrow> Round \<Rightarrow> bytes option \<Rightarrow> Store \<Rightarrow> FileSystem \<Rightarrow> (error + dataCounts) \<times> FileSystem"

subsection \<open>The tracker and the commit range\<close>

text \<open>
  \<open>catchpointDataSlowWriting\<close> is a channel that is never sent on: it is nil, open
  (a receive would block) or closed (a receive succeeds at once).
\<close>

datatype chan = ChanNil | ChanOpen | ChanClosed

text \<open>
  The fields of \<open>catchpointTracker\<close>.  \<open>log\<close> is what the logger has been given.  The
  two handles \<open>dbs\<close> and \<open>catchpointStore\<close> stand for the one database of the world
  below; the mutex \<open>catchpointsMu\<close> has no value.
\<close>

record catchpointTracker =
  tmpDir :: string
  dbDirectory :: string
  catchpointInterval :: uint64
  catchpointFileHistoryLength :: int
  enableGeneratingCatchpointFiles :: bool
  log :: "logEntry list"
  lastCatchpointLabel :: string
  catchpointDataSlowWriting :: chan
  catchpointDataWriting :: "32 word"
  balancesTrie :: "Trie option"
  roundDigest :: "Digest list"
  consensusVersion :: "ConsensusVersion list"
  reenableCatchpointsRound :: Round
  forceCatchpointFileWriting :: bool
  cachedDBRound :: Round

text \<open>
  \<open>deferredCommitRange\<close> is declared elsewhere in the package; these are the fields
  the tracker reads and writes.
\<close>

record deferredCommitRange =
  offset :: uint64
  oldBase :: Round
  catchpointLookback :: uint64
  catchpointFirstStage :: bool
  enableGeneratingCatchpointFilesDcr :: bool
  catchpointSecondStage :: bool

definition committedUpTo :: "catchpointTracker \<Rightarrow> Round \<Rightarrow> catchpointTracker \<times> Round \<times> Round" where
  "committedUpTo ct rnd = (ct, cachedDBRound ct, 0)"

definition isWritingCatchpointDataFile :: "catchpointTracker \<Rightarrow> bool" where
  "isWritingCatchpointDataFile ct = (catchpointDataWriting ct \<noteq> 0)"

definition catchpointEnabled :: "catchpointTracker \<Rightarrow> bool" where
  "catchpointEnabled ct = (catchpointInterval ct \<noteq> 0)"

text \<open>The method \<open>(ct *catchpointTracker) calculateCatchpointRounds(dcc)\<close>.\<close>

definition ct_calculateCatchpointRounds ::
  "catchpointTracker \<Rightarrow> deferredCommitRange \<Rightarrow> (error + Round list) option" where
  "ct_calculateCatchpointRounds ct dcc =
     (if catchpointInterval ct = 0 then Some (Inr [])
      else
        let minRound = (if catchpointLookback dcc + 1 > oldBase dcc + 1
                        then catchpointLookback dcc + 1 else oldBase dcc + 1);
            maxRound = oldBase dcc + offset dcc
        in calculateCatchpointRounds minRound maxRound (catchpointInterval ct))"

text \<open>
  \<open>produceCommittingTask\<close> writes through the pointer \<open>dcr\<close> and returns it or nil:
  the result is the tracker, the range behind the pointer, and the returned pointer
  (\<open>None\<close> for nil).  The arguments \<open>committedRound\<close> and \<open>dbRound\<close> are not read.
\<close>

definition produceCommittingTask ::
  "catchpointTracker \<Rightarrow> Round \<Rightarrow> Round \<Rightarrow> deferredCommitRange \<Rightarrow>
     (error + (catchpointTracker \<times> deferredCommitRange \<times> deferredCommitRange option)) option" where
  "produceCommittingTask ct committedRound dbRound dcr =
     (if catchpointInterval ct = 0 then Some (Inr (ct, dcr, Some dcr))
      else
        case calculateFirstStageRounds (oldBase dcr) (offset dcr) (reenableCatchpointsRound ct)
               (catchpointInterval ct) (catchpointLookback dcr) of
          Inl e \<Rightarrow> Some (Inl e)
        | Inr (hasIntermediateFirstStageRound, hasMultipleIntermediateFirstStageRounds, newOffset) \<Rightarrow>
            let dcr1 = dcr\<lparr>offset := newOffset\<rparr> in
            if isWritingCatchpointDataFile ct then
              (if hasIntermediateFirstStageRound then
                 (case catchpointDataSlowWriting ct of
                    ChanClosed \<Rightarrow> Some (Inr (ct, dcr1, None))
                  | ChanOpen \<Rightarrow> Some (Inr (ct\<lparr>catchpointDataSlowWriting := ChanClosed\<rparr>, dcr1, None))
                  | ChanNil \<Rightarrow> Some (Inl CloseOfNilChannel))
               else Some (Inr (ct, dcr1, None)))
            else
              let dcr2 = (if hasIntermediateFirstStageRound
                          then dcr1\<lparr>catchpointFirstStage := True\<rparr> else dcr1);
                  ct2 = (if hasIntermediateFirstStageRound \<and> enableGeneratingCatchpointFiles ct
                         then ct\<lparr>catchpointDataSlowWriting :=
                                   (if hasMultipleIntermediateFirstStageRounds
                                    then ChanClosed else ChanOpen)\<rparr>
                         else ct);
                  dcr3 = dcr2\<lparr>enableGeneratingCatchpointFilesDcr :=
                                enableGeneratingCatchpointFiles ct2\<rparr>
              in (case ct_calculateCatchpointRounds ct2 dcr3 of
                    None \<Rightarrow> None
                  | Some (Inl e) \<Rightarrow> Some (Inl e)
                  | Some (Inr rounds) \<Rightarrow>
                      let dcr4 = dcr3\<lparr>catchpointSecondStage := (length rounds > 0)\<rparr>
                      in Some (Inr (ct2, dcr4, Some dcr4))))"

subsection \<open>The world the tracker runs in\<close>

text \<open>
  The tracker, the database behind \<open>ct.dbs\<close> and \<open>ct.catchpointStore\<close>, and the
  files under \<open>tmpDir\<close> and \<open>dbDirectory\<close>.  A function of the tracker that returns
  an \<open>error\<close> is a function from the world to the error (\<open>None\<close> for nil) and the
  world it leaves behind.
\<close>

record world =
  tracker :: catchpointTracker
  store :: Store
  files :: FileSystem

definition logf :: "logEntry \<Rightarrow> world \<Rightarrow> world" where
  "logf e w = w\<lparr>tracker := (tracker w)\<lparr>log := log (tracker w) @ [e]\<rparr>\<rparr>"

definition zeroDigest :: Digest where
  "zeroDigest = replicate 32 0"

subsubsection \<open>Paths\<close>

text \<open>
  \<open>filepath.Join\<close> on two elements, without the cleaning of the result; and
  \<open>strconv.FormatInt(i, 10)\<close>.
\<close>

definition filepath_Join :: "string \<Rightarrow> string \<Rightarrow> string" where
  "filepath_Join a b = (if a = [] then b else if b = [] then a else a @ ''/'' @ b)"

definition digitChar :: "nat \<Rightarrow> char" where
  "digitChar d = char_of (48 + d)"

function FormatNat :: "nat \<Rightarrow> string" where
  "FormatNat n = (if n < 10 then [digitChar n] else FormatNat (n div 10) @ [digitChar (n mod 10)])"
  by pat_completeness auto
termination
  by (relation "measure id") auto

definition FormatInt :: "int \<Rightarrow> string" where
  "FormatInt i = (if i < 0 then ''-'' @ FormatNat (nat (- i)) else FormatNat (nat i))"

text \<open>Modelled from the spec: \<open>trackerdb.CatchpointDirName\<close>, the directory \<open>catchpoints\<close>.\<close>

definition CatchpointDirName :: string where
  "CatchpointDirName = ''catchpoints''"

definition makeCatchpointDataFilePath :: "Round \<Rightarrow> string" where
  "makeCatchpointDataFilePath accountsRound = FormatInt (sint accountsRound) @ ''.data''"

subsubsection \<open>The store\<close>

text \<open>
  Modelled from the spec: the operations of the catchpoint store, section 4.5.  Each
  fails when the environment says so and then changes nothing.
\<close>

definition ReadCatchpointStateUint64 :: "env \<Rightarrow> CatchpointState \<Rightarrow> world \<Rightarrow> error + uint64" where
  "ReadCatchpointStateUint64 env key w =
     (case fault env (OpReadCatchpointStateUint64 key) of
        Some e \<Rightarrow> Inl e
      | None \<Rightarrow> Inr (catchpointStateUint64 (store w) key))"

definition WriteCatchpointStateUint64 ::
  "env \<Rightarrow> CatchpointState \<Rightarrow> uint64 \<Rightarrow> world \<Rightarrow> error option \<times> world" where
  "WriteCatchpointStateUint64 env key v w =
     (case fault env (OpWriteCatchpointStateUint64 key) of
        Some e \<Rightarrow> (Some e, w)
      | None \<Rightarrow>
          (None, w\<lparr>store := (store w)\<lparr>catchpointStateUint64 :=
                     (catchpointStateUint64 (store w))(key := v)\<rparr>\<rparr>))"

definition WriteCatchpointStateString ::
  "env \<Rightarrow> CatchpointState \<Rightarrow> string \<Rightarrow> world \<Rightarrow> error option \<times> world" where
  "WriteCatchpointStateString env key v w =
     (case fault env (OpWriteCatchpointStateString key) of
        Some e \<Rightarrow> (Some e, w)
      | None \<Rightarrow>
          (None, w\<lparr>store := (store w)\<lparr>catchpointStateString :=
                     (catchpointStateString (store w))(key := v)\<rparr>\<rparr>))"

definition InsertOrReplaceCatchpointFirstStageInfo ::
  "env \<Rightarrow> Round \<Rightarrow> CatchpointFirstStageInfo \<Rightarrow> world \<Rightarrow> error option \<times> world" where
  "InsertOrReplaceCatchpointFirstStageInfo env round info w =
     (case fault env (OpInsertOrReplaceCatchpointFirstStageInfo round) of
        Some e \<Rightarrow> (Some e, w)
      | None \<Rightarrow>
          (None, w\<lparr>store := (store w)\<lparr>firstStageInfos :=
                     (firstStageInfos (store w))(round \<mapsto> info)\<rparr>\<rparr>))"

definition SelectCatchpointFirstStageInfo ::
  "env \<Rightarrow> Round \<Rightarrow> world \<Rightarrow> error + CatchpointFirstStageInfo option" where
  "SelectCatchpointFirstStageInfo env round w =
     (case fault env (OpSelectCatchpointFirstStageInfo round) of
        Some e \<Rightarrow> Inl e
      | None \<Rightarrow> Inr (firstStageInfos (store w) round))"

definition DeleteUnfinishedCatchpoint :: "env \<Rightarrow> Round \<Rightarrow> world \<Rightarrow> error option \<times> world" where
  "DeleteUnfinishedCatchpoint env round w =
     (case fault env (OpDeleteUnfinishedCatchpoint round) of
        Some e \<Rightarrow> (Some e, w)
      | None \<Rightarrow>
          (None, w\<lparr>store := (store w)\<lparr>unfinishedCatchpoints :=
                     (unfinishedCatchpoints (store w))(round := None)\<rparr>\<rparr>))"

text \<open>
  \<open>StoreCatchpoint\<close> with an empty file name deletes the row of the round: both callers
  in the tracker use it so ("delete it from the database", "unable to delete old
  catchpoint entry").
\<close>

definition StoreCatchpoint ::
  "env \<Rightarrow> Round \<Rightarrow> string \<Rightarrow> int \<Rightarrow> world \<Rightarrow> error option \<times> world" where
  "StoreCatchpoint env round fileName fileSize w =
     (case fault env (OpStoreCatchpoint round) of
        Some e \<Rightarrow> (Some e, w)
      | None \<Rightarrow>
          (let others = filter (\<lambda>row. fst row \<noteq> round) (storedCatchpoints (store w));
               rows = (if fileName = [] then others else (round, fileName, fileSize) # others)
           in (None, w\<lparr>store := (store w)\<lparr>storedCatchpoints := rows\<rparr>\<rparr>)))"

text \<open>
  \<open>GetOldestCatchpointFiles(fileCount, filesToKeep)\<close>: of the rows that are not among
  the \<open>filesToKeep\<close> newest, the \<open>fileCount\<close> oldest, as pairs of round and file name.
\<close>

definition GetOldestCatchpointFiles ::
  "env \<Rightarrow> nat \<Rightarrow> nat \<Rightarrow> world \<Rightarrow> error + (Round \<times> string) list" where
  "GetOldestCatchpointFiles env fileCount filesToKeep w =
     (case fault env OpGetOldestCatchpointFiles of
        Some e \<Rightarrow> Inl e
      | None \<Rightarrow>
          (let rows = sort_key fst (storedCatchpoints (store w));
               old = take (length rows - filesToKeep) rows
           in Inr (map (\<lambda>row. (fst row, fst (snd row))) (take fileCount old))))"

definition GetCatchpoint :: "env \<Rightarrow> Round \<Rightarrow> world \<Rightarrow> error + (string \<times> int)" where
  "GetCatchpoint env round w =
     (case fault env (OpGetCatchpoint round) of
        Some e \<Rightarrow> Inl e
      | None \<Rightarrow>
          (case map_of (storedCatchpoints (store w)) round of
             None \<Rightarrow> Inl ErrNoRows
           | Some row \<Rightarrow> Inr row))"

text \<open>
  Modelled from the spec: a transaction of the store.  The body runs; when it or the
  commit fails the database is as it was before, while the tracker in memory and
  the files keep what the body did to them.
\<close>

definition Transaction ::
  "env \<Rightarrow> (world \<Rightarrow> error option \<times> world) \<Rightarrow> world \<Rightarrow> error option \<times> world" where
  "Transaction env body w =
     (case fault env OpTransactionBegin of
        Some e \<Rightarrow> (Some e, w)
      | None \<Rightarrow>
          (case body w of
             (Some e, w1) \<Rightarrow> (Some e, w1\<lparr>store := store w\<rparr>)
           | (None, w1) \<Rightarrow>
               (case fault env OpTransactionCommit of
                  Some e \<Rightarrow> (Some e, w1\<lparr>store := store w\<rparr>)
                | None \<Rightarrow> (None, w1))))"

subsubsection \<open>Files\<close>

text \<open>
  Modelled from the spec: \<open>trackerdb.RemoveSingleCatchpointFileFromDisk\<close> deletes the
  file when it is there and succeeds when it is not.  Directories are not modelled:
  with an empty file name the path is the directory itself, which \<open>os.Remove\<close> refuses
  while something is under it; that refusal is a failure of \<open>OpRemove\<close> on the path of
  the directory, and an environment that does not fail there belongs to a world with
  nothing under the directory.
\<close>

definition RemoveSingleCatchpointFileFromDisk ::
  "env \<Rightarrow> string \<Rightarrow> string \<Rightarrow> world \<Rightarrow> error option \<times> world" where
  "RemoveSingleCatchpointFileFromDisk env dir fileToDelete w =
     (let absCatchpointFileName = filepath_Join dir fileToDelete in
      case fault env (OpRemove absCatchpointFileName) of
        Some e \<Rightarrow> (Some (ErrorfWrap ''unable to delete old catchpoint file'' e), w)
      | None \<Rightarrow> (None, w\<lparr>files := (files w)(absCatchpointFileName := None)\<rparr>))"

text \<open>\<open>os.Stat\<close> and \<open>os.OpenFile(path, O_RDONLY)\<close>: the file, or why there is none.\<close>

definition os_Stat :: "env \<Rightarrow> string \<Rightarrow> world \<Rightarrow> error + archiveFile" where
  "os_Stat env path w =
     (case fault env (OpStat path) of
        Some e \<Rightarrow> Inl e
      | None \<Rightarrow> (case files w path of None \<Rightarrow> Inl ErrNotExist | Some f \<Rightarrow> Inr f))"

definition os_Open :: "env \<Rightarrow> string \<Rightarrow> world \<Rightarrow> error + archiveFile" where
  "os_Open env path w =
     (case fault env (OpOpen path) of
        Some e \<Rightarrow> Inl e
      | None \<Rightarrow> (case files w path of None \<Rightarrow> Inl ErrNotExist | Some f \<Rightarrow> Inr f))"

subsubsection \<open>The trie\<close>

text \<open>
  Modelled from the spec: the operations of the trie, section 4.2.  Each records the
  call; one that fails leaves the digests as they were.
\<close>

definition Trie_Add :: "env \<Rightarrow> Digest \<Rightarrow> Trie \<Rightarrow> (error + bool) \<times> Trie" where
  "Trie_Add env d t =
     (case fault env (OpTrie (TrieAdd d)) of
        Some e \<Rightarrow> (Inl e, t\<lparr>calls := calls t @ [TrieAdd d]\<rparr>)
      | None \<Rightarrow>
          (Inr (d \<notin> members t),
           t\<lparr>members := insert d (members t), calls := calls t @ [TrieAdd d]\<rparr>))"

definition Trie_Delete :: "env \<Rightarrow> Digest \<Rightarrow> Trie \<Rightarrow> (error + bool) \<times> Trie" where
  "Trie_Delete env d t =
     (case fault env (OpTrie (TrieDelete d)) of
        Some e \<Rightarrow> (Inl e, t\<lparr>calls := calls t @ [TrieDelete d]\<rparr>)
      | None \<Rightarrow>
          (Inr (d \<in> members t),
           t\<lparr>members := members t - {d}, calls := calls t @ [TrieDelete d]\<rparr>))"

definition Trie_Commit :: "env \<Rightarrow> Trie \<Rightarrow> error option \<times> Trie" where
  "Trie_Commit env t = (fault env (OpTrie TrieCommit), t\<lparr>calls := calls t @ [TrieCommit]\<rparr>)"

definition Trie_RootHash :: "env \<Rightarrow> Trie \<Rightarrow> (error + Digest) \<times> Trie" where
  "Trie_RootHash env t =
     (case fault env (OpTrie TrieRootHash) of
        Some e \<Rightarrow> (Inl e, t\<lparr>calls := calls t @ [TrieRootHash]\<rparr>)
      | None \<Rightarrow> (Inr (rootHash env (members t)), t\<lparr>calls := calls t @ [TrieRootHash]\<rparr>))"

subsection \<open>accountsUpdateBalances\<close>

text \<open>
  The deltas are declared elsewhere in the package.  An account delta is its address
  with the old and the new account data, a resource delta its address with the old
  resource (data and index) and the new data; the data are opaque (the type
  variables) and the environment says which are empty and what their hashes are.
  \<open>protocol.Encode\<close> of the data and \<open>UpdateRound\<close> are functions of the data, so that
  a hash builder is a function of the data and of its other arguments.
\<close>

record 'a accountDelta =
  address :: Address
  oldAcct :: 'a
  newAcct :: 'a

record 'r resourceDelta =
  resAddress :: Address
  oldResourceData :: 'r
  oldResourceAidx :: uint64
  newResource :: 'r

record modifiedKvValue =
  data :: "bytes option"
  oldData :: "bytes option"

record ('a, 'r) hashBuilders =
  AccountDataIsEmpty :: "'a \<Rightarrow> bool"
  AccountHashBuilderV6 :: "Address \<Rightarrow> 'a \<Rightarrow> Digest"
  ResourcesDataIsEmpty :: "'r \<Rightarrow> bool"
  ResourcesHashBuilderV6 :: "'r \<Rightarrow> Address \<Rightarrow> uint64 \<Rightarrow> error + Digest"
  KvHashBuilderV6 :: "string \<Rightarrow> bytes \<Rightarrow> Digest"

text \<open>
  The block the source repeats for every hash to delete:
  \<open>deleted, err := ct.balancesTrie.Delete(deleteHash)\<close>, the error wrapped and returned,
  a false \<open>deleted\<close> logged, a true one counted.  \<open>what\<close> is the text of the message.
  A nil \<open>balancesTrie\<close> panics.  \<open>accumulatedChanges\<close> is a Go \<open>int\<close>; it counts at most
  two changes per delta and is modelled without a bound.
\<close>

definition deleteHashStep ::
  "env \<Rightarrow> string \<Rightarrow> Digest \<Rightarrow> int \<Rightarrow> catchpointTracker \<Rightarrow> (error + int) \<times> catchpointTracker" where
  "deleteHashStep env what deleteHash accumulatedChanges ct =
     (case balancesTrie ct of
        None \<Rightarrow> (Inl NilDereference, ct)
      | Some t \<Rightarrow>
          (case Trie_Delete env deleteHash t of
             (Inl err, t1) \<Rightarrow> (Inl (ErrorfWrap what err), ct\<lparr>balancesTrie := Some t1\<rparr>)
           | (Inr deleted, t1) \<Rightarrow>
               if \<not> deleted
               then (Inr accumulatedChanges,
                     ct\<lparr>balancesTrie := Some t1, log := log ct @ [Errorf what deleteHash]\<rparr>)
               else (Inr (accumulatedChanges + 1), ct\<lparr>balancesTrie := Some t1\<rparr>)))"

definition addHashStep ::
  "env \<Rightarrow> string \<Rightarrow> Digest \<Rightarrow> int \<Rightarrow> catchpointTracker \<Rightarrow> (error + int) \<times> catchpointTracker" where
  "addHashStep env what addHash accumulatedChanges ct =
     (case balancesTrie ct of
        None \<Rightarrow> (Inl NilDereference, ct)
      | Some t \<Rightarrow>
          (case Trie_Add env addHash t of
             (Inl err, t1) \<Rightarrow> (Inl (ErrorfWrap what err), ct\<lparr>balancesTrie := Some t1\<rparr>)
           | (Inr added, t1) \<Rightarrow>
               if \<not> added
               then (Inr accumulatedChanges,
                     ct\<lparr>balancesTrie := Some t1, log := log ct @ [Errorf what addHash]\<rparr>)
               else (Inr (accumulatedChanges + 1), ct\<lparr>balancesTrie := Some t1\<rparr>)))"

text \<open>The loop over \<open>accountsDeltas\<close>.\<close>

fun accountsDeltasLoop ::
  "('a, 'r) hashBuilders \<Rightarrow> env \<Rightarrow> 'a accountDelta list \<Rightarrow> int \<Rightarrow> catchpointTracker \<Rightarrow>
     (error + int) \<times> catchpointTracker" where
  "accountsDeltasLoop hb env [] accumulatedChanges ct = (Inr accumulatedChanges, ct)"
| "accountsDeltasLoop hb env (delta # rest) accumulatedChanges ct =
     (case (if \<not> AccountDataIsEmpty hb (oldAcct delta)
            then deleteHashStep env ''failed to delete hash from merkle trie for account''
                   (AccountHashBuilderV6 hb (address delta) (oldAcct delta)) accumulatedChanges ct
            else (Inr accumulatedChanges, ct)) of
        (Inl err, ct1) \<Rightarrow> (Inl err, ct1)
      | (Inr changes1, ct1) \<Rightarrow>
          (case (if \<not> AccountDataIsEmpty hb (newAcct delta)
                 then addHashStep env ''attempted to add duplicate hash to merkle trie for account''
                        (AccountHashBuilderV6 hb (address delta) (newAcct delta)) changes1 ct1
                 else (Inr changes1, ct1)) of
             (Inl err, ct2) \<Rightarrow> (Inl err, ct2)
           | (Inr changes2, ct2) \<Rightarrow> accountsDeltasLoop hb env rest changes2 ct2))"

text \<open>
  The loop over \<open>resourcesDeltas\<close>.  The hash of the new resource is built with the
  index of the old one, as the source does.
\<close>

fun resourcesDeltasLoop ::
  "('a, 'r) hashBuilders \<Rightarrow> env \<Rightarrow> 'r resourceDelta list \<Rightarrow> int \<Rightarrow> catchpointTracker \<Rightarrow>
     (error + int) \<times> catchpointTracker" where
  "resourcesDeltasLoop hb env [] accumulatedChanges ct = (Inr accumulatedChanges, ct)"
| "resourcesDeltasLoop hb env (resDelta # rest) accumulatedChanges ct =
     (case (if \<not> ResourcesDataIsEmpty hb (oldResourceData resDelta)
            then (case ResourcesHashBuilderV6 hb (oldResourceData resDelta) (resAddress resDelta)
                         (oldResourceAidx resDelta) of
                    Inl err \<Rightarrow> (Inl err, ct)
                  | Inr deleteHash \<Rightarrow>
                      deleteHashStep env
                        ''failed to delete resource hash from merkle trie for account''
                        deleteHash accumulatedChanges ct)
            else (Inr accumulatedChanges, ct)) of
        (Inl err, ct1) \<Rightarrow> (Inl err, ct1)
      | (Inr changes1, ct1) \<Rightarrow>
          (case (if \<not> ResourcesDataIsEmpty hb (newResource resDelta)
                 then (case ResourcesHashBuilderV6 hb (newResource resDelta) (resAddress resDelta)
                              (oldResourceAidx resDelta) of
                         Inl err \<Rightarrow> (Inl err, ct1)
                       | Inr addHash \<Rightarrow>
                           addHashStep env
                             ''attempted to add duplicate resource hash to merkle trie for account''
                             addHash changes1 ct1)
                 else (Inr changes1, ct1)) of
             (Inl err, ct2) \<Rightarrow> (Inl err, ct2)
           | (Inr changes2, ct2) \<Rightarrow> resourcesDeltasLoop hb env rest changes2 ct2))"

text \<open>
  The loop over \<open>kvDeltas\<close>.  Go visits the keys of a map in an order it does not
  specify: the list is the map in the order of one run.  A nil slice is \<open>None\<close>, so
  that nil and the empty slice differ as they do for \<open>mv.data != nil\<close>.
\<close>

fun kvDeltasLoop ::
  "('a, 'r) hashBuilders \<Rightarrow> env \<Rightarrow> (string \<times> modifiedKvValue) list \<Rightarrow> int \<Rightarrow> catchpointTracker \<Rightarrow>
     (error + int) \<times> catchpointTracker" where
  "kvDeltasLoop hb env [] accumulatedChanges ct = (Inr accumulatedChanges, ct)"
| "kvDeltasLoop hb env ((key, mv) # rest) accumulatedChanges ct =
     (if oldData mv = None \<and> data mv = None
      then kvDeltasLoop hb env rest accumulatedChanges ct
      else if oldData mv \<noteq> None \<and> data mv \<noteq> None \<and> the (oldData mv) = the (data mv)
      then kvDeltasLoop hb env rest accumulatedChanges ct
      else
        (case (case oldData mv of
                 None \<Rightarrow> (Inr accumulatedChanges, ct)
               | Some old \<Rightarrow>
                   deleteHashStep env ''failed to delete kv hash from merkle trie for key''
                     (KvHashBuilderV6 hb key old) accumulatedChanges ct) of
           (Inl err, ct1) \<Rightarrow> (Inl err, ct1)
         | (Inr changes1, ct1) \<Rightarrow>
             (case (case data mv of
                      None \<Rightarrow> (Inr changes1, ct1)
                    | Some new \<Rightarrow>
                        addHashStep env ''attempted to add duplicate kv hash from merkle trie for key''
                          (KvHashBuilderV6 hb key new) changes1 ct1) of
                (Inl err, ct2) \<Rightarrow> (Inl err, ct2)
              | (Inr changes2, ct2) \<Rightarrow> kvDeltasLoop hb env rest changes2 ct2)))"

text \<open>
  After the loops: \<open>Commit\<close> when something has changed, then the telemetry event,
  which reads the root of the trie.  The result is \<open>commitErr\<close>.
\<close>

definition commitAndReport :: "env \<Rightarrow> int \<Rightarrow> catchpointTracker \<Rightarrow> error option \<times> catchpointTracker" where
  "commitAndReport env accumulatedChanges ct =
     (case (if accumulatedChanges > 0
            then (case balancesTrie ct of
                    None \<Rightarrow> (Inl NilDereference, ct)
                  | Some t \<Rightarrow>
                      (case Trie_Commit env t of
                         (commitErr, t1) \<Rightarrow> (Inr commitErr, ct\<lparr>balancesTrie := Some t1\<rparr>)))
            else (Inr None, ct)) of
        (Inl panic, ct1) \<Rightarrow> (Some panic, ct1)
      | (Inr commitErr, ct1) \<Rightarrow>
          if telemetryEnabled env
          then (case balancesTrie ct1 of
                  None \<Rightarrow> (Some NilDereference, ct1)
                | Some t \<Rightarrow>
                    (case Trie_RootHash env t of
                       (Inl rootErr, t1) \<Rightarrow>
                         (commitErr,
                          ct1\<lparr>balancesTrie := Some t1,
                              log := log ct1 @
                                [ErrorfPlain ''accountsUpdateBalances: error retrieving balances trie root'']\<rparr>)
                     | (Inr root, t1) \<Rightarrow>
                         (commitErr,
                          ct1\<lparr>balancesTrie := Some t1,
                              log := log ct1 @ [EventWithDetails ''CatchpointRootUpdateEvent'']\<rparr>)))
          else (commitErr, ct1))"

definition accountsUpdateBalances ::
  "('a, 'r) hashBuilders \<Rightarrow> env \<Rightarrow> 'a accountDelta list \<Rightarrow> 'r resourceDelta list \<Rightarrow>
     (string \<times> modifiedKvValue) list \<Rightarrow> Round \<Rightarrow> Round \<Rightarrow> catchpointTracker \<Rightarrow>
     error option \<times> catchpointTracker" where
  "accountsUpdateBalances hb env accountsDeltas resourcesDeltas kvDeltas oldBaseRound newBaseRound ct =
     (if \<not> catchpointEnabled ct then (None, ct)
      else
        case accountsDeltasLoop hb env accountsDeltas 0 ct of
          (Inl err, ct1) \<Rightarrow> (Some err, ct1)
        | (Inr changes1, ct1) \<Rightarrow>
            (case resourcesDeltasLoop hb env resourcesDeltas changes1 ct1 of
               (Inl err, ct2) \<Rightarrow> (Some err, ct2)
             | (Inr changes2, ct2) \<Rightarrow>
                 (case kvDeltasLoop hb env kvDeltas changes2 ct2 of
                    (Inl err, ct3) \<Rightarrow> (Some err, ct3)
                  | (Inr changes3, ct3) \<Rightarrow> commitAndReport env changes3 ct3)))"

subsection \<open>doRepackCatchpoint and repackCatchpoint\<close>

text \<open>
  The input \<open>*tar.Reader\<close>: the entries \<open>in.Next()\<close> still has to deliver and what it
  returns after the last of them, \<open>None\<close> for \<open>io.EOF\<close> at the end of a well-formed
  archive, an error for a stream that is damaged there.
\<close>

record tarReader =
  entriesLeft :: "tarEntry list"
  endError :: "error option"

text \<open>
  What \<open>tar.Reader\<close> delivers of an entry: never more than its header declares, and
  after the bytes \<open>io.EOF\<close> when the entry is whole, \<open>io.ErrUnexpectedEOF\<close> when the
  archive holds less than the header declares.
\<close>

definition entryData :: "tarEntry \<Rightarrow> bytes" where
  "entryData entry = take (nat (Size (hdr entry))) (content entry)"

definition entryEnd :: "tarEntry \<Rightarrow> error" where
  "entryEnd entry =
     (if int (length (content entry)) < Size (hdr entry) then ErrUnexpectedEOF else EOF)"

text \<open>
  \<open>io.ReadAtLeast(in, buf, min)\<close> for a buffer of \<open>bufLen\<close> bytes, on a reader that
  delivers \<open>readerData\<close> and then returns \<open>readerEnd\<close>: the bytes read and the error.
  A \<open>Read\<close> delivers all the bytes that fit into the buffer.
\<close>

definition ReadAtLeast :: "bytes \<Rightarrow> error \<Rightarrow> nat \<Rightarrow> int \<Rightarrow> bytes \<times> error option" where
  "ReadAtLeast readerData readerEnd bufLen minBytes =
     (if int bufLen < minBytes then ([], Some ErrShortBuffer)
      else if minBytes \<le> 0 then ([], None)
      else
        let got = take bufLen readerData in
        if minBytes \<le> int (length got) then (got, None)
        else (got, Some (if got \<noteq> [] \<and> readerEnd = EOF then ErrUnexpectedEOF
                         else readerEnd)))"

text \<open>
  A \<open>context.Context\<close> is what its \<open>Err()\<close> answers each time it is asked: the
  \<open>k\<close>-th answer is \<open>ctx k\<close>.  \<open>context.Background()\<close> is never cancelled.
\<close>

type_synonym Context = "nat \<Rightarrow> error option"

definition Background :: Context where
  "Background = (\<lambda>k. None)"

text \<open>
  The loop of \<open>doRepackCatchpoint\<close>.  \<open>k\<close> counts the iterations, \<open>out\<close> is what the
  \<open>*tar.Writer\<close> has written.  A write of the content that fails leaves the header of
  the entry without its content.
\<close>

fun doRepackLoop ::
  "env \<Rightarrow> Context \<Rightarrow> nat \<Rightarrow> error option \<Rightarrow> nat \<Rightarrow> tarEntry list \<Rightarrow> tarEntry list \<Rightarrow>
     error option \<times> tarEntry list" where
  "doRepackLoop env ctx bufLen endErr k [] out =
     (case ctx k of
        Some err \<Rightarrow> (Some err, out)
      | None \<Rightarrow>
          (case endErr of
             None \<Rightarrow> (None, out)
           | Some err \<Rightarrow> if err = EOF then (None, out) else (Some err, out)))"
| "doRepackLoop env ctx bufLen endErr k (entry # rest) out =
     (case ctx k of
        Some err \<Rightarrow> (Some err, out)
      | None \<Rightarrow>
          (case ReadAtLeast (entryData entry) (entryEnd entry) bufLen (Size (hdr entry)) of
             (got, err) \<Rightarrow>
               if err \<noteq> None \<and> err \<noteq> Some EOF then (err, out)
               else if int (length got) \<noteq> Size (hdr entry)
               then (Some (ErrorfMsg ''read too many bytes from chunk''), out)
               else
                 (case fault env (OpTarWriteHeader (length out)) of
                    Some werr \<Rightarrow> (Some werr, out)
                  | None \<Rightarrow>
                      (case fault env (OpTarWrite (length out)) of
                         Some werr \<Rightarrow> (Some werr, out @ [\<lparr>hdr = hdr entry, content = []\<rparr>])
                       | None \<Rightarrow>
                           doRepackLoop env ctx bufLen endErr (Suc k) rest
                             (out @ [\<lparr>hdr = hdr entry, content = got\<rparr>])))))"

text \<open>
  The entry of the header.  \<open>0600\<close> is octal.  \<open>make([]byte, biggestChunkLen)\<close> panics
  when the length exceeds \<open>maxAlloc\<close>.
\<close>

definition contentEntry :: "env \<Rightarrow> CatchpointFileHeader \<Rightarrow> tarEntry" where
  "contentEntry env header =
     \<lparr>hdr = \<lparr>Name = CatchpointContentFileName, Mode = 384,
             Size = int (length (Encode env header))\<rparr>,
      content = Encode env header\<rparr>"

definition doRepackCatchpoint ::
  "env \<Rightarrow> Context \<Rightarrow> CatchpointFileHeader \<Rightarrow> uint64 \<Rightarrow> tarReader \<Rightarrow> tarEntry list \<Rightarrow>
     error option \<times> tarEntry list" where
  "doRepackCatchpoint env ctx header biggestChunkLen inR out =
     (case fault env (OpTarWriteHeader (length out)) of
        Some err \<Rightarrow> (Some err, out)
      | None \<Rightarrow>
          (case fault env (OpTarWrite (length out)) of
             Some err \<Rightarrow> (Some err, out @ [(contentEntry env header)\<lparr>content := []\<rparr>])
           | None \<Rightarrow>
               if uint biggestChunkLen > maxAlloc
               then (Some MakeSliceLenOutOfRange, out @ [contentEntry env header])
               else doRepackLoop env ctx (unat biggestChunkLen) (endError inR) 0 (entriesLeft inR)
                      (out @ [contentEntry env header])))"

text \<open>
  A file holds an archive under one of the two compressions; \<open>fileDamage\<close> is the
  error a reader meets after the last entry it can deliver.  Reading a file through
  the stage-1 decoder gives its entries when it is a Snappy stream, and an error at
  once when it is not.
\<close>

definition stage1Reader :: "archiveFile \<Rightarrow> tarReader" where
  "stage1Reader f =
     (if fileCodec f = Snappy
      then \<lparr>entriesLeft = fileEntries f, endError = fileDamage f\<rparr>
      else \<lparr>entriesLeft = [], endError = Some (ErrOther ''snappy: corrupt input'')\<rparr>)"

text \<open>
  \<open>repackCatchpoint\<close>.  The output is opened with \<open>O_RDWR|O_CREATE\<close>; a file that was
  there before is taken to be overwritten whole (the callers remove a stale archive
  first).  \<open>catchpointStage1Decoder\<close>, \<open>gzip.NewWriterLevel\<close> at \<open>BestSpeed\<close> and the
  \<open>Close\<close> of the Snappy reader do not fail.  The deferred \<open>Close\<close> calls of the tar
  writer, of the gzip writer and of the file run on every return, so what is left is
  a complete gzip stream of the entries written, unless closing the gzip writer
  fails; a tar archive without its end marker reads as one that ends after its last
  entry.
\<close>

definition repackCatchpoint ::
  "env \<Rightarrow> Context \<Rightarrow> CatchpointFileHeader \<Rightarrow> uint64 \<Rightarrow> string \<Rightarrow> string \<Rightarrow> world \<Rightarrow>
     error option \<times> world" where
  "repackCatchpoint env ctx header biggestChunkLen dataPath outPath w =
     (case os_Open env dataPath w of
        Inl err \<Rightarrow> (Some err, w)
      | Inr fin \<Rightarrow>
          (case fault env (OpCreate outPath) of
             Some err \<Rightarrow> (Some err, w)
           | None \<Rightarrow>
               (case doRepackCatchpoint env ctx header biggestChunkLen (stage1Reader fin) [] of
                  (res, out) \<Rightarrow>
                    let closed = w\<lparr>files := (files w)(outPath \<mapsto>
                                   \<lparr>fileCodec = Gzip, fileEntries = out,
                                    fileDamage = (case fault env OpGzipClose of
                                                    None \<Rightarrow> None
                                                  | Some err \<Rightarrow> Some ErrUnexpectedEOF)\<rparr>)\<rparr>
                    in (case res of
                          Some err \<Rightarrow> (Some err, closed)
                        | None \<Rightarrow>
                            (case fault env OpTarClose of
                               Some err \<Rightarrow> (Some err, closed)
                             | None \<Rightarrow>
                                 (case fault env OpGzipClose of
                                    Some err \<Rightarrow> (Some err, closed)
                                  | None \<Rightarrow>
                                      (case fault env (OpClose outPath) of
                                         Some err \<Rightarrow> (Some err, closed)
                                       | None \<Rightarrow>
                                           (case fault env (OpClose dataPath) of
                                              Some err \<Rightarrow> (Some err, closed)
                                            | None \<Rightarrow> (None, closed)))))))))"

subsection \<open>The first stage\<close>

definition getSPVerificationData :: "env \<Rightarrow> world \<Rightarrow> error + (bytes \<times> Digest)" where
  "getSPVerificationData env w =
     (case fault env OpSnapshot of
        Some err \<Rightarrow> Inl err
      | None \<Rightarrow>
          (case fault env OpGetAllSPContexts of
             Some dbErr \<Rightarrow> Inl dbErr
           | None \<Rightarrow>
               (case EncodeAndHash env (spContexts (store w)) of
                  (spVerificationHash, encodedData) \<Rightarrow> Inr (encodedData, spVerificationHash))))"

text \<open>
  The snapshot of \<open>finishFirstStage\<close> that hashes the online accounts and the online
  round params (\<open>calculateVerificationHash\<close> is not among the sources: the hashes are
  functions of the store).
\<close>

definition onlineVerificationHashes :: "env \<Rightarrow> world \<Rightarrow> error + (Digest \<times> Digest)" where
  "onlineVerificationHashes env w =
     (case fault env OpSnapshot of
        Some err \<Rightarrow> Inl err
      | None \<Rightarrow>
          (case fault env OpOnlineAccountsHash of
             Some dbErr \<Rightarrow> Inl dbErr
           | None \<Rightarrow>
               (case fault env OpOnlineRoundParamsHash of
                  Some dbErr \<Rightarrow> Inl dbErr
                | None \<Rightarrow>
                    Inr (onlineAccountsHash env (store w), onlineRoundParamsHash env (store w)))))"

text \<open>
  \<open>generateCatchpointData\<close> drives the chunk writer (\<open>catchpointFileWriter\<close>, not among
  the sources) on the data file of the round, paced by the wall clock.  What the
  writer leaves in the file system and what it returns is the function
  \<open>writeDataFile\<close> of the environment, which may be any function; on an error the
  six counters are zero.
\<close>

definition generateCatchpointData ::
  "env \<Rightarrow> Round \<Rightarrow> bytes option \<Rightarrow> world \<Rightarrow> (error + dataCounts) \<times> world" where
  "generateCatchpointData env accountsRound encodedSPData w =
     (let catchpointDataFilePath =
            filepath_Join (filepath_Join (tmpDir (tracker w)) CatchpointDirName)
              (makeCatchpointDataFilePath accountsRound);
          w0 = logf (Debugf ''catchpointTracker.generateCatchpointData() writing catchpoint accounts'') w
      in case writeDataFile env catchpointDataFilePath accountsRound encodedSPData (store w0)
                (files w0) of
           (Inl err, fs) \<Rightarrow>
             (Inl err, logf (Warnf ''catchpointTracker.generateCatchpointData()'') (w0\<lparr>files := fs\<rparr>))
         | (Inr counts, fs) \<Rightarrow> (Inr counts, w0\<lparr>files := fs\<rparr>))"

text \<open>
  \<open>recordFirstStageInfo\<close>, called inside the transaction of \<open>finishFirstStage\<close>.
  \<open>merkletrie.MakeTrie\<close> on the committer of the transaction gives the trie the
  database holds.
\<close>

definition recordFirstStageInfo ::
  "env \<Rightarrow> Round \<Rightarrow> dataCounts \<Rightarrow> Digest \<Rightarrow> Digest \<Rightarrow> Digest \<Rightarrow> world \<Rightarrow> error option \<times> world" where
  "recordFirstStageInfo env accountsRound counts stateProofVerificationHash
       onlineAccountsVerificationHash onlineRoundParamsVerificationHash w =
     (case fault env OpMakeAccountsReader of
        Some err \<Rightarrow> (Some err, w)
      | None \<Rightarrow>
     (case fault env OpAccountsTotals of
        Some err \<Rightarrow> (Some err, w)
      | None \<Rightarrow>
     (case fault env OpMakeMerkleCommitter of
        Some err \<Rightarrow> (Some err, w)
      | None \<Rightarrow>
     (case (case balancesTrie (tracker w) of
              None \<Rightarrow>
                (case fault env OpMakeTrie of
                   Some trieErr \<Rightarrow> Inl trieErr
                 | None \<Rightarrow> Inr (persistedTrie (store w)))
            | Some t \<Rightarrow> Inr (t\<lparr>calls := calls t @ [TrieSetCommitter]\<rparr>)) of
        Inl trieErr \<Rightarrow> (Some trieErr, w)
      | Inr t \<Rightarrow>
          (case Trie_RootHash env t of
             (Inl err, t1) \<Rightarrow> (Some err, w\<lparr>tracker := (tracker w)\<lparr>balancesTrie := Some t1\<rparr>\<rparr>)
           | (Inr trieBalancesHash, t1) \<Rightarrow>
               let w1 = w\<lparr>tracker := (tracker w)\<lparr>balancesTrie := Some t1\<rparr>\<rparr> in
               (case fault env OpMakeCatchpointWriter of
                  Some err \<Rightarrow> (Some err, w1)
                | None \<Rightarrow>
                    (case counts of
                       (totalAccounts, totalKVs, totalOnlineAccounts, totalOnlineRoundParams,
                        totalChunks, biggestChunkLen) \<Rightarrow>
                         let info = \<lparr>Totals = accountTotals (store w1),
                                     TotalAccounts = totalAccounts,
                                     TotalKVs = totalKVs,
                                     TotalOnlineAccounts = totalOnlineAccounts,
                                     TotalOnlineRoundParams = totalOnlineRoundParams,
                                     TotalChunks = totalChunks,
                                     BiggestChunkLen = biggestChunkLen,
                                     TrieBalancesHash = trieBalancesHash,
                                     StateProofVerificationHash = stateProofVerificationHash,
                                     OnlineAccountsHash = onlineAccountsVerificationHash,
                                     OnlineRoundParamsHash = onlineRoundParamsVerificationHash\<rparr>
                         in (case InsertOrReplaceCatchpointFirstStageInfo env accountsRound info w1 of
                               (Some err, w2) \<Rightarrow> (Some err, w2)
                             | (None, w2) \<Rightarrow>
                                 (None,
                                  logf (Infof ''Catchpoint data file was generated'')
                                    (logf (EventWithDetails ''CatchpointGenerationEvent'') w2))))))))))"

text \<open>
  \<open>finishFirstStage\<close>.  The duration \<open>updatingBalancesDuration\<close> only goes into the
  telemetry and is left out.  The body of the final transaction is a definition of
  its own.
\<close>

definition finishFirstStage_tx ::
  "env \<Rightarrow> Round \<Rightarrow> dataCounts \<Rightarrow> Digest \<Rightarrow> Digest \<Rightarrow> Digest \<Rightarrow> world \<Rightarrow> error option \<times> world" where
  "finishFirstStage_tx env dbRound counts spVerificationHash onlineAccountsHash'
       onlineRoundParamsHash' w =
     (case fault env OpMakeCatchpointWriter of
        Some err \<Rightarrow> (Some err, w)
      | None \<Rightarrow>
          (case recordFirstStageInfo env dbRound counts spVerificationHash onlineAccountsHash'
                  onlineRoundParamsHash' w of
             (Some err, w1) \<Rightarrow> (Some err, w1)
           | (None, w1) \<Rightarrow>
               WriteCatchpointStateUint64 env CatchpointStateWritingFirstStageInfo 0 w1))"

definition finishFirstStage ::
  "env \<Rightarrow> Round \<Rightarrow> ConsensusVersion \<Rightarrow> world \<Rightarrow> error option \<times> world" where
  "finishFirstStage env dbRound blockProto w =
     (let w0 = logf (Infof ''finishing catchpoint's first stage'') w;
          params = Consensus env blockProto
      in
      case (if EnableCatchpointsWithSPContexts params
            then (case getSPVerificationData env w0 of
                    Inl err \<Rightarrow> Inl err
                  | Inr (encodedData, spHash) \<Rightarrow> Inr (Some encodedData, spHash))
            else Inr (None, zeroDigest)) of
        Inl err \<Rightarrow> (Some err, w0)
      | Inr (spVerificationEncodedData, spVerificationHash) \<Rightarrow>
          (case (if EnableCatchpointsWithOnlineAccounts params
                 then onlineVerificationHashes env w0
                 else Inr (zeroDigest, zeroDigest)) of
             Inl err \<Rightarrow> (Some err, w0)
           | Inr (onlineAccountsHash', onlineRoundParamsHash') \<Rightarrow>
               (case (if enableGeneratingCatchpointFiles (tracker w0)
                      then (case generateCatchpointData env dbRound spVerificationEncodedData w0 of
                              (r, w1) \<Rightarrow>
                                (r, w1\<lparr>tracker := (tracker w1)\<lparr>catchpointDataWriting := 0\<rparr>\<rparr>))
                      else (Inr (0, 0, 0, 0, 0, 0), w0)) of
                  (Inl err, w1) \<Rightarrow> (Some err, w1)
                | (Inr counts, w1) \<Rightarrow>
                    Transaction env
                      (finishFirstStage_tx env dbRound counts spVerificationHash
                         onlineAccountsHash' onlineRoundParamsHash') w1)))"

definition finishFirstStageAfterCrash ::
  "env \<Rightarrow> Round \<Rightarrow> ConsensusVersion \<Rightarrow> world \<Rightarrow> error option \<times> world" where
  "finishFirstStageAfterCrash env dbRound blockProto w =
     (case ReadCatchpointStateUint64 env CatchpointStateWritingFirstStageInfo w of
        Inl err \<Rightarrow> (Some err, w)
      | Inr v \<Rightarrow>
          if v = 0 then (None, w)
          else
            let relCatchpointDataFilePath =
                  filepath_Join CatchpointDirName (makeCatchpointDataFilePath dbRound)
            in (case RemoveSingleCatchpointFileFromDisk env (tmpDir (tracker w))
                       relCatchpointDataFilePath w of
                  (Some err, w1) \<Rightarrow> (Some err, w1)
                | (None, w1) \<Rightarrow> finishFirstStage env dbRound blockProto w1))"

subsection \<open>The second stage\<close>

text \<open>
  The loop of \<open>recordCatchpointFile\<close> over \<open>filesToDelete\<close>, a Go map: the list is
  the map in the order of one run.
\<close>

fun deleteOldCatchpointFiles ::
  "env \<Rightarrow> (Round \<times> string) list \<Rightarrow> world \<Rightarrow> error option \<times> world" where
  "deleteOldCatchpointFiles env [] w = (None, w)"
| "deleteOldCatchpointFiles env ((round, fileToDelete) # rest) w =
     (case RemoveSingleCatchpointFileFromDisk env (dbDirectory (tracker w)) fileToDelete w of
        (Some err, w1) \<Rightarrow> (Some err, w1)
      | (None, w1) \<Rightarrow>
          (case StoreCatchpoint env round [] 0 w1 of
             (Some err, w2) \<Rightarrow>
               (Some (ErrorfWrap ''unable to delete old catchpoint entry'' err), w2)
           | (None, w2) \<Rightarrow> deleteOldCatchpointFiles env rest w2))"

definition recordCatchpointFile ::
  "env \<Rightarrow> Round \<Rightarrow> string \<Rightarrow> int \<Rightarrow> world \<Rightarrow> error option \<times> world" where
  "recordCatchpointFile env round relCatchpointFilePath fileSize w =
     (case (if catchpointFileHistoryLength (tracker w) \<noteq> 0
            then (case StoreCatchpoint env round relCatchpointFilePath fileSize w of
                    (Some err, w1) \<Rightarrow>
                      (Some err,
                       logf (Warnf ''catchpointTracker.recordCatchpointFile() unable to save catchpoint'') w1)
                  | (None, w1) \<Rightarrow> (None, w1))
            else (case RemoveSingleCatchpointFileFromDisk env (dbDirectory (tracker w))
                         relCatchpointFilePath w of
                    (Some err, w1) \<Rightarrow>
                      (Some err,
                       logf (Warnf ''catchpointTracker.recordCatchpointFile() unable to remove file'') w1)
                  | (None, w1) \<Rightarrow> (None, w1))) of
        (Some err, w1) \<Rightarrow> (Some err, w1)
      | (None, w1) \<Rightarrow>
          if catchpointFileHistoryLength (tracker w1) = - 1 then (None, w1)
          else
            (case GetOldestCatchpointFiles env 2 (nat (catchpointFileHistoryLength (tracker w1))) w1 of
               Inl err \<Rightarrow>
                 (Some (ErrorfWrap
                    ''unable to delete catchpoint file, getOldestCatchpointFiles failed'' err), w1)
             | Inr filesToDelete \<Rightarrow> deleteOldCatchpointFiles env filesToDelete w1))"

text \<open>
  Lines 806 to 821 of \<open>createCatchpoint\<close>: the label maker and the file version, from
  the consensus parameters of the block.
\<close>

definition createCatchpoint_labelMaker ::
  "ConsensusParams \<Rightarrow> Round \<Rightarrow> CatchpointFirstStageInfo \<Rightarrow> Digest \<Rightarrow>
     error + (CatchpointLabelMaker \<times> uint64)" where
  "createCatchpoint_labelMaker params round dataInfo blockHash =
     (if EnableCatchpointsWithOnlineAccounts params then
        (if \<not> EnableCatchpointsWithSPContexts params
         then Inl (ErrorfMsg
                ''invalid params for catchpoint file version v8: SP contexts not enabled'')
         else Inr (CatchpointLabelMakerCurrent round blockHash (TrieBalancesHash dataInfo)
                     (Totals dataInfo) (StateProofVerificationHash dataInfo)
                     (OnlineAccountsHash dataInfo) (OnlineRoundParamsHash dataInfo),
                   CatchpointFileVersionV8))
      else if EnableCatchpointsWithSPContexts params
      then Inr (CatchpointLabelMakerV7 round blockHash (TrieBalancesHash dataInfo)
                  (Totals dataInfo) (StateProofVerificationHash dataInfo),
                CatchpointFileVersionV7)
      else Inr (CatchpointLabelMakerV6 round blockHash (TrieBalancesHash dataInfo)
                  (Totals dataInfo),
                CatchpointFileVersionV6))"

text \<open>The body of the transaction at the end of \<open>createCatchpoint\<close>.\<close>

definition createCatchpoint_tx ::
  "env \<Rightarrow> Round \<Rightarrow> string \<Rightarrow> int \<Rightarrow> world \<Rightarrow> error option \<times> world" where
  "createCatchpoint_tx env round relCatchpointFilePath fileSize w =
     (case fault env OpMakeCatchpointReaderWriter of
        Some err \<Rightarrow> (Some err, w)
      | None \<Rightarrow>
          (case recordCatchpointFile env round relCatchpointFilePath fileSize w of
             (Some err, w1) \<Rightarrow> (Some err, w1)
           | (None, w1) \<Rightarrow> DeleteUnfinishedCatchpoint env round w1))"

definition createCatchpoint ::
  "env \<Rightarrow> Context \<Rightarrow> Round \<Rightarrow> Round \<Rightarrow> CatchpointFirstStageInfo \<Rightarrow> Digest \<Rightarrow> ConsensusVersion \<Rightarrow>
     world \<Rightarrow> error option \<times> world" where
  "createCatchpoint env ctx accountsRound round dataInfo blockHash blockProto w =
     (case createCatchpoint_labelMaker (Consensus env blockProto) round dataInfo blockHash of
        Inl err \<Rightarrow> (Some err, w)
      | Inr (labelMaker, version) \<Rightarrow>
          let label = MakeLabel env labelMaker;
              w0 = logf (Infof ''creating catchpoint'') w
          in
          (case WriteCatchpointStateString env CatchpointStateLastCatchpoint label w0 of
             (Some err, w1) \<Rightarrow> (Some err, w1)
           | (None, w1) \<Rightarrow>
               let w2 = w1\<lparr>tracker := (tracker w1)\<lparr>lastCatchpointLabel := label\<rparr>\<rparr> in
               if \<not> enableGeneratingCatchpointFiles (tracker w2) then (None, w2)
               else
                 let catchpointDataFilePath =
                       filepath_Join (filepath_Join (tmpDir (tracker w2)) CatchpointDirName)
                         (makeCatchpointDataFilePath accountsRound)
                 in
                 (case os_Stat env catchpointDataFilePath w2 of
                    Inl err \<Rightarrow> if err = ErrNotExist then (None, w2) else (Some err, w2)
                  | Inr dataFile \<Rightarrow>
                      let header =
                            \<lparr>Version = version,
                             BalancesRound = accountsRound,
                             BlocksRound = round,
                             HeaderTotals = Totals dataInfo,
                             HeaderTotalAccounts = TotalAccounts dataInfo,
                             HeaderTotalKVs = TotalKVs dataInfo,
                             HeaderTotalOnlineAccounts = TotalOnlineAccounts dataInfo,
                             HeaderTotalOnlineRoundParams = TotalOnlineRoundParams dataInfo,
                             HeaderTotalChunks = TotalChunks dataInfo,
                             Catchpoint = label,
                             BlockHeaderDigest = blockHash\<rparr>;
                          relCatchpointFilePath =
                            filepath_Join CatchpointDirName (MakeCatchpointFilePath env round);
                          absCatchpointFilePath =
                            filepath_Join (dbDirectory (tracker w2)) relCatchpointFilePath
                      in
                      (case fault env (OpMkdirAll absCatchpointFilePath) of
                         Some err \<Rightarrow> (Some err, w2)
                       | None \<Rightarrow>
                           (case repackCatchpoint env ctx header (BiggestChunkLen dataInfo)
                                   catchpointDataFilePath absCatchpointFilePath w2 of
                              (Some err, w3) \<Rightarrow> (Some err, w3)
                            | (None, w3) \<Rightarrow>
                                (case os_Stat env absCatchpointFilePath w3 of
                                   Inl err \<Rightarrow> (Some err, w3)
                                 | Inr fileInfo \<Rightarrow>
                                     (case Transaction env
                                             (createCatchpoint_tx env round relCatchpointFilePath
                                                (fileSizeOf env fileInfo)) w3 of
                                        (Some err, w4) \<Rightarrow> (Some err, w4)
                                      | (None, w4) \<Rightarrow>
                                          (None, logf (Infof ''Catchpoint file was created'') w4))))))))"

text \<open>\<open>round - basics.Round(catchpointLookback)\<close> wraps around as \<open>uint64\<close> does.\<close>

definition finishCatchpoint ::
  "env \<Rightarrow> Context \<Rightarrow> Round \<Rightarrow> Digest \<Rightarrow> ConsensusVersion \<Rightarrow> uint64 \<Rightarrow> world \<Rightarrow>
     error option \<times> world" where
  "finishCatchpoint env ctx round blockHash blockProto catchpointLookbackRounds w =
     (let accountsRound = round - catchpointLookbackRounds;
          w0 = logf (Infof ''finishing catchpoint round'') w
      in case SelectCatchpointFirstStageInfo env accountsRound w0 of
           Inl err \<Rightarrow> (Some err, w0)
         | Inr None \<Rightarrow> DeleteUnfinishedCatchpoint env round w0
         | Inr (Some dataInfo) \<Rightarrow>
             createCatchpoint env ctx accountsRound round dataInfo blockHash blockProto w0)"

subsection \<open>GetCatchpointStream\<close>

text \<open>A \<open>ReadCloseSizer\<close> is the open file with the size it reports.\<close>

type_synonym ReadCloseSizer = "archiveFile \<times> int"

text \<open>
  \<open>GetCatchpointStream\<close> after the lookup in the registry: \<open>dbFileName\<close> and \<open>fileSize\<close>
  are what the lookup has set, the empty name and 0 when the round has no row.
\<close>

definition GetCatchpointStream_found ::
  "env \<Rightarrow> Round \<Rightarrow> string \<Rightarrow> int \<Rightarrow> world \<Rightarrow> (error + ReadCloseSizer) \<times> world" where
  "GetCatchpointStream_found env round dbFileName fileSize w =
     (if dbFileName \<noteq> [] then
        let catchpointPath = filepath_Join (dbDirectory (tracker w)) dbFileName in
        (case os_Open env catchpointPath w of
           Inr file \<Rightarrow> (Inr (file, fileSize), w)
         | Inl openErr \<Rightarrow>
             if openErr = ErrNotExist then
               (case fault env OpMakeCatchpointReaderWriter of
                  Some err2 \<Rightarrow> (Inl err2, w)
                | None \<Rightarrow>
                    (case recordCatchpointFile env round [] 0 w of
                       (Some err2, w1) \<Rightarrow>
                         (Inl err2,
                          logf (Warnf ''catchpointTracker.GetCatchpointStream() unable to delete missing catchpoint entry'') w1)
                     | (None, w1) \<Rightarrow> (Inl ErrNoEntry, w1)))
             else
               (Inl (ErrorfWrap
                  ''catchpointTracker.GetCatchpointStream() unable to open catchpoint file''
                  openErr), w))
      else
        let relCatchpointFilePath =
              filepath_Join CatchpointDirName (MakeCatchpointFilePath env round);
            absCatchpointFilePath =
              filepath_Join (dbDirectory (tracker w)) relCatchpointFilePath
        in
        (case os_Open env absCatchpointFilePath w of
           Inr file \<Rightarrow>
             (case fault env (OpStat absCatchpointFilePath) of
                Some statErr \<Rightarrow> (Inr (file, - 1), w)
              | None \<Rightarrow>
                  (case fault env OpMakeCatchpointReaderWriter of
                     Some err \<Rightarrow> (Inl err, w)
                   | None \<Rightarrow>
                       (case recordCatchpointFile env round relCatchpointFilePath
                               (fileSizeOf env file) w of
                          (Some err, w1) \<Rightarrow>
                            (Inr (file, fileSizeOf env file),
                             logf (Warnf ''catchpointTracker.GetCatchpointStream() unable to save missing catchpoint entry'') w1)
                        | (None, w1) \<Rightarrow> (Inr (file, fileSizeOf env file), w1))))
         | Inl err \<Rightarrow> (Inl ErrNoEntry, w)))"

definition GetCatchpointStream ::
  "env \<Rightarrow> Round \<Rightarrow> world \<Rightarrow> (error + ReadCloseSizer) \<times> world" where
  "GetCatchpointStream env round w =
     (case (case fault env OpSnapshot of
              Some err \<Rightarrow> Inl err
            | None \<Rightarrow>
                (case fault env OpMakeCatchpointReader of
                   Some err \<Rightarrow> Inl err
                 | None \<Rightarrow> GetCatchpoint env round w)) of
        Inl err \<Rightarrow>
          if err \<noteq> ErrNoRows
          then (Inl (ErrorfWrap
                  ''catchpointTracker.GetCatchpointStream() unable to lookup catchpoint'' err), w)
          else GetCatchpointStream_found env round [] 0 w
      | Inr (dbFileName, fileSize) \<Rightarrow> GetCatchpointStream_found env round dbFileName fileSize w)"

subsection \<open>The scheduler as the specification words it\<close>

text \<open>
  Section 4.6 of the specification: a stage-1 round of the window is a round \<open>r\<close> with
  \<open>max(oldBase+1, reenableCatchpointsRound - catchpointLookback) \<le> r \<le> oldBase + offset\<close>
  and \<open>(r + catchpointLookback) mod catchpointInterval = 0\<close>, read on the integers.
  This predicate follows the specification, not the code.
\<close>

definition spec_firstStageRound ::
  "Round \<Rightarrow> uint64 \<Rightarrow> Round \<Rightarrow> uint64 \<Rightarrow> uint64 \<Rightarrow> int \<Rightarrow> bool" where
  "spec_firstStageRound ob off re iv lb r \<longleftrightarrow>
     max (uint ob + 1) (uint re - uint lb) \<le> r \<and> r \<le> uint ob + uint off \<and>
     (r + uint lb) mod uint iv = 0"

subsection \<open>The trie maintenance as the specification words it\<close>

text \<open>
  Section 4.7 of the specification, on the trie as a set of digests.  These
  definitions follow the specification, not the code: the operations a delta asks
  for (delete the old hash when the old value is not empty, add the new hash when
  the new value is not empty, nothing for a KV whose old and new payloads are equal
  or both absent), what an operation does to the set, how many operations of a list
  change the set, and the digests of those that do not.
\<close>

fun spec_applyOp :: "Digest set \<Rightarrow> trieCall \<Rightarrow> Digest set" where
  "spec_applyOp S (TrieAdd d) = insert d S"
| "spec_applyOp S (TrieDelete d) = S - {d}"
| "spec_applyOp S c = S"

fun spec_changes :: "trieCall list \<Rightarrow> Digest set \<Rightarrow> nat" where
  "spec_changes [] S = 0"
| "spec_changes (TrieAdd d # ops) S = (if d \<in> S then 0 else 1) + spec_changes ops (insert d S)"
| "spec_changes (TrieDelete d # ops) S = (if d \<in> S then 1 else 0) + spec_changes ops (S - {d})"
| "spec_changes (c # ops) S = spec_changes ops S"

fun spec_unchanged :: "trieCall list \<Rightarrow> Digest set \<Rightarrow> Digest list" where
  "spec_unchanged [] S = []"
| "spec_unchanged (TrieAdd d # ops) S = (if d \<in> S then [d] else []) @ spec_unchanged ops (insert d S)"
| "spec_unchanged (TrieDelete d # ops) S = (if d \<in> S then [] else [d]) @ spec_unchanged ops (S - {d})"
| "spec_unchanged (c # ops) S = spec_unchanged ops S"

fun errorfDigests :: "logEntry list \<Rightarrow> Digest list" where
  "errorfDigests [] = []"
| "errorfDigests (Errorf m d # es) = d # errorfDigests es"
| "errorfDigests (e # es) = errorfDigests es"

definition spec_accountOps :: "('a, 'r) hashBuilders \<Rightarrow> 'a accountDelta \<Rightarrow> trieCall list" where
  "spec_accountOps hb delta =
     (if AccountDataIsEmpty hb (oldAcct delta) then []
      else [TrieDelete (AccountHashBuilderV6 hb (address delta) (oldAcct delta))]) @
     (if AccountDataIsEmpty hb (newAcct delta) then []
      else [TrieAdd (AccountHashBuilderV6 hb (address delta) (newAcct delta))])"

definition spec_resourceOps :: "('a, 'r) hashBuilders \<Rightarrow> 'r resourceDelta \<Rightarrow> trieCall list" where
  "spec_resourceOps hb resDelta =
     (if ResourcesDataIsEmpty hb (oldResourceData resDelta) then []
      else (case ResourcesHashBuilderV6 hb (oldResourceData resDelta) (resAddress resDelta)
                   (oldResourceAidx resDelta) of
              Inr h \<Rightarrow> [TrieDelete h] | Inl err \<Rightarrow> [])) @
     (if ResourcesDataIsEmpty hb (newResource resDelta) then []
      else (case ResourcesHashBuilderV6 hb (newResource resDelta) (resAddress resDelta)
                   (oldResourceAidx resDelta) of
              Inr h \<Rightarrow> [TrieAdd h] | Inl err \<Rightarrow> []))"

definition spec_kvOps :: "('a, 'r) hashBuilders \<Rightarrow> string \<times> modifiedKvValue \<Rightarrow> trieCall list" where
  "spec_kvOps hb kv =
     (if oldData (snd kv) = data (snd kv) then []
      else (case oldData (snd kv) of
              Some old \<Rightarrow> [TrieDelete (KvHashBuilderV6 hb (fst kv) old)] | None \<Rightarrow> []) @
           (case data (snd kv) of
              Some new \<Rightarrow> [TrieAdd (KvHashBuilderV6 hb (fst kv) new)] | None \<Rightarrow> []))"

definition spec_trieOps ::
  "('a, 'r) hashBuilders \<Rightarrow> 'a accountDelta list \<Rightarrow> 'r resourceDelta list \<Rightarrow>
     (string \<times> modifiedKvValue) list \<Rightarrow> trieCall list" where
  "spec_trieOps hb accountsDeltas resourcesDeltas kvDeltas =
     concat (map (spec_accountOps hb) accountsDeltas) @
     concat (map (spec_resourceOps hb) resourcesDeltas) @
     concat (map (spec_kvOps hb) kvDeltas)"

text \<open>
  The tracker \<open>ct'\<close> with the counter \<open>acc'\<close> is the tracker \<open>ct\<close> with the counter
  \<open>acc\<close> after the trie has received the operations \<open>ops\<close>: the relation the loops of
  \<open>accountsUpdateBalances\<close> are compared with.
\<close>

definition ran ::
  "catchpointTracker \<Rightarrow> int \<Rightarrow> trieCall list \<Rightarrow> catchpointTracker \<Rightarrow> int \<Rightarrow> bool" where
  "ran ct acc ops ct' acc' \<longleftrightarrow>
     (\<exists>t t' new.
        balancesTrie ct = Some t \<and> balancesTrie ct' = Some t' \<and>
        members t' = foldl spec_applyOp (members t) ops \<and>
        calls t' = calls t @ ops \<and>
        acc' = acc + int (spec_changes ops (members t)) \<and>
        log ct' = log ct @ new \<and>
        errorfDigests new = spec_unchanged ops (members t) \<and>
        ct' = ct\<lparr>balancesTrie := Some t', log := log ct @ new\<rparr>)"

subsection \<open>The pruning of the registry as the specification words it\<close>

text \<open>
  The rows \<open>recordCatchpointFile\<close> prunes from a registry under a history length:
  none when the length is -1, otherwise the two oldest (fewer when there are fewer)
  of the rows that are not among the \<open>history\<close> newest, each as its round and file
  name.
\<close>

definition prunedCatchpoints :: "int \<Rightarrow> (Round \<times> string \<times> int) list \<Rightarrow> (Round \<times> string) list" where
  "prunedCatchpoints history rows =
     (if history = - 1 then []
      else map (\<lambda>row. (fst row, fst (snd row)))
             (take 2 (take (length rows - nat history) (sort_key fst rows))))"

subsection \<open>Example values\<close>

text \<open>
  An environment in which no call fails, a tracker, and deltas, for the instances
  the theorems below are applied to.  Consensus version \<open>v7\<close> enables the state-proof
  contexts, \<open>v8\<close> the online accounts as well, and \<open>v8-without-v7\<close> the online
  accounts alone.
\<close>

definition exampleParams :: "ConsensusVersion \<Rightarrow> ConsensusParams" where
  "exampleParams v =
     \<lparr>EnableCatchpointsWithSPContexts = (v = ''v7'' \<or> v = ''v8''),
      EnableCatchpointsWithOnlineAccounts = (v = ''v8'' \<or> v = ''v8-without-v7'')\<rparr>"

fun exampleLabel :: "CatchpointLabelMaker \<Rightarrow> string" where
  "exampleLabel (CatchpointLabelMakerV6 r b t a) = ''label-v6''"
| "exampleLabel (CatchpointLabelMakerV7 r b t a s) = ''label-v7''"
| "exampleLabel (CatchpointLabelMakerCurrent r b t a s oa orp) = ''label-v8''"

definition exampleWriter ::
  "string \<Rightarrow> Round \<Rightarrow> bytes option \<Rightarrow> Store \<Rightarrow> FileSystem \<Rightarrow> (error + dataCounts) \<times> FileSystem" where
  "exampleWriter path r sp st fs =
     (Inr (1, 0, 0, 0, 1, 2),
      fs(path \<mapsto> \<lparr>fileCodec = Snappy,
                  fileEntries = [\<lparr>hdr = \<lparr>Name = ''balances.0.msgpack'', Mode = 384, Size = 2\<rparr>,
                                  content = [7, 8]\<rparr>],
                  fileDamage = None\<rparr>))"

definition exampleEnv :: env where
  "exampleEnv =
     \<lparr>Consensus = exampleParams,
      fault = (\<lambda>op. None),
      telemetryEnabled = False,
      MakeLabel = exampleLabel,
      MakeCatchpointFilePath = (\<lambda>r. FormatInt (sint r) @ ''.catchpoint''),
      Encode = (\<lambda>h. [ucast (Version h)]),
      EncodeAndHash = (\<lambda>b. (b, b)),
      onlineAccountsHash = (\<lambda>s. [1]),
      onlineRoundParamsHash = (\<lambda>s. [2]),
      rootHash = (\<lambda>S. [3]),
      fileSizeOf = (\<lambda>f. int (length (fileEntries f))),
      writeDataFile = exampleWriter\<rparr>"

definition exampleTracker :: catchpointTracker where
  "exampleTracker =
     \<lparr>tmpDir = ''hot'', dbDirectory = ''cold'', catchpointInterval = 100,
      catchpointFileHistoryLength = 2, enableGeneratingCatchpointFiles = True,
      log = [], lastCatchpointLabel = [], catchpointDataSlowWriting = ChanClosed,
      catchpointDataWriting = 0,
      balancesTrie = Some \<lparr>members = {[1]}, calls = []\<rparr>,
      roundDigest = [], consensusVersion = [],
      reenableCatchpointsRound = 200, forceCatchpointFileWriting = False,
      cachedDBRound = 0\<rparr>"

definition exampleHashBuilders :: "(nat, nat) hashBuilders" where
  "exampleHashBuilders =
     \<lparr>AccountDataIsEmpty = (\<lambda>a. a = 0),
      AccountHashBuilderV6 = (\<lambda>addr a. [of_nat a]),
      ResourcesDataIsEmpty = (\<lambda>r. r = 0),
      ResourcesHashBuilderV6 = (\<lambda>r addr aidx. Inr [of_nat r, 255]),
      KvHashBuilderV6 = (\<lambda>k v. 254 # v)\<rparr>"

definition exampleAccountsDeltas :: "nat accountDelta list" where
  "exampleAccountsDeltas =
     [\<lparr>address = [10], oldAcct = 1, newAcct = 2\<rparr>,
      \<lparr>address = [11], oldAcct = 3, newAcct = 0\<rparr>]"

definition exampleKvDeltas :: "(string \<times> modifiedKvValue) list" where
  "exampleKvDeltas =
     [(''same'', \<lparr>data = Some [5], oldData = Some [5]\<rparr>),
      (''gone'', \<lparr>data = None, oldData = None\<rparr>),
      (''new'', \<lparr>data = Some [6], oldData = None\<rparr>)]"


definition exampleChunks :: "tarEntry list" where
  "exampleChunks =
     [\<lparr>hdr = \<lparr>Name = ''balances.0.msgpack'', Mode = 384, Size = 2\<rparr>, content = [7, 8]\<rparr>,
      \<lparr>hdr = \<lparr>Name = ''stateProofVerificationContext.msgpack'', Mode = 384, Size = 0\<rparr>,
       content = []\<rparr>]"


text \<open>
  The first-stage record of accounts round 80, a store whose registry has three files
  and whose only unfinished catchpoint is round 400, and a world in which the data file
  of round 80 and the archives of rounds 100 and 200 are on disk (the archive of round
  300 is not).
\<close>

definition exampleInfo :: CatchpointFirstStageInfo where
  "exampleInfo =
     \<lparr>Totals = 5, TotalAccounts = 1, TotalKVs = 0, TotalOnlineAccounts = 0,
      TotalOnlineRoundParams = 0, TotalChunks = 1, BiggestChunkLen = 2,
      TrieBalancesHash = [3], StateProofVerificationHash = [4],
      OnlineAccountsHash = [1], OnlineRoundParamsHash = [2]\<rparr>"

definition exampleStore :: Store where
  "exampleStore =
     \<lparr>catchpointStateUint64 = (\<lambda>k. 0),
      catchpointStateString = (\<lambda>k. []),
      firstStageInfos = [80 \<mapsto> exampleInfo],
      unfinishedCatchpoints = [400 \<mapsto> [9]],
      storedCatchpoints =
        [(100, ''catchpoints/100.catchpoint'', 3),
         (200, ''catchpoints/200.catchpoint'', 3),
         (300, ''catchpoints/300.catchpoint'', 3)],
      accountTotals = 5,
      spContexts = [4],
      persistedTrie = \<lparr>members = {}, calls = []\<rparr>\<rparr>"

definition exampleArchive :: archiveFile where
  "exampleArchive =
     \<lparr>fileCodec = Gzip,
      fileEntries = \<lparr>hdr = \<lparr>Name = ''content.msgpack'', Mode = 384, Size = 1\<rparr>,
                      content = [129]\<rparr> # exampleChunks,
      fileDamage = None\<rparr>"

definition exampleWorld :: world where
  "exampleWorld =
     \<lparr>tracker = exampleTracker,
      store = exampleStore,
      files = [''hot/catchpoints/80.data'' \<mapsto>
                 \<lparr>fileCodec = Snappy, fileEntries = exampleChunks, fileDamage = None\<rparr>,
               ''cold/catchpoints/100.catchpoint'' \<mapsto> exampleArchive,
               ''cold/catchpoints/200.catchpoint'' \<mapsto> exampleArchive]\<rparr>"

section \<open>Properties of the scheduler\<close>

subsection \<open>Multiples of the interval in a range\<close>

lemma loop_aux:
  "unat r < 2 ^ 64 - 1 \<Longrightarrow> unat i \<le> Suc (unat r) \<Longrightarrow> n = Suc (unat r) - unat i \<Longrightarrow>
   calculateCatchpointRounds_loop i r c res =
     Some (res @ map (\<lambda>k. of_nat k * c) [unat i ..< Suc (unat r)])"
proof (induction n arbitrary: i res)
  case 0
  then have "unat i = Suc (unat r)" by simp
  then have "\<not> i \<le> r" by (simp add: word_le_nat_alt)
  then show ?case using \<open>unat i = Suc (unat r)\<close>
    by (subst calculateCatchpointRounds_loop.simps) simp
next
  case (Suc n)
  then have le: "unat i \<le> unat r" by simp
  then have ile: "i \<le> r" by (simp add: word_le_nat_alt)
  have "unat i + 1 < 2 ^ 64" using le Suc.prems(1) by simp
  then have u: "unat (i + 1) = Suc (unat i)"
    by (simp add: unat_add_lem [THEN iffD1])
  have "calculateCatchpointRounds_loop (i + 1) r c (res @ [i * c]) =
     Some ((res @ [i * c]) @ map (\<lambda>k. of_nat k * c) [unat (i + 1) ..< Suc (unat r)])"
    using Suc.prems le u by (intro Suc.IH) simp_all
  moreover have "[unat i ..< Suc (unat r)] = unat i # [Suc (unat i) ..< Suc (unat r)]"
    using le by (intro upt_conv_Cons) simp
  ultimately show ?case using ile u
    by (subst calculateCatchpointRounds_loop.simps) (simp del: upt_Suc)
qed

lemma multiples_upt:
  fixes a b c :: nat
  assumes c: "0 < c"
  shows "map (\<lambda>k. k * c) [(a + c - 1) div c ..< Suc (b div c)] =
         filter (\<lambda>n. c dvd n) [a ..< Suc b]"
proof (rule sorted_distinct_set_unique)
  show "sorted (map (\<lambda>k. k * c) [(a + c - 1) div c ..< Suc (b div c)])"
    unfolding sorted_map
    by (rule sorted_wrt_mono_rel [OF _ sorted_upt]) simp
  show "distinct (map (\<lambda>k. k * c) [(a + c - 1) div c ..< Suc (b div c)])"
    using c by (simp add: distinct_map inj_on_def)
  show "sorted (filter (\<lambda>n. c dvd n) [a ..< Suc b])"
    by (rule sorted_wrt_filter) (rule sorted_upt)
  show "distinct (filter (\<lambda>n. c dvd n) [a ..< Suc b])"
    by (rule distinct_filter) (rule distinct_upt)
  have lo: "(a + c - 1) div c \<le> k \<longleftrightarrow> a \<le> k * c" for k
  proof
    assume "(a + c - 1) div c \<le> k"
    then have "(a + c - 1) div c * c \<le> k * c" by simp
    moreover have "a + c - 1 < (a + c - 1) div c * c + c"
      using c by (metis add.commute mod_less_divisor mult.commute div_mult_mod_eq add_less_cancel_left)
    ultimately show "a \<le> k * c" using c by linarith
  next
    assume "a \<le> k * c"
    then have "a + c - 1 \<le> k * c + (c - 1)" by simp
    then have "(a + c - 1) div c \<le> (k * c + (c - 1)) div c" by (rule div_le_mono)
    also have "\<dots> = k"
      using c by (intro div_nat_eqI) (simp_all add: mult.commute)
    finally show "(a + c - 1) div c \<le> k" .
  qed
  have hi: "k \<le> b div c \<longleftrightarrow> k * c \<le> b" for k
    using c by (simp add: less_eq_div_iff_mult_less_eq)
  have A: "set (map (\<lambda>k. k * c) [(a + c - 1) div c ..< Suc (b div c)]) =
           (\<lambda>k. k * c) ` {(a + c - 1) div c .. b div c}"
    by (simp only: set_map set_upt atLeastLessThanSuc_atLeastAtMost)
  have B: "set (filter (\<lambda>n. c dvd n) [a ..< Suc b]) = {n \<in> {a .. b}. c dvd n}"
    by (simp only: set_filter set_upt atLeastLessThanSuc_atLeastAtMost)
  have "(\<lambda>k. k * c) ` {(a + c - 1) div c .. b div c} = {n \<in> {a .. b}. c dvd n}"
  proof (rule set_eqI)
    fix n
    show "n \<in> (\<lambda>k. k * c) ` {(a + c - 1) div c .. b div c} \<longleftrightarrow>
          n \<in> {n \<in> {a .. b}. c dvd n}"
    proof
      assume "n \<in> (\<lambda>k. k * c) ` {(a + c - 1) div c .. b div c}"
      then obtain k where k0: "n = k * c" "k \<in> {(a + c - 1) div c .. b div c}"
        by (rule imageE)
      then have k: "n = k * c" "(a + c - 1) div c \<le> k" "k \<le> b div c"
        by simp_all
      then show "n \<in> {n \<in> {a .. b}. c dvd n}"
        using lo [of k] hi [of k] by simp
    next
      assume "n \<in> {n \<in> {a .. b}. c dvd n}"
      then have n: "a \<le> n" "n \<le> b" "c dvd n" by simp_all
      then obtain k where k: "n = k * c" by (auto simp: dvd_def mult.commute)
      then have "(a + c - 1) div c \<le> k" "k \<le> b div c"
        using n lo [of k] hi [of k] by simp_all
      then show "n \<in> (\<lambda>k. k * c) ` {(a + c - 1) div c .. b div c}"
        using k by (intro image_eqI [of _ _ k]) simp_all
    qed
  qed
  then show "set (map (\<lambda>k. k * c) [(a + c - 1) div c ..< Suc (b div c)]) =
        set (filter (\<lambda>n. c dvd n) [a ..< Suc b])"
    by (simp only: A B)
qed

lemma unat_round_up:
  fixes m c :: uint64
  assumes c: "c \<noteq> 0" and nowrap: "unat m + unat c \<le> 2 ^ 64"
  shows "unat (m + c - 1) = unat m + unat c - 1"
proof -
  have c1: "1 \<le> unat c" using c by (simp add: unat_gt_0 Suc_le_eq)
  have "unat (c - 1) = unat c - 1" using c by (simp add: unat_minus_one)
  moreover have "unat m + unat (c - 1) < 2 ^ LENGTH(64)"
    using nowrap c1 \<open>unat (c - 1) = unat c - 1\<close> by simp
  then have "unat (m + (c - 1)) = unat m + unat (c - 1)"
    by (simp only: unat_add_lem [THEN iffD1])
  ultimately show ?thesis using c1 by (simp add: add_diff_eq)
qed

lemma calculateCatchpointRounds_nat:
  fixes minRound maxRound interval :: uint64
  assumes c: "interval \<noteq> 0"
    and nowrap: "unat minRound + unat interval \<le> 2 ^ 64"
    and mx: "unat maxRound < 2 ^ 64 - 1"
    and fits: "8 * int (length (filter (\<lambda>n. unat interval dvd n)
                 [unat minRound ..< Suc (unat maxRound)])) \<le> maxAlloc"
  shows "\<exists>rounds. calculateCatchpointRounds minRound maxRound interval = Some (Inr rounds) \<and>
           map unat rounds = filter (\<lambda>n. unat interval dvd n) [unat minRound ..< Suc (unat maxRound)]"
proof -
  define l where "l = (minRound + interval - 1) div interval"
  define r where "r = maxRound div interval"
  have cpos: "0 < unat interval" using c by (simp add: unat_gt_0)
  have ul: "unat l = (unat minRound + unat interval - 1) div unat interval"
    by (simp add: l_def unat_div unat_round_up [OF c nowrap])
  have ur: "unat r = unat maxRound div unat interval"
    by (simp add: r_def unat_div)
  have rle: "unat r \<le> unat maxRound" by (simp add: ur)
  have rsmall: "unat r < 2 ^ 64 - 1" using rle mx by simp
  have elems: "map unat (map (\<lambda>k. of_nat k * interval) [unat l ..< Suc (unat r)]) =
               map (\<lambda>k. k * unat interval) [unat l ..< Suc (unat r)]"
  proof (simp only: map_map, rule map_cong [OF refl])
    fix k assume "k \<in> set [unat l ..< Suc (unat r)]"
    then have "k \<le> unat r" by (simp only: set_upt atLeastLessThan_iff less_Suc_eq_le)
    then have "k * unat interval \<le> unat maxRound"
      using cpos by (simp add: ur less_eq_div_iff_mult_less_eq)
    then have kb: "k * unat interval < 2 ^ 64" using mx by simp
    have k64: "k < 2 ^ 64" using \<open>k \<le> unat r\<close> rle mx by simp
    then have uk: "unat (of_nat k :: uint64) = k" by (simp add: unat_of_nat)
    have "unat (of_nat k :: uint64) * unat interval < 2 ^ LENGTH(64)" using kb uk by simp
    then have "unat (of_nat k * interval) = unat (of_nat k :: uint64) * unat interval"
      by (simp only: unat_mult_lem [THEN iffD1])
    then show "(unat \<circ> (\<lambda>k. of_nat k * interval)) k = k * unat interval"
      by (simp add: uk)
  qed
  have mult: "filter (\<lambda>n. unat interval dvd n) [unat minRound ..< Suc (unat maxRound)] =
      map (\<lambda>k. k * unat interval) [unat l ..< Suc (unat r)]"
    using multiples_upt [OF cpos, of "unat minRound" "unat maxRound"] by (simp only: ul ur)
  show ?thesis
  proof (cases "l > r")
    case True
    then have "unat r < unat l" by (simp add: word_less_nat_alt)
    then have "[unat l ..< Suc (unat r)] = []" by simp
    then have "filter (\<lambda>n. unat interval dvd n) [unat minRound ..< Suc (unat maxRound)] = []"
      by (simp only: mult list.map)
    then show ?thesis using True c
      by (simp add: calculateCatchpointRounds_def Let_def l_def [symmetric] r_def [symmetric])
  next
    case False
    then have le: "unat l \<le> unat r" by (simp add: word_less_nat_alt)
    then have "l \<le> r" by (simp add: word_le_nat_alt)
    then have "unat (r - l) = unat r - unat l" by (simp add: unat_sub)
    moreover have "unat (r - l) + unat (1 :: uint64) < 2 ^ LENGTH(64)"
      using calculation rsmall by simp
    then have "unat (r - l + 1) = unat (r - l) + unat (1 :: uint64)"
      by (simp only: unat_add_lem [THEN iffD1])
    ultimately have "unat (r - l + 1) = Suc (unat r) - unat l" using le by simp
    also have "\<dots> = length (filter (\<lambda>n. unat interval dvd n)
        [unat minRound ..< Suc (unat maxRound)])"
      by (simp only: mult length_map length_upt)
    finally have "uint (r - l + 1) = int (length (filter (\<lambda>n. unat interval dvd n)
        [unat minRound ..< Suc (unat maxRound)]))"
      by (simp only: uint_nat)
    then have cap: "\<not> maxAlloc < 8 * uint (r - l + 1)" using fits by simp
    have loop: "calculateCatchpointRounds_loop l r interval [] =
         Some ([] @ map (\<lambda>k. of_nat k * interval) [unat l ..< Suc (unat r)])"
      using rsmall le by (intro loop_aux [OF _ _ refl]) simp_all
    have res: "calculateCatchpointRounds minRound maxRound interval =
        Some (Inr (map (\<lambda>k. of_nat k * interval) [unat l ..< Suc (unat r)]))"
      using False c cap loop
      by (simp add: calculateCatchpointRounds_def Let_def l_def [symmetric] r_def [symmetric]
            del: upt_Suc)
    have "map unat (map (\<lambda>k. of_nat k * interval) [unat l ..< Suc (unat r)]) =
          filter (\<lambda>n. unat interval dvd n) [unat minRound ..< Suc (unat maxRound)]"
      using elems by (simp only: mult)
    with res show ?thesis by blast
  qed
qed

lemma sint_wi64:
  "- (2 ^ 63) \<le> k \<Longrightarrow> k < 2 ^ 63 \<Longrightarrow> sint (word_of_int k :: 64 word) = k"
  by (simp add: sint_sbintrunc' signed_take_bit_int_eq_self)

lemma uint_wi64:
  "0 \<le> k \<Longrightarrow> k < 2 ^ 64 \<Longrightarrow> uint (word_of_int k :: 64 word) = k"
  by (simp add: uint_word_of_int)

lemma ceil_multiple:
  fixes m L I :: int
  assumes I: "0 < I"
  defines "f \<equiv> (m + L + I - 1) div I * I - L"
  shows "m \<le> f" and "(f + L) mod I = 0"
    and "\<And>r. m \<le> r \<Longrightarrow> (r + L) mod I = 0 \<Longrightarrow> f \<le> r"
proof -
  have "(m + L + I - 1) div I * I = (m + L + I - 1) - (m + L + I - 1) mod I"
    by (simp add: minus_mod_eq_div_mult)
  moreover have "(m + L + I - 1) mod I \<le> I - 1" using I by (simp add: pos_mod_bound zle_diff1_eq)
  ultimately show "m \<le> f" unfolding f_def by linarith
  show "(f + L) mod I = 0" unfolding f_def by simp
  fix r assume r: "m \<le> r" "(r + L) mod I = 0"
  then obtain k where k: "r + L = k * I" by (auto simp: mod_eq_0_iff_dvd dvd_def mult.commute)
  have "m + L + I - 1 \<le> k * I + (I - 1)" using r k by linarith
  then have "(m + L + I - 1) div I \<le> (k * I + (I - 1)) div I" using I by (intro zdiv_mono1) simp_all
  also have "(k * I + (I - 1)) div I = k" using I by (simp add: div_pos_pos_trivial)
  finally have "(m + L + I - 1) div I * I \<le> k * I" using I by (simp add: mult_right_mono)
  then show "f \<le> r" unfolding f_def using k by linarith
qed

lemma floor_multiple:
  fixes h L I :: int
  assumes I: "0 < I"
  defines "g \<equiv> (h + L) div I * I - L"
  shows "g \<le> h" and "(g + L) mod I = 0"
    and "\<And>r. r \<le> h \<Longrightarrow> (r + L) mod I = 0 \<Longrightarrow> r \<le> g"
proof -
  have "(h + L) div I * I = (h + L) - (h + L) mod I" by (simp add: minus_mod_eq_div_mult)
  moreover have "0 \<le> (h + L) mod I" using I by simp
  ultimately show "g \<le> h" unfolding g_def by linarith
  show "(g + L) mod I = 0" unfolding g_def by simp
  fix r assume r: "r \<le> h" "(r + L) mod I = 0"
  then obtain k where k: "r + L = k * I" by (auto simp: mod_eq_0_iff_dvd dvd_def mult.commute)
  have "k * I \<le> h + L" using r k by linarith
  then have "(k * I) div I \<le> (h + L) div I" using I by (intro zdiv_mono1) simp_all
  then have "k \<le> (h + L) div I" using I by simp
  then have "k * I \<le> (h + L) div I * I" using I by (simp add: mult_right_mono)
  then show "r \<le> g" unfolding g_def using k by linarith
qed

lemma sdiv_nonneg:
  fixes k l :: int
  shows "0 \<le> k \<Longrightarrow> 0 < l \<Longrightarrow> k sdiv l = k div l"
  by (cases "k = 0") (simp_all add: signed_divide_int_def)

lemma int64_div_wi:
  assumes "0 \<le> k" "k < 2 ^ 63" "0 < l" "l < 2 ^ 63"
  shows "int64_div (word_of_int k) (word_of_int l) = word_of_int (k div l)"
  using assms by (simp add: int64_div_def sint_wi64 sdiv_nonneg)

lemma minFirstStageRound_uint:
  fixes ob re lb :: uint64
  assumes "uint ob + 1 < 2 ^ 64"
  shows "uint (minFirstStageRound ob re lb) = max (uint ob + 1) (uint re - uint lb)"
proof -
  have ob1: "uint (ob + 1) = uint ob + 1"
    using assms uint_add_lem [of ob 1] by simp
  show ?thesis
  proof (cases "lb < re")
    case True
    then have "uint (re - lb) = uint re - uint lb"
      using uint_sub_lem [of lb re] by (simp add: word_less_def)
    then show ?thesis using True ob1
      by (auto simp: minFirstStageRound_def word_less_def max_def)
  next
    case False
    then have "uint re - uint lb \<le> 0" by (simp add: word_less_def)
    then have "uint re - uint lb < uint ob + 1"
      using uint_nonnegative [of ob] by linarith
    then have "max (uint ob + 1) (uint re - uint lb) = uint ob + 1" by simp
    then show ?thesis using False ob1
      by (simp add: minFirstStageRound_def)
  qed
qed

lemma firstStageFirst_sint:
  fixes ob re iv lb :: uint64
  assumes iv: "iv \<noteq> 0"
    and b1: "uint ob + uint lb + uint iv < 2 ^ 63"
    and b2: "uint re + uint iv < 2 ^ 63"
  shows "sint (firstStageFirst ob re iv lb) =
         (max (uint ob + 1) (uint re - uint lb) + uint lb + uint iv - 1) div uint iv * uint iv - uint lb"
proof -
  define m where "m = max (uint ob + 1) (uint re - uint lb)"
  define L where "L = uint lb"
  define I where "I = uint iv"
  have "uint iv \<noteq> 0" using iv by (simp add: uint_0_iff)
  then have I: "0 < I" using uint_nonnegative [of iv] unfolding I_def by linarith
  have L: "0 \<le> L" by (simp add: L_def)
  have O: "0 \<le> uint ob" and R: "0 \<le> uint re" by simp_all
  have b1': "uint ob + L + I < 2 ^ 63" and b2': "uint re + I < 2 ^ 63"
    using b1 b2 by (simp_all add: L_def I_def)
  have "uint ob + 1 < (2 :: int) ^ 64" using b1' L I by simp
  then have um: "uint (minFirstStageRound ob re lb) = m"
    by (simp add: minFirstStageRound_uint m_def)
  define M where "M = minFirstStageRound ob re lb"
  have wm: "M = word_of_int m" unfolding M_def using um by (metis word_of_int_uint)
  have wl: "lb = word_of_int L" and wi: "iv = word_of_int I"
    by (simp_all add: L_def I_def)
  have m1: "1 \<le> m" unfolding m_def using O by linarith
  have mb: "m + L + I - 1 < 2 ^ 63"
  proof (cases "uint ob + 1 \<le> uint re - L")
    case True
    then have "m = uint re - L" by (simp add: m_def L_def)
    then show ?thesis using b2' by linarith
  next
    case False
    then have "m = uint ob + 1" by (simp add: m_def L_def)
    then show ?thesis using b1' by linarith
  qed
  have x: "M + lb + iv - 1 = word_of_int (m + L + I - 1)"
    by (simp add: wm wl wi)
  have q: "int64_div (word_of_int (m + L + I - 1)) (word_of_int I) =
           word_of_int ((m + L + I - 1) div I)"
    using m1 L I mb by (intro int64_div_wi) simp_all
  have "firstStageFirst ob re iv lb = int64_div (M + lb + iv - 1) iv * iv - lb"
    by (simp add: firstStageFirst_def M_def)
  also have "\<dots> = int64_div (word_of_int (m + L + I - 1)) (word_of_int I) * word_of_int I - word_of_int L"
    using x wl wi by simp
  also have "\<dots> = word_of_int ((m + L + I - 1) div I * I - L)"
    by (simp only: q wi_homs)
  finally have f: "firstStageFirst ob re iv lb = word_of_int ((m + L + I - 1) div I * I - L)" .
  have lo: "m \<le> (m + L + I - 1) div I * I - L" by (rule ceil_multiple(1) [OF I])
  have "(m + L + I - 1) div I * I = (m + L + I - 1) - (m + L + I - 1) mod I"
    by (simp add: minus_mod_eq_div_mult)
  moreover have "0 \<le> (m + L + I - 1) mod I" using I by simp
  ultimately have "(m + L + I - 1) div I * I \<le> m + L + I - 1" by linarith
  then have hi: "(m + L + I - 1) div I * I - L < 2 ^ 63" using mb L by linarith
  have "sint (firstStageFirst ob re iv lb) = (m + L + I - 1) div I * I - L"
    unfolding f using lo hi m1 by (intro sint_wi64) simp_all
  then show ?thesis by (simp only: m_def L_def I_def)
qed

lemma firstStageLast_sint:
  fixes ob off iv lb :: uint64
  assumes iv: "iv \<noteq> 0"
    and b1: "uint ob + uint off + uint lb + uint iv < 2 ^ 63"
  shows "sint (firstStageLast ob off iv lb) =
         (uint ob + uint off + uint lb) div uint iv * uint iv - uint lb"
proof -
  define h where "h = uint ob + uint off"
  define L where "L = uint lb"
  define I where "I = uint iv"
  have "uint iv \<noteq> 0" using iv by (simp add: uint_0_iff)
  then have I: "0 < I" using uint_nonnegative [of iv] unfolding I_def by linarith
  have L: "0 \<le> L" by (simp add: L_def)
  have h: "0 \<le> h" by (simp add: h_def)
  have b: "h + L + I < 2 ^ 63" using b1 by (simp add: h_def L_def I_def)
  have wo: "ob = word_of_int (uint ob)" and wf: "off = word_of_int (uint off)"
    and wl: "lb = word_of_int L" and wi: "iv = word_of_int I"
    by (simp_all add: L_def I_def)
  have x: "ob + off + lb = word_of_int (h + L)"
    unfolding h_def by (subst wo, subst wf, subst wl) (simp only: wi_homs)
  have q: "int64_div (word_of_int (h + L)) (word_of_int I) = word_of_int ((h + L) div I)"
    using h L I b by (intro int64_div_wi) simp_all
  have "firstStageLast ob off iv lb = int64_div (ob + off + lb) iv * iv - lb"
    by (simp add: firstStageLast_def)
  also have "\<dots> = int64_div (word_of_int (h + L)) (word_of_int I) * word_of_int I - word_of_int L"
    using x wl wi by simp
  also have "\<dots> = word_of_int ((h + L) div I * I - L)"
    by (simp only: q wi_homs)
  finally have f: "firstStageLast ob off iv lb = word_of_int ((h + L) div I * I - L)" .
  have "(h + L) div I * I = (h + L) - (h + L) mod I" by (simp add: minus_mod_eq_div_mult)
  moreover have "0 \<le> (h + L) mod I" using I by simp
  ultimately have up: "(h + L) div I * I \<le> h + L" by linarith
  have "0 \<le> (h + L) div I" using h L I by (simp add: pos_imp_zdiv_nonneg_iff)
  then have dn: "0 \<le> (h + L) div I * I" using I by simp
  have "sint (firstStageLast ob off iv lb) = (h + L) div I * I - L"
    unfolding f using up dn b L I h by (intro sint_wi64) linarith+
  then show ?thesis by (simp only: h_def L_def I_def)
qed

lemma wi_sint64: "word_of_int (sint w) = (w :: 64 word)"
proof -
  have "(scast w :: 64 word) = word_of_int (sint w)" by (rule scast_eq)
  then show ?thesis by simp
qed

lemma calculateFirstStageRounds_general:
  fixes ob off re iv lb :: uint64
  assumes re: "re \<noteq> 0" and iv: "iv \<noteq> 0"
    and b1: "uint ob + uint off + uint lb + uint iv < 2 ^ 63"
    and b2: "uint re + uint iv < 2 ^ 63"
  defines "S \<equiv> {r. spec_firstStageRound ob off re iv lb r}"
  shows "\<exists>has multi newOffset.
           calculateFirstStageRounds ob off re iv lb = Inr (has, multi, newOffset) \<and>
           (has \<longleftrightarrow> S \<noteq> {}) \<and>
           (has \<longrightarrow> sint (firstStageFirst ob re iv lb) = Min S \<and>
                   sint (firstStageLast ob off iv lb) = Max S \<and>
                   uint newOffset = Max S - uint ob) \<and>
           (\<not> has \<longrightarrow> newOffset = off) \<and>
           (multi \<longleftrightarrow> (\<exists>r \<in> S. \<exists>r' \<in> S. r \<noteq> r'))"
proof -
  define m where "m = max (uint ob + 1) (uint re - uint lb)"
  define L where "L = uint lb"
  define I where "I = uint iv"
  define h where "h = uint ob + uint off"
  define F where "F = (m + L + I - 1) div I * I - L"
  define G where "G = (h + L) div I * I - L"
  have "uint iv \<noteq> 0" using iv by (simp add: uint_0_iff)
  then have I: "0 < I" using uint_nonnegative [of iv] unfolding I_def by linarith
  have nn: "0 \<le> uint ob" "0 \<le> uint off" "0 \<le> uint lb" by simp_all
  have b1a: "uint ob + uint lb + uint iv < 2 ^ 63" using b1 nn(2) by linarith
  have sF: "sint (firstStageFirst ob re iv lb) = F"
    unfolding F_def m_def L_def I_def by (rule firstStageFirst_sint [OF iv b1a b2])
  have sG: "sint (firstStageLast ob off iv lb) = G"
    unfolding G_def h_def L_def I_def by (rule firstStageLast_sint [OF iv b1])
  have S: "S = {r. m \<le> r \<and> r \<le> h \<and> (r + L) mod I = 0}"
    by (simp add: S_def spec_firstStageRound_def m_def h_def L_def I_def)
  have Fm: "m \<le> F" unfolding F_def by (rule ceil_multiple(1) [OF I])
  have Fd: "(F + L) mod I = 0" unfolding F_def by (rule ceil_multiple(2) [OF I])
  have Fleast: "F \<le> r" if "m \<le> r" "(r + L) mod I = 0" for r
    unfolding F_def using that by (rule ceil_multiple(3) [OF I])
  have Gh: "G \<le> h" unfolding G_def by (rule floor_multiple(1) [OF I])
  have Gd: "(G + L) mod I = 0" unfolding G_def by (rule floor_multiple(2) [OF I])
  have Ggreatest: "r \<le> G" if "r \<le> h" "(r + L) mod I = 0" for r
    unfolding G_def using that by (rule floor_multiple(3) [OF I])
  have between: "F \<le> r \<and> r \<le> G" if "r \<in> S" for r
    using that Fleast Ggreatest by (simp add: S)
  have fin: "finite S"
  proof (rule finite_subset)
    show "S \<subseteq> {m .. h}" by (auto simp: S)
  qed simp
  have ends: "F \<in> S \<and> G \<in> S" if "F \<le> G"
    using that Fm Fd Gh Gd by (simp add: S)
  have ne: "S \<noteq> {} \<longleftrightarrow> F \<le> G"
    using between ends by fastforce
  have mult: "(\<exists>r \<in> S. \<exists>r' \<in> S. r \<noteq> r') \<longleftrightarrow> F < G"
  proof
    assume "\<exists>r \<in> S. \<exists>r' \<in> S. r \<noteq> r'"
    then obtain r r' where "r \<in> S" "r' \<in> S" "r \<noteq> r'" by blast
    then show "F < G" using between [of r] between [of r'] by linarith
  next
    assume "F < G"
    then have "F \<in> S" "G \<in> S" "F \<noteq> G" using ends by simp_all
    then show "\<exists>r \<in> S. \<exists>r' \<in> S. r \<noteq> r'" by blast
  qed
  have calc: "calculateFirstStageRounds ob off re iv lb =
      (if F \<le> G then Inr (True, F < G, firstStageLast ob off iv lb - ob)
       else Inr (False, False, off))"
    using re iv by (simp add: calculateFirstStageRounds_def Let_def word_sle_eq word_sless_alt sF sG)
  show ?thesis
  proof (cases "F \<le> G")
    case True
    have FS: "F \<in> S" and GS: "G \<in> S" using ends [OF True] by simp_all
    have mx: "Max S = G" using fin GS between by (intro Max_eqI) simp_all
    have mn: "Min S = F" using fin FS between by (intro Min_eqI) simp_all
    have m1: "uint ob + 1 \<le> m" by (simp add: m_def)
    have "h < 2 ^ 63" using b1 nn I unfolding h_def I_def by linarith
    moreover have "(2 :: int) ^ 63 < 2 ^ 64" by simp
    ultimately have rng: "0 \<le> G - uint ob" "G - uint ob < 2 ^ 64"
      using True Fm Gh m1 nn(1) by linarith+
    have eqG: "firstStageLast ob off iv lb = word_of_int G"
      using wi_sint64 [of "firstStageLast ob off iv lb"] by (simp add: sG)
    have "word_of_int (G - uint ob) = (word_of_int G :: 64 word) - word_of_int (uint ob)"
      by (simp only: wi_homs)
    then have "firstStageLast ob off iv lb - ob = word_of_int (G - uint ob)"
      by (simp add: eqG)
    then have "uint (firstStageLast ob off iv lb - ob) = G - uint ob"
      using rng by (simp only: uint_wi64)
    moreover have "S \<noteq> {}" using FS by blast
    ultimately show ?thesis using True sF sG mx mn mult
      by (simp only: calc if_True) auto
  next
    case False
    then have "S = {}" using ne by simp
    then show ?thesis using False
      by (simp only: calc if_False) auto
  qed
qed

subsection \<open>Claims about the scheduler\<close>

text \<open>
  C1, as stated, at \<open>reenableCatchpointsRound = 0\<close>: round 80 lies in the window
  \<open>[1, 500]\<close> and \<open>(80 + 320) mod 100 = 0\<close>, but the function reports no
  first-stage round, because it returns at once when \<open>reenableCatchpointsRound\<close>
  is zero.
\<close>

theorem calculateFirstStageRounds_reenable_zero_counterexample:
  "calculateFirstStageRounds 0 500 0 100 320 = Inr (False, False, 500) \<and>
   spec_firstStageRound 0 500 0 100 320 80"
  by (simp add: calculateFirstStageRounds_def spec_firstStageRound_def)

text \<open>
  C1, amended.  When \<open>reenableCatchpointsRound\<close> is zero the function reports no
  first-stage round and leaves the offset as it is.  When it is not zero, the interval
  is positive and the sums stay below \<open>2^63\<close> (no \<open>int64\<close> operation wraps around),
  the function reports a first-stage round iff the set of rounds \<open>r\<close> with
  \<open>max(oldBase+1, reenableCatchpointsRound - catchpointLookback) \<le> r \<le> oldBase + offset\<close>
  and \<open>(r + catchpointLookback) mod catchpointInterval = 0\<close> is not empty; then
  \<open>first\<close> and \<open>last\<close> are the least and the greatest round of the set, the new
  offset is the greatest round minus \<open>oldBase\<close>, and the flag for multiple rounds is
  set iff the set has two different rounds; when the set is empty the offset is
  unchanged.
\<close>

theorem calculateFirstStageRounds_amended:
  "(re = 0 \<longrightarrow> calculateFirstStageRounds ob off re iv lb = Inr (False, False, off)) \<and>
   (re \<noteq> 0 \<and> iv \<noteq> 0 \<and> uint ob + uint off + uint lb + uint iv < 2 ^ 63 \<and>
    uint re + uint iv < 2 ^ 63 \<longrightarrow>
      (\<exists>has multi newOffset.
         calculateFirstStageRounds ob off re iv lb = Inr (has, multi, newOffset) \<and>
         (has \<longleftrightarrow> {r. spec_firstStageRound ob off re iv lb r} \<noteq> {}) \<and>
         (has \<longrightarrow>
            sint (firstStageFirst ob re iv lb) = Min {r. spec_firstStageRound ob off re iv lb r} \<and>
            sint (firstStageLast ob off iv lb) = Max {r. spec_firstStageRound ob off re iv lb r} \<and>
            uint newOffset = Max {r. spec_firstStageRound ob off re iv lb r} - uint ob) \<and>
         (\<not> has \<longrightarrow> newOffset = off) \<and>
         (multi \<longleftrightarrow> (\<exists>r \<in> {r. spec_firstStageRound ob off re iv lb r}.
                     \<exists>r' \<in> {r. spec_firstStageRound ob off re iv lb r}. r \<noteq> r'))))"
proof (intro conjI impI)
  assume "re = 0"
  then show "calculateFirstStageRounds ob off re iv lb = Inr (False, False, off)"
    by (simp add: calculateFirstStageRounds_def)
next
  assume h: "re \<noteq> 0 \<and> iv \<noteq> 0 \<and> uint ob + uint off + uint lb + uint iv < 2 ^ 63 \<and>
    uint re + uint iv < 2 ^ 63"
  then show "\<exists>has multi newOffset.
         calculateFirstStageRounds ob off re iv lb = Inr (has, multi, newOffset) \<and>
         (has \<longleftrightarrow> {r. spec_firstStageRound ob off re iv lb r} \<noteq> {}) \<and>
         (has \<longrightarrow>
            sint (firstStageFirst ob re iv lb) = Min {r. spec_firstStageRound ob off re iv lb r} \<and>
            sint (firstStageLast ob off iv lb) = Max {r. spec_firstStageRound ob off re iv lb r} \<and>
            uint newOffset = Max {r. spec_firstStageRound ob off re iv lb r} - uint ob) \<and>
         (\<not> has \<longrightarrow> newOffset = off) \<and>
         (multi \<longleftrightarrow> (\<exists>r \<in> {r. spec_firstStageRound ob off re iv lb r}.
                     \<exists>r' \<in> {r. spec_firstStageRound ob off re iv lb r}. r \<noteq> r'))"
    by (intro calculateFirstStageRounds_general) simp_all
qed

text \<open>
  The instance of the specification: \<open>oldBase = 0\<close>, \<open>offset = 500\<close>,
  \<open>reenableCatchpointsRound = 200\<close>, interval 100, lookback 320.  The first round is
  80, the last is 480 and the new offset is 480.
\<close>

theorem calculateFirstStageRounds_amended_witness:
  "calculateFirstStageRounds 0 500 200 100 320 = Inr (True, True, 480) \<and>
   Min {r. spec_firstStageRound 0 500 200 100 320 r} = 80 \<and>
   Max {r. spec_firstStageRound 0 500 200 100 320 r} = 480"
proof -
  have ev: "calculateFirstStageRounds 0 500 200 100 320 = Inr (True, True, 480)"
    by (simp add: calculateFirstStageRounds_def firstStageFirst_def firstStageLast_def
        minFirstStageRound_def int64_div_def Let_def signed_divide_int_def word_sle_eq
        word_sless_alt)
  have f: "sint (firstStageFirst 0 200 100 320) = 80"
    by (simp add: firstStageFirst_def minFirstStageRound_def int64_div_def
        signed_divide_int_def)
  have l: "sint (firstStageLast 0 500 100 320) = 480"
    by (simp add: firstStageLast_def int64_div_def signed_divide_int_def)
  have "(200 :: uint64) \<noteq> 0 \<and> (100 :: uint64) \<noteq> 0 \<and>
        uint (0 :: uint64) + uint (500 :: uint64) + uint (320 :: uint64) + uint (100 :: uint64) < 2 ^ 63 \<and>
        uint (200 :: uint64) + uint (100 :: uint64) < 2 ^ 63"
    by simp
  with calculateFirstStageRounds_amended [of 200 0 500 100 320]
  obtain has multi newOffset where
    "calculateFirstStageRounds 0 500 200 100 320 = Inr (has, multi, newOffset)"
    "has \<longrightarrow>
       sint (firstStageFirst 0 200 100 320) = Min {r. spec_firstStageRound 0 500 200 100 320 r} \<and>
       sint (firstStageLast 0 500 100 320) = Max {r. spec_firstStageRound 0 500 200 100 320 r} \<and>
       uint newOffset = Max {r. spec_firstStageRound 0 500 200 100 320 r} - uint (0 :: uint64)"
    by blast
  with ev f l show ?thesis by simp
qed

text \<open>
  C2, as stated, at \<open>min = 2^64 - 1\<close>, \<open>max = 5\<close>, interval 2: no round lies in
  \<open>[min, max]\<close>, since \<open>max < min\<close>, but \<open>min + catchpointInterval - 1\<close> wraps around
  to 0 and the function returns the rounds 0, 2 and 4.
\<close>

theorem calculateCatchpointRounds_wraps_counterexample:
  "calculateCatchpointRounds 18446744073709551615 5 2 = Some (Inr [0, 2, 4]) \<and>
   unat (5 :: uint64) < unat (18446744073709551615 :: uint64)"
  by (simp add: calculateCatchpointRounds_def Let_def calculateCatchpointRounds_loop.simps
      maxAlloc_def)

text \<open>
  C2, amended.  For a non-zero interval, when \<open>min + catchpointInterval - 1\<close> does not
  exceed \<open>2^64 - 1\<close>, \<open>max\<close> is below \<open>2^64 - 1\<close> (so that neither the rounding up nor
  the loop counter wraps around) and the multiples of the interval in \<open>[min, max]\<close>, at
  8 bytes each, fit \<open>maxAlloc\<close> (so that \<open>make\<close> does not panic), the function returns,
  and what it returns is exactly the list of the multiples of the interval in
  \<open>[min, max]\<close>, in increasing order (the empty list when there is none).
\<close>

theorem calculateCatchpointRounds_amended:
  "iv \<noteq> 0 \<Longrightarrow> unat minRound + unat iv \<le> 2 ^ 64 \<Longrightarrow> unat maxRound < 2 ^ 64 - 1 \<Longrightarrow>
   8 * int (length (filter (\<lambda>n. unat iv dvd n) [unat minRound ..< Suc (unat maxRound)]))
     \<le> maxAlloc \<Longrightarrow>
   \<exists>rounds. calculateCatchpointRounds minRound maxRound iv = Some (Inr rounds) \<and>
     map unat rounds = filter (\<lambda>n. unat iv dvd n) [unat minRound ..< Suc (unat maxRound)]"
  by (rule calculateCatchpointRounds_nat)

text \<open>The two instances of the specification: \<open>(10, 30, 10)\<close> and \<open>(11, 19, 10)\<close>.\<close>

theorem calculateCatchpointRounds_amended_witness:
  "calculateCatchpointRounds 10 30 10 = Some (Inr [10, 20, 30]) \<and>
   filter (\<lambda>n. unat (10 :: uint64) dvd n) [unat (10 :: uint64) ..< Suc (unat (30 :: uint64))]
     = [10, 20, 30] \<and>
   calculateCatchpointRounds 11 19 10 = Some (Inr []) \<and>
   filter (\<lambda>n. unat (10 :: uint64) dvd n) [unat (11 :: uint64) ..< Suc (unat (19 :: uint64))]
     = []"
proof -
  have e1: "calculateCatchpointRounds 10 30 10 = Some (Inr [10, 20, 30])"
    by (simp add: calculateCatchpointRounds_def Let_def calculateCatchpointRounds_loop.simps
        maxAlloc_def)
  have e2: "calculateCatchpointRounds 11 19 10 = Some (Inr [])"
    by (simp add: calculateCatchpointRounds_def Let_def)
  have b1: "8 * int (length (filter (\<lambda>n. unat (10 :: uint64) dvd n)
      [unat (10 :: uint64) ..< Suc (unat (30 :: uint64))])) \<le> maxAlloc"
    using length_filter_le [of "\<lambda>n. unat (10 :: uint64) dvd n"
        "[unat (10 :: uint64) ..< Suc (unat (30 :: uint64))]"]
    by (simp add: maxAlloc_def)
  have b2: "8 * int (length (filter (\<lambda>n. unat (10 :: uint64) dvd n)
      [unat (11 :: uint64) ..< Suc (unat (19 :: uint64))])) \<le> maxAlloc"
    using length_filter_le [of "\<lambda>n. unat (10 :: uint64) dvd n"
        "[unat (11 :: uint64) ..< Suc (unat (19 :: uint64))]"]
    by (simp add: maxAlloc_def)
  have "\<exists>rounds. calculateCatchpointRounds 10 30 10 = Some (Inr rounds) \<and>
     map unat rounds =
       filter (\<lambda>n. unat (10 :: uint64) dvd n) [unat (10 :: uint64) ..< Suc (unat (30 :: uint64))]"
    by (rule calculateCatchpointRounds_amended [OF _ _ _ b1]) simp_all
  then have f1: "filter (\<lambda>n. unat (10 :: uint64) dvd n)
      [unat (10 :: uint64) ..< Suc (unat (30 :: uint64))] = [10, 20, 30]"
    by (simp add: e1)
  have "\<exists>rounds. calculateCatchpointRounds 11 19 10 = Some (Inr rounds) \<and>
     map unat rounds =
       filter (\<lambda>n. unat (10 :: uint64) dvd n) [unat (11 :: uint64) ..< Suc (unat (19 :: uint64))]"
    by (rule calculateCatchpointRounds_amended [OF _ _ _ b2]) simp_all
  then have f2: "filter (\<lambda>n. unat (10 :: uint64) dvd n)
      [unat (11 :: uint64) ..< Suc (unat (19 :: uint64))] = []"
    by (simp add: e2)
  from e1 e2 f1 f2 show ?thesis by blast
qed

text \<open>
  C9.  When \<open>catchpointInterval\<close> is 0, \<open>produceCommittingTask\<close> returns the pointer
  it was given and neither the range behind it nor the tracker has changed: the flags
  \<open>catchpointFirstStage\<close> and \<open>catchpointSecondStage\<close> are as they were on entry
  (false for a range the ledger has just made).  The tracker's
  \<open>calculateCatchpointRounds\<close> returns nil for every commit range.
\<close>

theorem interval_zero_schedules_nothing:
  "catchpointInterval ct = 0 \<Longrightarrow>
     produceCommittingTask ct committedRound dbRound dcr = Some (Inr (ct, dcr, Some dcr)) \<and>
     ct_calculateCatchpointRounds ct dcc = Some (Inr [])"
  by (simp add: produceCommittingTask_def ct_calculateCatchpointRounds_def)

theorem interval_zero_schedules_nothing_witness:
  "produceCommittingTask
     \<lparr>tmpDir = ''hot'', dbDirectory = ''cold'', catchpointInterval = 0,
      catchpointFileHistoryLength = 2, enableGeneratingCatchpointFiles = True,
      log = [], lastCatchpointLabel = [], catchpointDataSlowWriting = ChanClosed,
      catchpointDataWriting = 0, balancesTrie = None, roundDigest = [], consensusVersion = [],
      reenableCatchpointsRound = 200, forceCatchpointFileWriting = False,
      cachedDBRound = 0\<rparr> 500 0
     \<lparr>offset = 500, oldBase = 0, catchpointLookback = 320, catchpointFirstStage = False,
      enableGeneratingCatchpointFilesDcr = False, catchpointSecondStage = False\<rparr>
   = Some (Inr
     (\<lparr>tmpDir = ''hot'', dbDirectory = ''cold'', catchpointInterval = 0,
       catchpointFileHistoryLength = 2, enableGeneratingCatchpointFiles = True,
       log = [], lastCatchpointLabel = [], catchpointDataSlowWriting = ChanClosed,
       catchpointDataWriting = 0, balancesTrie = None, roundDigest = [], consensusVersion = [],
       reenableCatchpointsRound = 200, forceCatchpointFileWriting = False,
       cachedDBRound = 0\<rparr>,
      \<lparr>offset = 500, oldBase = 0, catchpointLookback = 320, catchpointFirstStage = False,
       enableGeneratingCatchpointFilesDcr = False, catchpointSecondStage = False\<rparr>,
      Some \<lparr>offset = 500, oldBase = 0, catchpointLookback = 320, catchpointFirstStage = False,
       enableGeneratingCatchpointFilesDcr = False, catchpointSecondStage = False\<rparr>)) \<and>
   ct_calculateCatchpointRounds
     \<lparr>tmpDir = ''hot'', dbDirectory = ''cold'', catchpointInterval = 0,
      catchpointFileHistoryLength = 2, enableGeneratingCatchpointFiles = True,
      log = [], lastCatchpointLabel = [], catchpointDataSlowWriting = ChanClosed,
      catchpointDataWriting = 0, balancesTrie = None, roundDigest = [], consensusVersion = [],
      reenableCatchpointsRound = 200, forceCatchpointFileWriting = False,
      cachedDBRound = 0\<rparr>
     \<lparr>offset = 500, oldBase = 0, catchpointLookback = 320, catchpointFirstStage = False,
      enableGeneratingCatchpointFilesDcr = False, catchpointSecondStage = False\<rparr>
   = Some (Inr [])"
  using interval_zero_schedules_nothing [of
     "\<lparr>tmpDir = ''hot'', dbDirectory = ''cold'', catchpointInterval = 0,
      catchpointFileHistoryLength = 2, enableGeneratingCatchpointFiles = True,
      log = [], lastCatchpointLabel = [], catchpointDataSlowWriting = ChanClosed,
      catchpointDataWriting = 0, balancesTrie = None, roundDigest = [], consensusVersion = [],
      reenableCatchpointsRound = 200, forceCatchpointFileWriting = False,
      cachedDBRound = 0\<rparr>" 500 0
     "\<lparr>offset = 500, oldBase = 0, catchpointLookback = 320, catchpointFirstStage = False,
      enableGeneratingCatchpointFilesDcr = False, catchpointSecondStage = False\<rparr>"
     "\<lparr>offset = 500, oldBase = 0, catchpointLookback = 320, catchpointFirstStage = False,
      enableGeneratingCatchpointFilesDcr = False, catchpointSecondStage = False\<rparr>"]
  by simp

text \<open>
  C10.  \<open>committedUpTo\<close> returns the cached database round and the lookback 0 whatever
  round it is given, and leaves the tracker as it was.
\<close>

theorem committedUpTo_cached_round:
  "committedUpTo ct rnd = (ct, cachedDBRound ct, 0) \<and>
   committedUpTo ct rnd = committedUpTo ct rnd'"
  by (simp add: committedUpTo_def)

section \<open>Properties of the trie maintenance\<close>

lemma spec_changes_append:
  "spec_changes (xs @ ys) S = spec_changes xs S + spec_changes ys (foldl spec_applyOp S xs)"
  by (induction xs S rule: spec_changes.induct) simp_all

lemma spec_unchanged_append:
  "spec_unchanged (xs @ ys) S = spec_unchanged xs S @ spec_unchanged ys (foldl spec_applyOp S xs)"
  by (induction xs S rule: spec_unchanged.induct) simp_all

lemma errorfDigests_append:
  "errorfDigests (xs @ ys) = errorfDigests xs @ errorfDigests ys"
  by (induction xs rule: errorfDigests.induct) simp_all

lemma ran_refl: "balancesTrie ct = Some t \<Longrightarrow> ran ct acc [] ct acc"
  unfolding ran_def
  by (rule exI [of _ t], rule exI [of _ t], rule exI [of _ "[]"]) simp

lemma ran_trans:
  assumes "ran ct acc xs ct1 acc1" and "ran ct1 acc1 ys ct2 acc2"
  shows "ran ct acc (xs @ ys) ct2 acc2"
proof -
  from assms(1) obtain t t1 new1 where 1:
    "balancesTrie ct = Some t" "balancesTrie ct1 = Some t1"
    "members t1 = foldl spec_applyOp (members t) xs"
    "calls t1 = calls t @ xs"
    "acc1 = acc + int (spec_changes xs (members t))"
    "log ct1 = log ct @ new1"
    "errorfDigests new1 = spec_unchanged xs (members t)"
    "ct1 = ct\<lparr>balancesTrie := Some t1, log := log ct @ new1\<rparr>"
    unfolding ran_def by blast
  from assms(2) 1(2) obtain t2 new2 where 2:
    "balancesTrie ct2 = Some t2"
    "members t2 = foldl spec_applyOp (members t1) ys"
    "calls t2 = calls t1 @ ys"
    "acc2 = acc1 + int (spec_changes ys (members t1))"
    "log ct2 = log ct1 @ new2"
    "errorfDigests new2 = spec_unchanged ys (members t1)"
    "ct2 = ct1\<lparr>balancesTrie := Some t2, log := log ct1 @ new2\<rparr>"
    unfolding ran_def by auto
  show ?thesis
    unfolding ran_def
    apply (rule exI [of _ t], rule exI [of _ t2], rule exI [of _ "new1 @ new2"])
    using 1 2
    by (simp add: spec_changes_append spec_unchanged_append errorfDigests_append)
qed

lemma ran_delete:
  assumes nf: "\<forall>c. fault env (OpTrie c) = None" and t: "balancesTrie ct = Some t"
  shows "\<exists>ct' acc'. deleteHashStep env what d acc ct = (Inr acc', ct') \<and>
           ran ct acc [TrieDelete d] ct' acc'"
proof (cases "d \<in> members t")
  case True
  have "deleteHashStep env what d acc ct =
        (Inr (acc + 1), ct\<lparr>balancesTrie := Some (t\<lparr>members := members t - {d},
                                                    calls := calls t @ [TrieDelete d]\<rparr>)\<rparr>)"
    using nf t True by (simp add: deleteHashStep_def Trie_Delete_def)
  moreover have "ran ct acc [TrieDelete d]
     (ct\<lparr>balancesTrie := Some (t\<lparr>members := members t - {d},
                                  calls := calls t @ [TrieDelete d]\<rparr>)\<rparr>) (acc + 1)"
    unfolding ran_def
    apply (rule exI [of _ t])
    apply (rule exI [of _ "t\<lparr>members := members t - {d}, calls := calls t @ [TrieDelete d]\<rparr>"])
    apply (rule exI [of _ "[]"])
    using t True by simp
  ultimately show ?thesis by blast
next
  case False
  have "deleteHashStep env what d acc ct =
        (Inr acc, ct\<lparr>balancesTrie := Some (t\<lparr>members := members t - {d},
                                              calls := calls t @ [TrieDelete d]\<rparr>),
                     log := log ct @ [Errorf what d]\<rparr>)"
    using nf t False by (simp add: deleteHashStep_def Trie_Delete_def)
  moreover have "ran ct acc [TrieDelete d]
     (ct\<lparr>balancesTrie := Some (t\<lparr>members := members t - {d},
                                  calls := calls t @ [TrieDelete d]\<rparr>),
         log := log ct @ [Errorf what d]\<rparr>) acc"
    unfolding ran_def
    apply (rule exI [of _ t])
    apply (rule exI [of _ "t\<lparr>members := members t - {d}, calls := calls t @ [TrieDelete d]\<rparr>"])
    apply (rule exI [of _ "[Errorf what d]"])
    using t False by simp
  ultimately show ?thesis by blast
qed

lemma ran_add:
  assumes nf: "\<forall>c. fault env (OpTrie c) = None" and t: "balancesTrie ct = Some t"
  shows "\<exists>ct' acc'. addHashStep env what d acc ct = (Inr acc', ct') \<and>
           ran ct acc [TrieAdd d] ct' acc'"
proof (cases "d \<in> members t")
  case False
  have "addHashStep env what d acc ct =
        (Inr (acc + 1), ct\<lparr>balancesTrie := Some (t\<lparr>members := insert d (members t),
                                                    calls := calls t @ [TrieAdd d]\<rparr>)\<rparr>)"
    using nf t False by (simp add: addHashStep_def Trie_Add_def)
  moreover have "ran ct acc [TrieAdd d]
     (ct\<lparr>balancesTrie := Some (t\<lparr>members := insert d (members t),
                                  calls := calls t @ [TrieAdd d]\<rparr>)\<rparr>) (acc + 1)"
    unfolding ran_def
    apply (rule exI [of _ t])
    apply (rule exI [of _ "t\<lparr>members := insert d (members t), calls := calls t @ [TrieAdd d]\<rparr>"])
    apply (rule exI [of _ "[]"])
    using t False by simp
  ultimately show ?thesis by blast
next
  case True
  have "addHashStep env what d acc ct =
        (Inr acc, ct\<lparr>balancesTrie := Some (t\<lparr>members := insert d (members t),
                                              calls := calls t @ [TrieAdd d]\<rparr>),
                     log := log ct @ [Errorf what d]\<rparr>)"
    using nf t True by (simp add: addHashStep_def Trie_Add_def)
  moreover have "ran ct acc [TrieAdd d]
     (ct\<lparr>balancesTrie := Some (t\<lparr>members := insert d (members t),
                                  calls := calls t @ [TrieAdd d]\<rparr>),
         log := log ct @ [Errorf what d]\<rparr>) acc"
    unfolding ran_def
    apply (rule exI [of _ t])
    apply (rule exI [of _ "t\<lparr>members := insert d (members t), calls := calls t @ [TrieAdd d]\<rparr>"])
    apply (rule exI [of _ "[Errorf what d]"])
    using t True by simp
  ultimately show ?thesis by blast
qed

lemma ran_trie: "ran ct acc ops ct' acc' \<Longrightarrow> \<exists>t' . balancesTrie ct' = Some t'"
  unfolding ran_def by blast

lemma ran_trie0: "ran ct acc ops ct' acc' \<Longrightarrow> \<exists>t. balancesTrie ct = Some t"
  unfolding ran_def by blast

lemma accountsDeltasLoop_ran:
  assumes nf: "\<forall>c. fault env (OpTrie c) = None"
  shows "balancesTrie ct = Some t \<Longrightarrow>
         \<exists>ct' acc'. accountsDeltasLoop hb env ds acc ct = (Inr acc', ct') \<and>
           ran ct acc (concat (map (spec_accountOps hb) ds)) ct' acc'"
proof (induction ds arbitrary: acc ct t)
  case Nil
  then show ?case by (simp add: ran_refl)
next
  case (Cons delta rest)
  let ?dh = "AccountHashBuilderV6 hb (address delta) (oldAcct delta)"
  let ?ah = "AccountHashBuilderV6 hb (address delta) (newAcct delta)"
  let ?ops1 = "if AccountDataIsEmpty hb (oldAcct delta) then [] else [TrieDelete ?dh]"
  let ?ops2 = "if AccountDataIsEmpty hb (newAcct delta) then [] else [TrieAdd ?ah]"
  have "\<exists>ct1 acc1.
      (if \<not> AccountDataIsEmpty hb (oldAcct delta)
       then deleteHashStep env ''failed to delete hash from merkle trie for account'' ?dh acc ct
       else (Inr acc, ct)) = (Inr acc1, ct1) \<and> ran ct acc ?ops1 ct1 acc1"
    using ran_delete [OF nf Cons.prems] ran_refl [OF Cons.prems] by simp
  then obtain ct1 acc1 where s1:
      "(if \<not> AccountDataIsEmpty hb (oldAcct delta)
        then deleteHashStep env ''failed to delete hash from merkle trie for account'' ?dh acc ct
        else (Inr acc, ct)) = (Inr acc1, ct1)" and r1: "ran ct acc ?ops1 ct1 acc1"
    by blast
  from r1 obtain t1 where t1: "balancesTrie ct1 = Some t1" using ran_trie by blast
  have "\<exists>ct2 acc2.
      (if \<not> AccountDataIsEmpty hb (newAcct delta)
       then addHashStep env ''attempted to add duplicate hash to merkle trie for account'' ?ah acc1 ct1
       else (Inr acc1, ct1)) = (Inr acc2, ct2) \<and> ran ct1 acc1 ?ops2 ct2 acc2"
    using ran_add [OF nf t1] ran_refl [OF t1] by simp
  then obtain ct2 acc2 where s2:
      "(if \<not> AccountDataIsEmpty hb (newAcct delta)
        then addHashStep env ''attempted to add duplicate hash to merkle trie for account'' ?ah acc1 ct1
        else (Inr acc1, ct1)) = (Inr acc2, ct2)" and r2: "ran ct1 acc1 ?ops2 ct2 acc2"
    by blast
  from r2 obtain t2 where t2: "balancesTrie ct2 = Some t2" using ran_trie by blast
  from Cons.IH [OF t2] obtain ct3 acc3 where
    s3: "accountsDeltasLoop hb env rest acc2 ct2 = (Inr acc3, ct3)"
    and r3: "ran ct2 acc2 (concat (map (spec_accountOps hb) rest)) ct3 acc3"
    by blast
  have "accountsDeltasLoop hb env (delta # rest) acc ct = (Inr acc3, ct3)"
    by (simp only: accountsDeltasLoop.simps s1 s2 s3 prod.case sum.case)
  moreover have "concat (map (spec_accountOps hb) (delta # rest)) =
      (?ops1 @ ?ops2) @ concat (map (spec_accountOps hb) rest)"
    by (simp add: spec_accountOps_def)
  then have "ran ct acc (concat (map (spec_accountOps hb) (delta # rest))) ct3 acc3"
    using ran_trans [OF ran_trans [OF r1 r2] r3] by (simp only:)
  ultimately show ?case by blast
qed

lemma resourcesDeltasLoop_ran:
  assumes nf: "\<forall>c. fault env (OpTrie c) = None"
    and hok: "\<forall>r a i. \<exists>h. ResourcesHashBuilderV6 hb r a i = Inr h"
  shows "balancesTrie ct = Some t \<Longrightarrow>
         \<exists>ct' acc'. resourcesDeltasLoop hb env ds acc ct = (Inr acc', ct') \<and>
           ran ct acc (concat (map (spec_resourceOps hb) ds)) ct' acc'"
proof (induction ds arbitrary: acc ct t)
  case Nil
  then show ?case by (simp add: ran_refl)
next
  case (Cons resDelta rest)
  obtain dh where dh: "ResourcesHashBuilderV6 hb (oldResourceData resDelta) (resAddress resDelta)
      (oldResourceAidx resDelta) = Inr dh" using hok by blast
  obtain ah where ah: "ResourcesHashBuilderV6 hb (newResource resDelta) (resAddress resDelta)
      (oldResourceAidx resDelta) = Inr ah" using hok by blast
  let ?ops1 = "if ResourcesDataIsEmpty hb (oldResourceData resDelta) then [] else [TrieDelete dh]"
  let ?ops2 = "if ResourcesDataIsEmpty hb (newResource resDelta) then [] else [TrieAdd ah]"
  let ?step1 = "(if \<not> ResourcesDataIsEmpty hb (oldResourceData resDelta)
            then (case ResourcesHashBuilderV6 hb (oldResourceData resDelta) (resAddress resDelta)
                         (oldResourceAidx resDelta) of
                    Inl err \<Rightarrow> (Inl err, ct)
                  | Inr deleteHash \<Rightarrow>
                      deleteHashStep env
                        ''failed to delete resource hash from merkle trie for account''
                        deleteHash acc ct)
            else (Inr acc, ct))"
  have "\<exists>ct1 acc1. ?step1 = (Inr acc1, ct1) \<and> ran ct acc ?ops1 ct1 acc1"
    using ran_delete [OF nf Cons.prems] ran_refl [OF Cons.prems] by (simp add: dh)
  then obtain ct1 acc1 where s1: "?step1 = (Inr acc1, ct1)" and r1: "ran ct acc ?ops1 ct1 acc1"
    by blast
  from r1 obtain t1 where t1: "balancesTrie ct1 = Some t1" using ran_trie by blast
  let ?step2 = "(if \<not> ResourcesDataIsEmpty hb (newResource resDelta)
                 then (case ResourcesHashBuilderV6 hb (newResource resDelta) (resAddress resDelta)
                              (oldResourceAidx resDelta) of
                         Inl err \<Rightarrow> (Inl err, ct1)
                       | Inr addHash \<Rightarrow>
                           addHashStep env
                             ''attempted to add duplicate resource hash to merkle trie for account''
                             addHash acc1 ct1)
                 else (Inr acc1, ct1))"
  have "\<exists>ct2 acc2. ?step2 = (Inr acc2, ct2) \<and> ran ct1 acc1 ?ops2 ct2 acc2"
    using ran_add [OF nf t1] ran_refl [OF t1] by (simp add: ah)
  then obtain ct2 acc2 where s2: "?step2 = (Inr acc2, ct2)" and r2: "ran ct1 acc1 ?ops2 ct2 acc2"
    by blast
  from r2 obtain t2 where t2: "balancesTrie ct2 = Some t2" using ran_trie by blast
  from Cons.IH [OF t2] obtain ct3 acc3 where
    s3: "resourcesDeltasLoop hb env rest acc2 ct2 = (Inr acc3, ct3)"
    and r3: "ran ct2 acc2 (concat (map (spec_resourceOps hb) rest)) ct3 acc3"
    by blast
  have "resourcesDeltasLoop hb env (resDelta # rest) acc ct = (Inr acc3, ct3)"
    by (simp only: resourcesDeltasLoop.simps s1 s2 s3 prod.case sum.case)
  moreover have "concat (map (spec_resourceOps hb) (resDelta # rest)) =
      (?ops1 @ ?ops2) @ concat (map (spec_resourceOps hb) rest)"
    by (simp add: spec_resourceOps_def dh ah)
  then have "ran ct acc (concat (map (spec_resourceOps hb) (resDelta # rest))) ct3 acc3"
    using ran_trans [OF ran_trans [OF r1 r2] r3] by (simp only:)
  ultimately show ?case by blast
qed

lemma kvDeltasLoop_ran:
  assumes nf: "\<forall>c. fault env (OpTrie c) = None"
  shows "balancesTrie ct = Some t \<Longrightarrow>
         \<exists>ct' acc'. kvDeltasLoop hb env ds acc ct = (Inr acc', ct') \<and>
           ran ct acc (concat (map (spec_kvOps hb) ds)) ct' acc'"
proof (induction ds arbitrary: acc ct t)
  case Nil
  then show ?case by (simp add: ran_refl)
next
  case (Cons kv rest)
  obtain key mv where kv: "kv = (key, mv)" by (cases kv)
  show ?case
  proof (cases "oldData mv = data mv")
    case True
    then have skip: "kvDeltasLoop hb env (kv # rest) acc ct = kvDeltasLoop hb env rest acc ct"
      by (cases "data mv") (simp_all add: kv)
    have "spec_kvOps hb kv = []" using True by (simp add: spec_kvOps_def kv)
    then show ?thesis using Cons.IH [OF Cons.prems, of acc] skip by simp
  next
    case False
    let ?ops1 = "case oldData mv of Some old \<Rightarrow> [TrieDelete (KvHashBuilderV6 hb key old)] | None \<Rightarrow> []"
    let ?ops2 = "case data mv of Some new \<Rightarrow> [TrieAdd (KvHashBuilderV6 hb key new)] | None \<Rightarrow> []"
    let ?step1 = "(case oldData mv of
                 None \<Rightarrow> (Inr acc, ct)
               | Some old \<Rightarrow>
                   deleteHashStep env ''failed to delete kv hash from merkle trie for key''
                     (KvHashBuilderV6 hb key old) acc ct)"
    have "\<exists>ct1 acc1. ?step1 = (Inr acc1, ct1) \<and> ran ct acc ?ops1 ct1 acc1"
      using ran_delete [OF nf Cons.prems] ran_refl [OF Cons.prems]
      by (cases "oldData mv") simp_all
    then obtain ct1 acc1 where s1: "?step1 = (Inr acc1, ct1)" and r1: "ran ct acc ?ops1 ct1 acc1"
      by blast
    from r1 obtain t1 where t1: "balancesTrie ct1 = Some t1" using ran_trie by blast
    let ?step2 = "(case data mv of
                      None \<Rightarrow> (Inr acc1, ct1)
                    | Some new \<Rightarrow>
                        addHashStep env ''attempted to add duplicate kv hash from merkle trie for key''
                          (KvHashBuilderV6 hb key new) acc1 ct1)"
    have "\<exists>ct2 acc2. ?step2 = (Inr acc2, ct2) \<and> ran ct1 acc1 ?ops2 ct2 acc2"
      using ran_add [OF nf t1] ran_refl [OF t1]
      by (cases "data mv") simp_all
    then obtain ct2 acc2 where s2: "?step2 = (Inr acc2, ct2)" and r2: "ran ct1 acc1 ?ops2 ct2 acc2"
      by blast
    from r2 obtain t2 where t2: "balancesTrie ct2 = Some t2" using ran_trie by blast
    from Cons.IH [OF t2] obtain ct3 acc3 where
      s3: "kvDeltasLoop hb env rest acc2 ct2 = (Inr acc3, ct3)"
      and r3: "ran ct2 acc2 (concat (map (spec_kvOps hb) rest)) ct3 acc3"
      by blast
    have c1: "\<not> (oldData mv = None \<and> data mv = None)" using False by auto
    have c2: "\<not> (oldData mv \<noteq> None \<and> data mv \<noteq> None \<and> the (oldData mv) = the (data mv))"
      using False by auto
    have "kvDeltasLoop hb env (kv # rest) acc ct = (Inr acc3, ct3)"
      unfolding kv by (simp only: kvDeltasLoop.simps c1 c2 if_False s1 s2 s3 prod.case sum.case)
    moreover have "concat (map (spec_kvOps hb) (kv # rest)) =
        (?ops1 @ ?ops2) @ concat (map (spec_kvOps hb) rest)"
      using False by (cases "oldData mv"; cases "data mv") (simp_all add: spec_kvOps_def kv)
    then have "ran ct acc (concat (map (spec_kvOps hb) (kv # rest))) ct3 acc3"
      using ran_trans [OF ran_trans [OF r1 r2] r3] by (simp only:)
    ultimately show ?thesis by blast
  qed
qed

lemma spec_trieOps_no_commit: "TrieCommit \<notin> set (spec_trieOps hb a r k)"
  by (auto simp: spec_trieOps_def spec_accountOps_def spec_resourceOps_def spec_kvOps_def
      split: if_splits sum.splits option.splits)

lemma accountsUpdateBalances_refines:
  assumes enabled: "catchpointInterval ct \<noteq> 0"
    and trie: "balancesTrie ct = Some t"
    and nf: "\<forall>c. fault env (OpTrie c) = None"
    and hok: "\<forall>r a i. \<exists>h. ResourcesHashBuilderV6 hb r a i = Inr h"
  shows "\<exists>ct' t' new.
     accountsUpdateBalances hb env accountsDeltas resourcesDeltas kvDeltas ob nb ct = (None, ct') \<and>
     balancesTrie ct' = Some t' \<and>
     calls t' = calls t @ spec_trieOps hb accountsDeltas resourcesDeltas kvDeltas @
       (if 0 < spec_changes (spec_trieOps hb accountsDeltas resourcesDeltas kvDeltas) (members t)
        then [TrieCommit] else []) @
       (if telemetryEnabled env then [TrieRootHash] else []) \<and>
     members t' = foldl spec_applyOp (members t)
       (spec_trieOps hb accountsDeltas resourcesDeltas kvDeltas) \<and>
     log ct' = log ct @ new \<and>
     errorfDigests new =
       spec_unchanged (spec_trieOps hb accountsDeltas resourcesDeltas kvDeltas) (members t)"
proof -
  let ?ops = "spec_trieOps hb accountsDeltas resourcesDeltas kvDeltas"
  from accountsDeltasLoop_ran [OF nf trie, of hb accountsDeltas 0]
  obtain ct1 acc1 where
    s1: "accountsDeltasLoop hb env accountsDeltas 0 ct = (Inr acc1, ct1)"
    and r1: "ran ct 0 (concat (map (spec_accountOps hb) accountsDeltas)) ct1 acc1"
    by blast
  from r1 obtain t1 where t1: "balancesTrie ct1 = Some t1" using ran_trie by blast
  from resourcesDeltasLoop_ran [OF nf hok t1, of resourcesDeltas acc1]
  obtain ct2 acc2 where
    s2: "resourcesDeltasLoop hb env resourcesDeltas acc1 ct1 = (Inr acc2, ct2)"
    and r2: "ran ct1 acc1 (concat (map (spec_resourceOps hb) resourcesDeltas)) ct2 acc2"
    by blast
  from r2 obtain t2 where t2: "balancesTrie ct2 = Some t2" using ran_trie by blast
  from kvDeltasLoop_ran [OF nf t2, of hb kvDeltas acc2]
  obtain ct3 acc3 where
    s3: "kvDeltasLoop hb env kvDeltas acc2 ct2 = (Inr acc3, ct3)"
    and r3: "ran ct2 acc2 (concat (map (spec_kvOps hb) kvDeltas)) ct3 acc3"
    by blast
  have "ran ct 0 ?ops ct3 acc3"
    using ran_trans [OF r1 ran_trans [OF r2 r3]] by (simp only: spec_trieOps_def)
  then obtain t0 t3 new where 3:
    "balancesTrie ct = Some t0" "balancesTrie ct3 = Some t3"
    "members t3 = foldl spec_applyOp (members t0) ?ops"
    "calls t3 = calls t0 @ ?ops"
    "acc3 = 0 + int (spec_changes ?ops (members t0))"
    "log ct3 = log ct @ new"
    "errorfDigests new = spec_unchanged ?ops (members t0)"
    unfolding ran_def by blast
  have t0: "t0 = t" using 3(1) trie by simp
  have run: "accountsUpdateBalances hb env accountsDeltas resourcesDeltas kvDeltas ob nb ct =
        commitAndReport env acc3 ct3"
    using enabled by (simp add: accountsUpdateBalances_def catchpointEnabled_def s1 s2 s3)
  obtain ct4 where ct4: "commitAndReport env acc3 ct3 = (None, ct4)"
    and tr4: "\<exists>t4. balancesTrie ct4 = Some t4 \<and> members t4 = members t3 \<and>
       calls t4 = calls t3 @ (if 0 < acc3 then [TrieCommit] else []) @
         (if telemetryEnabled env then [TrieRootHash] else [])"
    and lg4: "\<exists>extra. log ct4 = log ct3 @ extra \<and> errorfDigests extra = []"
    using nf 3(2)
    by (cases "0 < acc3"; cases "telemetryEnabled env")
       (simp_all add: commitAndReport_def Trie_Commit_def Trie_RootHash_def)
  from tr4 obtain t4 where t4: "balancesTrie ct4 = Some t4" "members t4 = members t3"
    "calls t4 = calls t3 @ (if 0 < acc3 then [TrieCommit] else []) @
         (if telemetryEnabled env then [TrieRootHash] else [])" by blast
  from lg4 obtain extra where ex: "log ct4 = log ct3 @ extra" "errorfDigests extra = []" by blast
  show ?thesis
    apply (rule exI [of _ ct4], rule exI [of _ t4], rule exI [of _ "new @ extra"])
    using run ct4 t4 ex 3 t0 by (simp add: errorfDigests_append)
qed

subsection \<open>Claims about accountsUpdateBalances\<close>

text \<open>
  C6, as stated, on a tracker whose \<open>catchpointInterval\<close> is 0: the old value of the
  first delta is not empty and its hash is in the trie, but the function returns nil
  at once (\<open>if !ct.catchpointEnabled()\<close>) and the trie has received no call.
\<close>

theorem accountsUpdateBalances_disabled_counterexample:
  "accountsUpdateBalances exampleHashBuilders exampleEnv exampleAccountsDeltas []
     exampleKvDeltas 0 1 (exampleTracker\<lparr>catchpointInterval := 0\<rparr>) =
     (None, exampleTracker\<lparr>catchpointInterval := 0\<rparr>) \<and>
   \<not> AccountDataIsEmpty exampleHashBuilders (oldAcct (hd exampleAccountsDeltas)) \<and>
   balancesTrie (exampleTracker\<lparr>catchpointInterval := 0\<rparr>) =
     Some \<lparr>members = {[1]}, calls = []\<rparr>"
  by (simp add: accountsUpdateBalances_def catchpointEnabled_def exampleTracker_def
      exampleHashBuilders_def exampleAccountsDeltas_def)

text \<open>
  C6, amended.  On a tracker whose \<open>catchpointInterval\<close> is 0 \<open>accountsUpdateBalances\<close>
  returns nil and the tracker, its trie included, is as it was.  On a tracker with
  catchpoints enabled (\<open>catchpointInterval \<noteq> 0\<close>) and a trie, when neither the trie
  nor the resource hash builder returns an error, \<open>accountsUpdateBalances\<close> returns nil
  and the calls the trie receives are, in order, the operations of the deltas: for
  every account and resource delta a delete of the old hash when the old value is not
  empty and an add of the new hash when the new value is not empty, for every KV delta
  the same unless its old and new payloads are equal or both absent, in which case it
  is skipped.  An add or a delete that returns false is logged with its digest and the
  function still returns nil.  \<open>Commit\<close> is called iff at least one add or delete has
  changed the trie.
\<close>

theorem accountsUpdateBalances_amended:
  "(catchpointInterval ct = 0 \<longrightarrow>
      accountsUpdateBalances hb env accountsDeltas resourcesDeltas kvDeltas ob nb ct =
        (None, ct)) \<and>
   (catchpointInterval ct \<noteq> 0 \<and> balancesTrie ct = Some t \<and>
    (\<forall>c. fault env (OpTrie c) = None) \<and>
    (\<forall>r a i. \<exists>h. ResourcesHashBuilderV6 hb r a i = Inr h) \<longrightarrow>
    (\<exists>ct' t' new.
     accountsUpdateBalances hb env accountsDeltas resourcesDeltas kvDeltas ob nb ct = (None, ct') \<and>
     balancesTrie ct' = Some t' \<and>
     calls t' = calls t @ spec_trieOps hb accountsDeltas resourcesDeltas kvDeltas @
       (if 0 < spec_changes (spec_trieOps hb accountsDeltas resourcesDeltas kvDeltas) (members t)
        then [TrieCommit] else []) @
       (if telemetryEnabled env then [TrieRootHash] else []) \<and>
     members t' = foldl spec_applyOp (members t)
       (spec_trieOps hb accountsDeltas resourcesDeltas kvDeltas) \<and>
     log ct' = log ct @ new \<and>
     errorfDigests new =
       spec_unchanged (spec_trieOps hb accountsDeltas resourcesDeltas kvDeltas) (members t) \<and>
     (TrieCommit \<in> set (drop (length (calls t)) (calls t')) \<longleftrightarrow>
      0 < spec_changes (spec_trieOps hb accountsDeltas resourcesDeltas kvDeltas) (members t))))"
proof (intro conjI impI)
  assume "catchpointInterval ct = 0"
  then show "accountsUpdateBalances hb env accountsDeltas resourcesDeltas kvDeltas ob nb ct =
        (None, ct)"
    by (simp add: accountsUpdateBalances_def catchpointEnabled_def)
next
  assume h: "catchpointInterval ct \<noteq> 0 \<and> balancesTrie ct = Some t \<and>
    (\<forall>c. fault env (OpTrie c) = None) \<and>
    (\<forall>r a i. \<exists>h. ResourcesHashBuilderV6 hb r a i = Inr h)"
  then have h1: "catchpointInterval ct \<noteq> 0"
    and h2: "balancesTrie ct = Some t"
    and h3: "\<forall>c. fault env (OpTrie c) = None"
    and h4: "\<forall>r a i. \<exists>h. ResourcesHashBuilderV6 hb r a i = Inr h"
    by simp_all
  from accountsUpdateBalances_refines [OF h1 h2 h3 h4,
      of accountsDeltas resourcesDeltas kvDeltas ob nb]
  obtain ct' t' new where r:
    "accountsUpdateBalances hb env accountsDeltas resourcesDeltas kvDeltas ob nb ct = (None, ct')"
    "balancesTrie ct' = Some t'"
    "calls t' = calls t @ spec_trieOps hb accountsDeltas resourcesDeltas kvDeltas @
       (if 0 < spec_changes (spec_trieOps hb accountsDeltas resourcesDeltas kvDeltas) (members t)
        then [TrieCommit] else []) @
       (if telemetryEnabled env then [TrieRootHash] else [])"
    "members t' = foldl spec_applyOp (members t)
       (spec_trieOps hb accountsDeltas resourcesDeltas kvDeltas)"
    "log ct' = log ct @ new"
    "errorfDigests new =
       spec_unchanged (spec_trieOps hb accountsDeltas resourcesDeltas kvDeltas) (members t)"
    by blast
  have "TrieCommit \<in> set (drop (length (calls t)) (calls t')) \<longleftrightarrow>
      0 < spec_changes (spec_trieOps hb accountsDeltas resourcesDeltas kvDeltas) (members t)"
    using spec_trieOps_no_commit [of hb accountsDeltas resourcesDeltas kvDeltas]
    by (simp add: r(3))
  with r show "\<exists>ct' t' new.
     accountsUpdateBalances hb env accountsDeltas resourcesDeltas kvDeltas ob nb ct = (None, ct') \<and>
     balancesTrie ct' = Some t' \<and>
     calls t' = calls t @ spec_trieOps hb accountsDeltas resourcesDeltas kvDeltas @
       (if 0 < spec_changes (spec_trieOps hb accountsDeltas resourcesDeltas kvDeltas) (members t)
        then [TrieCommit] else []) @
       (if telemetryEnabled env then [TrieRootHash] else []) \<and>
     members t' = foldl spec_applyOp (members t)
       (spec_trieOps hb accountsDeltas resourcesDeltas kvDeltas) \<and>
     log ct' = log ct @ new \<and>
     errorfDigests new =
       spec_unchanged (spec_trieOps hb accountsDeltas resourcesDeltas kvDeltas) (members t) \<and>
     (TrieCommit \<in> set (drop (length (calls t)) (calls t')) \<longleftrightarrow>
      0 < spec_changes (spec_trieOps hb accountsDeltas resourcesDeltas kvDeltas) (members t))"
    by - (rule exI, rule exI, rule exI, (rule conjI, assumption)+, assumption)
qed

text \<open>
  An instance: the trie holds the hash \<open>[1]\<close>.  The first account goes from 1 to 2
  (a delete and an add that change the trie), the second from 3 to nothing (a delete
  that returns false and is logged); of the three KV deltas one has equal payloads
  and one has none, and both are skipped, and one is new.  With the interval set to 0
  the same deltas leave the tracker as it was.
\<close>

theorem accountsUpdateBalances_amended_witness:
  "accountsUpdateBalances exampleHashBuilders exampleEnv exampleAccountsDeltas []
     exampleKvDeltas 0 1 exampleTracker =
     (None, exampleTracker\<lparr>
        balancesTrie := Some \<lparr>members = {[2], [254, 6]},
          calls = [TrieDelete [1], TrieAdd [2], TrieDelete [3], TrieAdd [254, 6], TrieCommit]\<rparr>,
        log := [Errorf ''failed to delete hash from merkle trie for account'' [3]]\<rparr>) \<and>
   spec_trieOps exampleHashBuilders exampleAccountsDeltas [] exampleKvDeltas @
     (if 0 < spec_changes
               (spec_trieOps exampleHashBuilders exampleAccountsDeltas [] exampleKvDeltas) {[1]}
      then [TrieCommit] else []) =
     [TrieDelete [1], TrieAdd [2], TrieDelete [3], TrieAdd [254, 6], TrieCommit] \<and>
   spec_unchanged (spec_trieOps exampleHashBuilders exampleAccountsDeltas [] exampleKvDeltas)
     {[1]} = [[3]] \<and>
   accountsUpdateBalances exampleHashBuilders exampleEnv exampleAccountsDeltas []
     exampleKvDeltas 0 1 (exampleTracker\<lparr>catchpointInterval := 0\<rparr>) =
     (None, exampleTracker\<lparr>catchpointInterval := 0\<rparr>)"
proof -
  have ev: "accountsUpdateBalances exampleHashBuilders exampleEnv exampleAccountsDeltas []
     exampleKvDeltas 0 1 exampleTracker =
     (None, exampleTracker\<lparr>
        balancesTrie := Some \<lparr>members = {[2], [254, 6]},
          calls = [TrieDelete [1], TrieAdd [2], TrieDelete [3], TrieAdd [254, 6], TrieCommit]\<rparr>,
        log := [Errorf ''failed to delete hash from merkle trie for account'' [3]]\<rparr>)"
    by (simp add: accountsUpdateBalances_def catchpointEnabled_def exampleTracker_def
        exampleHashBuilders_def exampleEnv_def exampleAccountsDeltas_def exampleKvDeltas_def
        deleteHashStep_def addHashStep_def Trie_Delete_def Trie_Add_def commitAndReport_def
        Trie_Commit_def insert_commute)
  have h: "catchpointInterval exampleTracker \<noteq> 0 \<and>
    balancesTrie exampleTracker = Some \<lparr>members = {[1]}, calls = []\<rparr> \<and>
    (\<forall>c. fault exampleEnv (OpTrie c) = None) \<and>
    (\<forall>r a i. \<exists>h. ResourcesHashBuilderV6 exampleHashBuilders r a i = Inr h)"
    by (simp add: exampleTracker_def exampleEnv_def exampleHashBuilders_def)
  have z: "accountsUpdateBalances exampleHashBuilders exampleEnv exampleAccountsDeltas []
     exampleKvDeltas 0 1 (exampleTracker\<lparr>catchpointInterval := 0\<rparr>) =
     (None, exampleTracker\<lparr>catchpointInterval := 0\<rparr>)"
    by (rule accountsUpdateBalances_amended [THEN conjunct1, THEN mp]) simp
  from accountsUpdateBalances_amended [where ct = exampleTracker and env = exampleEnv
      and hb = exampleHashBuilders and accountsDeltas = exampleAccountsDeltas
      and resourcesDeltas = "[]" and kvDeltas = exampleKvDeltas and ob = 0 and nb = 1
      and t = "\<lparr>members = {[1]}, calls = []\<rparr>", THEN conjunct2, THEN mp, OF h]
  obtain ct' t' new where r:
    "accountsUpdateBalances exampleHashBuilders exampleEnv exampleAccountsDeltas []
       exampleKvDeltas 0 1 exampleTracker = (None, ct')"
    "balancesTrie ct' = Some t'"
    "calls t' = calls \<lparr>members = {[1]}, calls = []\<rparr> @
       spec_trieOps exampleHashBuilders exampleAccountsDeltas [] exampleKvDeltas @
       (if 0 < spec_changes
                 (spec_trieOps exampleHashBuilders exampleAccountsDeltas [] exampleKvDeltas)
                 (members \<lparr>members = {[1]}, calls = []\<rparr>)
        then [TrieCommit] else []) @
       (if telemetryEnabled exampleEnv then [TrieRootHash] else [])"
    "log ct' = log exampleTracker @ new"
    "errorfDigests new =
       spec_unchanged (spec_trieOps exampleHashBuilders exampleAccountsDeltas [] exampleKvDeltas)
         (members \<lparr>members = {[1]}, calls = []\<rparr>)"
    by blast
  from r(1) ev have ct': "ct' = exampleTracker\<lparr>
        balancesTrie := Some \<lparr>members = {[2], [254, 6]},
          calls = [TrieDelete [1], TrieAdd [2], TrieDelete [3], TrieAdd [254, 6], TrieCommit]\<rparr>,
        log := [Errorf ''failed to delete hash from merkle trie for account'' [3]]\<rparr>"
    by simp
  have t': "t' = \<lparr>members = {[2], [254, 6]},
          calls = [TrieDelete [1], TrieAdd [2], TrieDelete [3], TrieAdd [254, 6], TrieCommit]\<rparr>"
    using r(2) by (simp add: ct')
  have new: "new = [Errorf ''failed to delete hash from merkle trie for account'' [3]]"
    using r(4) by (simp add: ct' exampleTracker_def)
  have c: "spec_trieOps exampleHashBuilders exampleAccountsDeltas [] exampleKvDeltas @
     (if 0 < spec_changes
               (spec_trieOps exampleHashBuilders exampleAccountsDeltas [] exampleKvDeltas) {[1]}
      then [TrieCommit] else []) =
     [TrieDelete [1], TrieAdd [2], TrieDelete [3], TrieAdd [254, 6], TrieCommit]"
    using r(3) by (simp add: t' exampleEnv_def)
  have u: "spec_unchanged
      (spec_trieOps exampleHashBuilders exampleAccountsDeltas [] exampleKvDeltas) {[1]} = [[3]]"
    using r(5) by (simp add: new)
  from ev c u z show ?thesis by blast
qed

section \<open>Properties of the repacking\<close>

lemma ReadAtLeast_ok:
  assumes "ReadAtLeast (entryData e) (entryEnd e) bufLen (Size (hdr e)) = (got, err)"
    and "err = None \<or> err = Some EOF"
    and "int (length got) = Size (hdr e)"
  shows "got = entryData e"
proof (cases "Size (hdr e) \<le> 0")
  case True
  then have "entryData e = []" by (simp add: entryData_def)
  moreover have "got = []" using assms(3) True by (cases got) simp_all
  ultimately show ?thesis by simp
next
  case False
  then have pos: "0 < Size (hdr e)" by simp
  have le: "int (length (entryData e)) \<le> Size (hdr e)"
    using pos by (simp add: entryData_def)
  have nsb: "\<not> int bufLen < Size (hdr e)"
    using assms by (auto simp: ReadAtLeast_def split: if_splits)
  then have g: "got = take bufLen (entryData e)"
    using assms(1) False by (auto simp: ReadAtLeast_def Let_def split: if_splits)
  have "length got = nat (Size (hdr e))" using assms(3) by simp
  then have "length (entryData e) \<le> bufLen" using g le nsb by (simp add: min_def split: if_splits)
  then show ?thesis using g by simp
qed

lemma doRepackLoop_success:
  "doRepackLoop env ctx bufLen endErr k ins out = (None, out') \<Longrightarrow>
   out' = out @ map (\<lambda>e. \<lparr>hdr = hdr e, content = entryData e\<rparr>) ins \<and>
   (\<forall>e \<in> set ins.
      int (length (fst (ReadAtLeast (entryData e) (entryEnd e) bufLen (Size (hdr e))))) = Size (hdr e))"
proof (induction ins arbitrary: k out)
  case Nil
  then show ?case by (auto split: option.splits if_splits)
next
  case (Cons entry rest)
  obtain got err where ra: "ReadAtLeast (entryData entry) (entryEnd entry) bufLen (Size (hdr entry)) = (got, err)"
    by (cases "ReadAtLeast (entryData entry) (entryEnd entry) bufLen (Size (hdr entry))")
  from Cons.prems ra have c1: "err = None \<or> err = Some EOF"
    and c2: "int (length got) = Size (hdr entry)"
    and rec: "doRepackLoop env ctx bufLen endErr (Suc k) rest
                (out @ [\<lparr>hdr = hdr entry, content = got\<rparr>]) = (None, out')"
    by (auto split: option.splits if_splits)
  have got: "got = entryData entry" by (rule ReadAtLeast_ok [OF ra c1 c2])
  from Cons.IH [OF rec] show ?case using got c2 ra by simp
qed


lemma doRepackCatchpoint_success:
  assumes "doRepackCatchpoint env ctx header bcl inR out = (None, out')"
  shows "out' = out @ contentEntry env header #
                  map (\<lambda>e. \<lparr>hdr = hdr e, content = entryData e\<rparr>) (entriesLeft inR) \<and>
         (\<forall>e \<in> set (entriesLeft inR).
            int (length (fst (ReadAtLeast (entryData e) (entryEnd e) (unat bcl) (Size (hdr e))))) =
              Size (hdr e))"
proof -
  from assms have
    "doRepackLoop env ctx (unat bcl) (endError inR) 0 (entriesLeft inR)
       (out @ [contentEntry env header]) = (None, out')"
    by (auto simp: doRepackCatchpoint_def split: option.splits if_splits)
  from doRepackLoop_success [OF this] show ?thesis by simp
qed



lemma repackCatchpoint_success:
  assumes "repackCatchpoint env ctx header bcl dataPath outPath w = (None, w')"
  shows "\<exists>fin. files w dataPath = Some fin \<and> fileCodec fin = Snappy \<and>
           files w' = (files w)(outPath \<mapsto>
             \<lparr>fileCodec = Gzip,
              fileEntries = contentEntry env header #
                map (\<lambda>e. \<lparr>hdr = hdr e, content = entryData e\<rparr>) (fileEntries fin),
              fileDamage = None\<rparr>)"
proof -
  from assms obtain fin where op: "os_Open env dataPath w = Inr fin"
    by (auto simp: repackCatchpoint_def split: sum.splits)
  then have fin: "files w dataPath = Some fin"
    by (auto simp: os_Open_def split: option.splits)
  obtain res out where dr:
    "doRepackCatchpoint env ctx header bcl (stage1Reader fin) [] = (res, out)"
    by (cases "doRepackCatchpoint env ctx header bcl (stage1Reader fin) []")
  from assms op dr have res: "res = None"
    and w': "w' = w\<lparr>files := (files w)(outPath \<mapsto>
                 \<lparr>fileCodec = Gzip, fileEntries = out, fileDamage = None\<rparr>)\<rparr>"
    by (auto simp: repackCatchpoint_def Let_def split: option.splits)
  from doRepackCatchpoint_success [OF dr [unfolded res]]
  have out: "out = contentEntry env header #
                  map (\<lambda>e. \<lparr>hdr = hdr e, content = entryData e\<rparr>) (entriesLeft (stage1Reader fin))"
    by simp
  have sn: "fileCodec fin = Snappy"
  proof (rule ccontr)
    assume "fileCodec fin \<noteq> Snappy"
    then have "stage1Reader fin =
        \<lparr>entriesLeft = [], endError = Some (ErrOther ''snappy: corrupt input'')\<rparr>"
      by (simp add: stage1Reader_def)
    then have "fst (doRepackCatchpoint env ctx header bcl (stage1Reader fin) []) \<noteq> None"
      by (auto simp: doRepackCatchpoint_def split: option.splits)
    then show False using dr res by simp
  qed
  show ?thesis using fin sn out w' by (simp add: stage1Reader_def)
qed


subsection \<open>Claims about doRepackCatchpoint\<close>



section \<open>Properties of the second stage\<close>

text \<open>
  What the operations on the registry leave alone, what a transaction does to the
  store, and the paths through \<open>createCatchpoint\<close>.
\<close>

lemma StoreCatchpoint_frame:
  "StoreCatchpoint env r f s w = (res, w') \<Longrightarrow>
     tracker w' = tracker w \<and> files w' = files w \<and>
     (store w')\<lparr>storedCatchpoints := []\<rparr> = (store w)\<lparr>storedCatchpoints := []\<rparr>"
  by (auto simp: StoreCatchpoint_def Let_def split: option.splits)

lemma RemoveSingleCatchpointFileFromDisk_frame:
  "RemoveSingleCatchpointFileFromDisk env dir f w = (res, w') \<Longrightarrow>
     tracker w' = tracker w \<and> store w' = store w"
  by (auto simp: RemoveSingleCatchpointFileFromDisk_def Let_def split: option.splits)

lemma deleteOldCatchpointFiles_frame:
  "deleteOldCatchpointFiles env xs w = (res, w') \<Longrightarrow>
     tracker w' = tracker w \<and>
     (store w')\<lparr>storedCatchpoints := []\<rparr> = (store w)\<lparr>storedCatchpoints := []\<rparr>"
proof (induction xs arbitrary: w)
  case Nil
  then show ?case by simp
next
  case (Cons x xs)
  obtain round fileToDelete where x: "x = (round, fileToDelete)" by (cases x)
  obtain r1 w1 where rm:
    "RemoveSingleCatchpointFileFromDisk env (dbDirectory (tracker w)) fileToDelete w = (r1, w1)"
    by (cases "RemoveSingleCatchpointFileFromDisk env (dbDirectory (tracker w)) fileToDelete w")
  note f1 = RemoveSingleCatchpointFileFromDisk_frame [OF rm]
  obtain r2 w2 where st: "StoreCatchpoint env round [] 0 w1 = (r2, w2)"
    by (cases "StoreCatchpoint env round [] 0 w1")
  note f2 = StoreCatchpoint_frame [OF st]
  show ?case
  proof (cases r1)
    case (Some e)
    with Cons.prems x rm f1 show ?thesis by auto
  next
    case None
    note r1 = this
    show ?thesis
    proof (cases r2)
      case (Some e)
      with Cons.prems x rm st r1 have "w' = w2" by simp
      with f1 f2 show ?thesis by auto
    next
      case None
      with Cons.prems x rm st r1 have "deleteOldCatchpointFiles env xs w2 = (res, w')" by simp
      from Cons.IH [OF this] f1 f2 show ?thesis by auto
    qed
  qed
qed

lemma recordCatchpointFile_frame:
  assumes "recordCatchpointFile env round p s w = (res, w')"
  shows "(tracker w')\<lparr>log := []\<rparr> = (tracker w)\<lparr>log := []\<rparr> \<and>
     (store w')\<lparr>storedCatchpoints := []\<rparr> = (store w)\<lparr>storedCatchpoints := []\<rparr>"
proof -
  define first where "first =
    (if catchpointFileHistoryLength (tracker w) \<noteq> 0
     then (case StoreCatchpoint env round p s w of
             (Some err, w1) \<Rightarrow>
               (Some err,
                logf (Warnf ''catchpointTracker.recordCatchpointFile() unable to save catchpoint'') w1)
           | (None, w1) \<Rightarrow> (None, w1))
     else (case RemoveSingleCatchpointFileFromDisk env (dbDirectory (tracker w)) p w of
             (Some err, w1) \<Rightarrow>
               (Some err,
                logf (Warnf ''catchpointTracker.recordCatchpointFile() unable to remove file'') w1)
           | (None, w1) \<Rightarrow> (None, w1)))"
  obtain r1 w1 where f: "first = (r1, w1)" by (cases first)
  have fr1: "(tracker w1)\<lparr>log := []\<rparr> = (tracker w)\<lparr>log := []\<rparr> \<and>
     (store w1)\<lparr>storedCatchpoints := []\<rparr> = (store w)\<lparr>storedCatchpoints := []\<rparr>"
  proof (cases "catchpointFileHistoryLength (tracker w) \<noteq> 0")
    case True
    obtain r0 w0 where st: "StoreCatchpoint env round p s w = (r0, w0)"
      by (cases "StoreCatchpoint env round p s w")
    from StoreCatchpoint_frame [OF st] f True st show ?thesis
      by (cases r0) (auto simp: first_def logf_def)
  next
    case False
    obtain r0 w0 where rm:
      "RemoveSingleCatchpointFileFromDisk env (dbDirectory (tracker w)) p w = (r0, w0)"
      by (cases "RemoveSingleCatchpointFileFromDisk env (dbDirectory (tracker w)) p w")
    from RemoveSingleCatchpointFileFromDisk_frame [OF rm] f False rm show ?thesis
      by (cases r0) (auto simp: first_def logf_def)
  qed
  have rc: "recordCatchpointFile env round p s w =
     (case first of
        (Some err, w1) \<Rightarrow> (Some err, w1)
      | (None, w1) \<Rightarrow>
          if catchpointFileHistoryLength (tracker w1) = - 1 then (None, w1)
          else
            (case GetOldestCatchpointFiles env 2 (nat (catchpointFileHistoryLength (tracker w1))) w1 of
               Inl err \<Rightarrow>
                 (Some (ErrorfWrap
                    ''unable to delete catchpoint file, getOldestCatchpointFiles failed'' err), w1)
             | Inr filesToDelete \<Rightarrow> deleteOldCatchpointFiles env filesToDelete w1))"
    unfolding recordCatchpointFile_def first_def ..
  show ?thesis
  proof (cases r1)
    case (Some e)
    with assms rc f have "w' = w1" by simp
    with fr1 show ?thesis by simp
  next
    case None
    note r1 = this
    show ?thesis
    proof (cases "catchpointFileHistoryLength (tracker w1) = - 1")
      case True
      with assms rc f r1 have "w' = w1" by simp
      with fr1 show ?thesis by simp
    next
      case False
      note nm = this
      show ?thesis
      proof (cases "GetOldestCatchpointFiles env 2 (nat (catchpointFileHistoryLength (tracker w1))) w1")
        case (Inl e)
        with assms rc f r1 nm have "w' = w1" by simp
        with fr1 show ?thesis by simp
      next
        case (Inr filesToDelete)
        with assms rc f r1 nm have "deleteOldCatchpointFiles env filesToDelete w1 = (res, w')"
          by simp
        from deleteOldCatchpointFiles_frame [OF this] fr1 show ?thesis by auto
      qed
    qed
  qed
qed

lemma Transaction_ok:
  "Transaction env body w = (None, w') \<Longrightarrow> body w = (None, w')"
  by (auto simp: Transaction_def split: option.splits prod.splits)

lemma Transaction_err:
  "Transaction env body w = (Some e, w') \<Longrightarrow> store w' = store w"
  by (auto simp: Transaction_def split: option.splits prod.splits)

lemma repackCatchpoint_frame:
  "repackCatchpoint env ctx header bcl dataPath outPath w = (res, w') \<Longrightarrow>
     tracker w' = tracker w \<and> store w' = store w"
  by (auto simp: repackCatchpoint_def Let_def split: sum.splits option.splits prod.splits)

lemma createCatchpoint_invalid:
  assumes "EnableCatchpointsWithOnlineAccounts (Consensus env blockProto)"
    and "\<not> EnableCatchpointsWithSPContexts (Consensus env blockProto)"
  shows "createCatchpoint env ctx accountsRound round dataInfo blockHash blockProto w =
     (Some (ErrorfMsg ''invalid params for catchpoint file version v8: SP contexts not enabled''), w)"
  using assms by (simp add: createCatchpoint_def createCatchpoint_labelMaker_def)

lemma createCatchpoint_after_label:
  assumes lm: "createCatchpoint_labelMaker (Consensus env blockProto) round dataInfo blockHash =
                 Inr (maker, version)"
    and wr: "WriteCatchpointStateString env CatchpointStateLastCatchpoint (MakeLabel env maker)
               (logf (Infof ''creating catchpoint'') w) = (None, w1)"
    and w2: "w2 = w1\<lparr>tracker := (tracker w1)\<lparr>lastCatchpointLabel := MakeLabel env maker\<rparr>\<rparr>"
    and dp: "dataPath = filepath_Join (filepath_Join (tmpDir (tracker w2)) CatchpointDirName)
                         (makeCatchpointDataFilePath accountsRound)"
    and rp: "relPath = filepath_Join CatchpointDirName (MakeCatchpointFilePath env round)"
    and ap: "absPath = filepath_Join (dbDirectory (tracker w2)) relPath"
    and hd: "header = \<lparr>Version = version, BalancesRound = accountsRound, BlocksRound = round,
                HeaderTotals = Totals dataInfo, HeaderTotalAccounts = TotalAccounts dataInfo,
                HeaderTotalKVs = TotalKVs dataInfo,
                HeaderTotalOnlineAccounts = TotalOnlineAccounts dataInfo,
                HeaderTotalOnlineRoundParams = TotalOnlineRoundParams dataInfo,
                HeaderTotalChunks = TotalChunks dataInfo,
                Catchpoint = MakeLabel env maker, BlockHeaderDigest = blockHash\<rparr>"
  shows "createCatchpoint env ctx accountsRound round dataInfo blockHash blockProto w =
     (if \<not> enableGeneratingCatchpointFiles (tracker w2) then (None, w2)
      else
        (case os_Stat env dataPath w2 of
           Inl err \<Rightarrow> if err = ErrNotExist then (None, w2) else (Some err, w2)
         | Inr dataFile \<Rightarrow>
             (case fault env (OpMkdirAll absPath) of
                Some err \<Rightarrow> (Some err, w2)
              | None \<Rightarrow>
                  (case repackCatchpoint env ctx header (BiggestChunkLen dataInfo)
                          dataPath absPath w2 of
                     (Some err, w3) \<Rightarrow> (Some err, w3)
                   | (None, w3) \<Rightarrow>
                       (case os_Stat env absPath w3 of
                          Inl err \<Rightarrow> (Some err, w3)
                        | Inr fileInfo \<Rightarrow>
                            (case Transaction env
                                    (createCatchpoint_tx env round relPath
                                       (fileSizeOf env fileInfo)) w3 of
                               (Some err, w4) \<Rightarrow> (Some err, w4)
                             | (None, w4) \<Rightarrow>
                                 (None, logf (Infof ''Catchpoint file was created'') w4)))))))"
  by (simp only: createCatchpoint_def lm sum.case prod.case Let_def wr option.case
      flip: w2 hd dp rp ap)

lemma createCatchpoint_label_written:
  assumes "WriteCatchpointStateString env CatchpointStateLastCatchpoint label
               (logf (Infof ''creating catchpoint'') w) = (None, w1)"
    and "w2 = w1\<lparr>tracker := (tracker w1)\<lparr>lastCatchpointLabel := label\<rparr>\<rparr>"
  shows "tracker w2 = (tracker w)\<lparr>log := log (tracker w) @ [Infof ''creating catchpoint''],
                                   lastCatchpointLabel := label\<rparr>"
    and "store w2 = (store w)\<lparr>catchpointStateString :=
           (catchpointStateString (store w))(CatchpointStateLastCatchpoint := label)\<rparr>"
    and "files w2 = files w"
  using assms
  by (auto simp: WriteCatchpointStateString_def logf_def split: option.splits)

lemma tracker_but_log:
  assumes "(t' :: catchpointTracker)\<lparr>log := []\<rparr> = t\<lparr>log := []\<rparr>"
  shows "lastCatchpointLabel t' = lastCatchpointLabel t"
    and "dbDirectory t' = dbDirectory t"
    and "tmpDir t' = tmpDir t"
    and "catchpointFileHistoryLength t' = catchpointFileHistoryLength t"
    and "enableGeneratingCatchpointFiles t' = enableGeneratingCatchpointFiles t"
  using assms by (cases t, cases t', simp)+

lemma store_but_registry:
  assumes "(s' :: Store)\<lparr>storedCatchpoints := []\<rparr> = s\<lparr>storedCatchpoints := []\<rparr>"
  shows "catchpointStateString s' = catchpointStateString s"
    and "catchpointStateUint64 s' = catchpointStateUint64 s"
    and "unfinishedCatchpoints s' = unfinishedCatchpoints s"
    and "firstStageInfos s' = firstStageInfos s"
  using assms by (cases s, cases s', simp)+

lemma createCatchpoint_tx_ok:
  assumes "createCatchpoint_tx env round p s w = (None, w')"
  shows "\<exists>w1. recordCatchpointFile env round p s w = (None, w1) \<and>
           w' = w1\<lparr>store := (store w1)\<lparr>unfinishedCatchpoints :=
                  (unfinishedCatchpoints (store w1))(round := None)\<rparr>\<rparr>"
  using assms
  by (auto simp: createCatchpoint_tx_def DeleteUnfinishedCatchpoint_def
      split: option.splits prod.splits)

lemma createCatchpoint_tx_effect:
  assumes "createCatchpoint_tx env round p s w = (None, w')"
  shows "unfinishedCatchpoints (store w') = (unfinishedCatchpoints (store w))(round := None)"
    and "catchpointStateString (store w') = catchpointStateString (store w)"
    and "lastCatchpointLabel (tracker w') = lastCatchpointLabel (tracker w)"
proof -
  from createCatchpoint_tx_ok [OF assms] obtain w1 where
    r: "recordCatchpointFile env round p s w = (None, w1)" and
    w': "w' = w1\<lparr>store := (store w1)\<lparr>unfinishedCatchpoints :=
                  (unfinishedCatchpoints (store w1))(round := None)\<rparr>\<rparr>"
    by blast
  note f = recordCatchpointFile_frame [OF r]
  show "unfinishedCatchpoints (store w') = (unfinishedCatchpoints (store w))(round := None)"
    using store_but_registry(3) [OF f [THEN conjunct2]] by (simp add: w')
  show "catchpointStateString (store w') = catchpointStateString (store w)"
    using store_but_registry(1) [OF f [THEN conjunct2]] by (simp add: w')
  show "lastCatchpointLabel (tracker w') = lastCatchpointLabel (tracker w)"
    using tracker_but_log(1) [OF f [THEN conjunct1]] by (simp add: w')
qed

lemma createCatchpoint_success_cases:
  assumes ok: "createCatchpoint env ctx accountsRound round dataInfo blockHash blockProto w =
                 (None, w')"
    and lm: "createCatchpoint_labelMaker (Consensus env blockProto) round dataInfo blockHash =
                 Inr (maker, version)"
    and wr: "WriteCatchpointStateString env CatchpointStateLastCatchpoint (MakeLabel env maker)
               (logf (Infof ''creating catchpoint'') w) = (None, w1)"
    and w2: "w2 = w1\<lparr>tracker := (tracker w1)\<lparr>lastCatchpointLabel := MakeLabel env maker\<rparr>\<rparr>"
    and dp: "dataPath = filepath_Join (filepath_Join (tmpDir (tracker w2)) CatchpointDirName)
                         (makeCatchpointDataFilePath accountsRound)"
    and rp: "relPath = filepath_Join CatchpointDirName (MakeCatchpointFilePath env round)"
    and ap: "absPath = filepath_Join (dbDirectory (tracker w2)) relPath"
    and hd: "header = \<lparr>Version = version, BalancesRound = accountsRound, BlocksRound = round,
                HeaderTotals = Totals dataInfo, HeaderTotalAccounts = TotalAccounts dataInfo,
                HeaderTotalKVs = TotalKVs dataInfo,
                HeaderTotalOnlineAccounts = TotalOnlineAccounts dataInfo,
                HeaderTotalOnlineRoundParams = TotalOnlineRoundParams dataInfo,
                HeaderTotalChunks = TotalChunks dataInfo,
                Catchpoint = MakeLabel env maker, BlockHeaderDigest = blockHash\<rparr>"
  shows "(w' = w2 \<and> (\<not> enableGeneratingCatchpointFiles (tracker w2) \<or>
                      os_Stat env dataPath w2 = Inl ErrNotExist)) \<or>
         (enableGeneratingCatchpointFiles (tracker w2) \<and>
          (\<exists>dataFile w3 fileInfo w4.
             os_Stat env dataPath w2 = Inr dataFile \<and>
             repackCatchpoint env ctx header (BiggestChunkLen dataInfo) dataPath absPath w2 =
               (None, w3) \<and>
             os_Stat env absPath w3 = Inr fileInfo \<and>
             createCatchpoint_tx env round relPath (fileSizeOf env fileInfo) w3 = (None, w4) \<and>
             w' = logf (Infof ''Catchpoint file was created'') w4))"
  using ok [unfolded createCatchpoint_after_label [OF lm wr w2 dp rp ap hd]]
  by (auto split: if_splits sum.splits option.splits prod.splits dest!: Transaction_ok)

lemma createCatchpoint_success_start:
  assumes ok: "createCatchpoint env ctx accountsRound round dataInfo blockHash blockProto w =
                 (None, w')"
  shows "\<exists>maker version w1.
     createCatchpoint_labelMaker (Consensus env blockProto) round dataInfo blockHash =
       Inr (maker, version) \<and>
     WriteCatchpointStateString env CatchpointStateLastCatchpoint (MakeLabel env maker)
       (logf (Infof ''creating catchpoint'') w) = (None, w1)"
proof -
  from ok obtain maker version where lm:
    "createCatchpoint_labelMaker (Consensus env blockProto) round dataInfo blockHash =
       Inr (maker, version)"
    by (cases "createCatchpoint_labelMaker (Consensus env blockProto) round dataInfo blockHash")
      (auto simp: createCatchpoint_def)
  obtain r1 w1 where wr0:
    "WriteCatchpointStateString env CatchpointStateLastCatchpoint (MakeLabel env maker)
       (logf (Infof ''creating catchpoint'') w) = (r1, w1)"
    by (cases "WriteCatchpointStateString env CatchpointStateLastCatchpoint (MakeLabel env maker)
       (logf (Infof ''creating catchpoint'') w)")
  have "r1 = None"
    using ok by (cases r1) (simp_all add: createCatchpoint_def lm wr0 Let_def)
  with wr0 lm show ?thesis by blast
qed

lemma createCatchpoint_success_label:
  assumes ok: "createCatchpoint env ctx accountsRound round dataInfo blockHash blockProto w =
                 (None, w')"
  shows "\<exists>maker version.
     createCatchpoint_labelMaker (Consensus env blockProto) round dataInfo blockHash =
       Inr (maker, version) \<and>
     lastCatchpointLabel (tracker w') = MakeLabel env maker \<and>
     catchpointStateString (store w') CatchpointStateLastCatchpoint = MakeLabel env maker"
proof -
  from createCatchpoint_success_start [OF ok] obtain maker version w1 where
    lm: "createCatchpoint_labelMaker (Consensus env blockProto) round dataInfo blockHash =
       Inr (maker, version)" and
    wr: "WriteCatchpointStateString env CatchpointStateLastCatchpoint (MakeLabel env maker)
       (logf (Infof ''creating catchpoint'') w) = (None, w1)"
    by blast
  define w2 where "w2 = w1\<lparr>tracker := (tracker w1)\<lparr>lastCatchpointLabel := MakeLabel env maker\<rparr>\<rparr>"
  note fields = createCatchpoint_label_written [OF wr w2_def]
  have l2: "lastCatchpointLabel (tracker w2) = MakeLabel env maker"
    and s2: "catchpointStateString (store w2) CatchpointStateLastCatchpoint = MakeLabel env maker"
    by (simp_all add: fields)
  from createCatchpoint_success_cases [OF ok lm wr w2_def refl refl refl refl]
  have "lastCatchpointLabel (tracker w') = MakeLabel env maker \<and>
     catchpointStateString (store w') CatchpointStateLastCatchpoint = MakeLabel env maker"
  proof (elim disjE conjE exE)
    assume "w' = w2"
    with l2 s2 show ?thesis by simp
  next
    assume "w' = w2"
    with l2 s2 show ?thesis by simp
  next
    fix dataFile w3 fileInfo w4
    assume rp: "repackCatchpoint env ctx
          \<lparr>Version = version, BalancesRound = accountsRound, BlocksRound = round,
             HeaderTotals = Totals dataInfo, HeaderTotalAccounts = TotalAccounts dataInfo,
             HeaderTotalKVs = TotalKVs dataInfo,
             HeaderTotalOnlineAccounts = TotalOnlineAccounts dataInfo,
             HeaderTotalOnlineRoundParams = TotalOnlineRoundParams dataInfo,
             HeaderTotalChunks = TotalChunks dataInfo, Catchpoint = MakeLabel env maker,
             BlockHeaderDigest = blockHash\<rparr>
          (BiggestChunkLen dataInfo)
          (filepath_Join (filepath_Join (tmpDir (tracker w2)) CatchpointDirName)
            (makeCatchpointDataFilePath accountsRound))
          (filepath_Join (dbDirectory (tracker w2))
            (filepath_Join CatchpointDirName (MakeCatchpointFilePath env round)))
          w2 = (None, w3)"
      and tx: "createCatchpoint_tx env round
          (filepath_Join CatchpointDirName (MakeCatchpointFilePath env round))
          (fileSizeOf env fileInfo) w3 = (None, w4)"
      and w': "w' = logf (Infof ''Catchpoint file was created'') w4"
    from repackCatchpoint_frame [OF rp] createCatchpoint_tx_effect(2,3) [OF tx] l2 s2 w'
    show ?thesis by (simp add: logf_def)
  qed
  with lm show ?thesis by blast
qed

lemma createCatchpoint_failure_store:
  assumes er: "createCatchpoint env ctx accountsRound round dataInfo blockHash blockProto w =
                 (Some e, w')"
  shows "storedCatchpoints (store w') = storedCatchpoints (store w) \<and>
         unfinishedCatchpoints (store w') = unfinishedCatchpoints (store w)"
proof (cases "createCatchpoint_labelMaker (Consensus env blockProto) round dataInfo blockHash")
  case (Inl err)
  with er show ?thesis by (simp add: createCatchpoint_def)
next
  case (Inr mv)
  then obtain maker version where lm:
    "createCatchpoint_labelMaker (Consensus env blockProto) round dataInfo blockHash =
       Inr (maker, version)"
    by (cases mv) simp
  obtain r1 w1 where wr0:
    "WriteCatchpointStateString env CatchpointStateLastCatchpoint (MakeLabel env maker)
       (logf (Infof ''creating catchpoint'') w) = (r1, w1)"
    by (cases "WriteCatchpointStateString env CatchpointStateLastCatchpoint (MakeLabel env maker)
       (logf (Infof ''creating catchpoint'') w)")
  show ?thesis
  proof (cases r1)
    case (Some e1)
    with er lm wr0 have "w' = w1" by (simp add: createCatchpoint_def Let_def)
    with wr0 Some show ?thesis
      by (auto simp: WriteCatchpointStateString_def logf_def split: option.splits)
  next
    case None
    with wr0 have wr:
      "WriteCatchpointStateString env CatchpointStateLastCatchpoint (MakeLabel env maker)
         (logf (Infof ''creating catchpoint'') w) = (None, w1)"
      by simp
    define w2 where
      "w2 = w1\<lparr>tracker := (tracker w1)\<lparr>lastCatchpointLabel := MakeLabel env maker\<rparr>\<rparr>"
    note fields = createCatchpoint_label_written [OF wr w2_def]
    have s2: "storedCatchpoints (store w2) = storedCatchpoints (store w)"
      "unfinishedCatchpoints (store w2) = unfinishedCatchpoints (store w)"
      by (simp_all add: fields)
    note eq = createCatchpoint_after_label [OF lm wr w2_def refl refl refl refl, of ctx accountsRound]
    show ?thesis
      using er [unfolded eq] s2
      by (auto split: if_splits sum.splits option.splits prod.splits
          dest!: repackCatchpoint_frame Transaction_err)
  qed
qed

lemma repackCatchpoint_success_world:
  assumes "repackCatchpoint env ctx header bcl dataPath outPath w = (None, w')"
  shows "\<exists>fin. files w dataPath = Some fin \<and> fileCodec fin = Snappy \<and>
           tracker w' = tracker w \<and> store w' = store w \<and>
           files w' = (files w)(outPath \<mapsto>
             \<lparr>fileCodec = Gzip,
              fileEntries = contentEntry env header #
                map (\<lambda>e. \<lparr>hdr = hdr e, content = entryData e\<rparr>) (fileEntries fin),
              fileDamage = None\<rparr>)"
  using repackCatchpoint_success [OF assms] repackCatchpoint_frame [OF assms] by blast

lemma relCatchpointFilePath_not_empty:
  "filepath_Join CatchpointDirName p \<noteq> []"
  by (simp add: filepath_Join_def CatchpointDirName_def)

lemma recordCatchpointFile_keep_all:
  assumes "recordCatchpointFile env round p s w = (None, w')"
    and "catchpointFileHistoryLength (tracker w) = - 1"
    and "p \<noteq> []"
  shows "files w' = files w \<and>
         storedCatchpoints (store w') =
           (round, p, s) # filter (\<lambda>row. fst row \<noteq> round) (storedCatchpoints (store w))"
proof -
  obtain r0 w0 where st: "StoreCatchpoint env round p s w = (r0, w0)"
    by (cases "StoreCatchpoint env round p s w")
  note f = StoreCatchpoint_frame [OF st]
  have r0: "r0 = None"
    using assms(1,2) st by (cases r0) (simp_all add: recordCatchpointFile_def)
  have "w' = w0"
    using assms(1,2) st r0 f by (simp add: recordCatchpointFile_def)
  moreover have "storedCatchpoints (store w0) =
           (round, p, s) # filter (\<lambda>row. fst row \<noteq> round) (storedCatchpoints (store w))"
    using st r0 assms(3) by (auto simp: StoreCatchpoint_def Let_def split: option.splits)
  ultimately show ?thesis using f by simp
qed

lemma createCatchpoint_file_branch:
  assumes ok: "createCatchpoint env ctx accountsRound round dataInfo blockHash blockProto w =
                 (None, w')"
    and lm: "createCatchpoint_labelMaker (Consensus env blockProto) round dataInfo blockHash =
                 Inr (maker, version)"
    and en: "enableGeneratingCatchpointFiles (tracker w)"
    and st: "os_Stat env dataPath w \<noteq> Inl ErrNotExist"
    and dp: "dataPath = filepath_Join (filepath_Join (tmpDir (tracker w)) CatchpointDirName)
                         (makeCatchpointDataFilePath accountsRound)"
    and rp: "relPath = filepath_Join CatchpointDirName (MakeCatchpointFilePath env round)"
    and ap: "absPath = filepath_Join (dbDirectory (tracker w)) relPath"
    and hd: "header = \<lparr>Version = version, BalancesRound = accountsRound, BlocksRound = round,
                HeaderTotals = Totals dataInfo, HeaderTotalAccounts = TotalAccounts dataInfo,
                HeaderTotalKVs = TotalKVs dataInfo,
                HeaderTotalOnlineAccounts = TotalOnlineAccounts dataInfo,
                HeaderTotalOnlineRoundParams = TotalOnlineRoundParams dataInfo,
                HeaderTotalChunks = TotalChunks dataInfo,
                Catchpoint = MakeLabel env maker, BlockHeaderDigest = blockHash\<rparr>"
  shows "\<exists>fin w3 w5.
     files w dataPath = Some fin \<and> fileCodec fin = Snappy \<and>
     files w3 = (files w)(absPath \<mapsto>
       \<lparr>fileCodec = Gzip,
        fileEntries = contentEntry env header #
          map (\<lambda>e. \<lparr>hdr = hdr e, content = entryData e\<rparr>) (fileEntries fin),
        fileDamage = None\<rparr>) \<and>
     storedCatchpoints (store w3) = storedCatchpoints (store w) \<and>
     catchpointFileHistoryLength (tracker w3) = catchpointFileHistoryLength (tracker w) \<and>
     dbDirectory (tracker w3) = dbDirectory (tracker w) \<and>
     recordCatchpointFile env round relPath
       (fileSizeOf env \<lparr>fileCodec = Gzip,
          fileEntries = contentEntry env header #
            map (\<lambda>e. \<lparr>hdr = hdr e, content = entryData e\<rparr>) (fileEntries fin),
          fileDamage = None\<rparr>) w3 = (None, w5) \<and>
     files w' = files w5 \<and>
     storedCatchpoints (store w') = storedCatchpoints (store w5) \<and>
     unfinishedCatchpoints (store w') = (unfinishedCatchpoints (store w))(round := None)"
proof -
  from createCatchpoint_success_start [OF ok] lm obtain w1 where
    wr: "WriteCatchpointStateString env CatchpointStateLastCatchpoint (MakeLabel env maker)
       (logf (Infof ''creating catchpoint'') w) = (None, w1)"
    by auto
  define w2 where "w2 = w1\<lparr>tracker := (tracker w1)\<lparr>lastCatchpointLabel := MakeLabel env maker\<rparr>\<rparr>"
  note fields = createCatchpoint_label_written [OF wr w2_def]
  have t2: "tmpDir (tracker w2) = tmpDir (tracker w)"
    "dbDirectory (tracker w2) = dbDirectory (tracker w)"
    "enableGeneratingCatchpointFiles (tracker w2)"
    "catchpointFileHistoryLength (tracker w2) = catchpointFileHistoryLength (tracker w)"
    using en by (simp_all add: fields)
  have s2: "storedCatchpoints (store w2) = storedCatchpoints (store w)"
    "unfinishedCatchpoints (store w2) = unfinishedCatchpoints (store w)"
    by (simp_all add: fields)
  have st2: "os_Stat env dataPath w2 \<noteq> Inl ErrNotExist"
    using st unfolding os_Stat_def fields(3) .
  have dp2: "dataPath = filepath_Join (filepath_Join (tmpDir (tracker w2)) CatchpointDirName)
                         (makeCatchpointDataFilePath accountsRound)"
    and ap2: "absPath = filepath_Join (dbDirectory (tracker w2)) relPath"
    by (simp_all add: dp ap t2)
  from createCatchpoint_success_cases [OF ok lm wr w2_def dp2 rp ap2 hd] t2(3) st2
  obtain dataFile w3 fileInfo w4 where
    rpk: "repackCatchpoint env ctx header (BiggestChunkLen dataInfo) dataPath absPath w2 =
               (None, w3)" and
    st3: "os_Stat env absPath w3 = Inr fileInfo" and
    tx: "createCatchpoint_tx env round relPath (fileSizeOf env fileInfo) w3 = (None, w4)" and
    w': "w' = logf (Infof ''Catchpoint file was created'') w4"
    by auto
  from repackCatchpoint_success_world [OF rpk] obtain fin where
    fin: "files w2 dataPath = Some fin" "fileCodec fin = Snappy"
      "tracker w3 = tracker w2" "store w3 = store w2"
      "files w3 = (files w2)(absPath \<mapsto>
             \<lparr>fileCodec = Gzip,
              fileEntries = contentEntry env header #
                map (\<lambda>e. \<lparr>hdr = hdr e, content = entryData e\<rparr>) (fileEntries fin),
              fileDamage = None\<rparr>)"
    by blast
  have fi: "fileInfo = \<lparr>fileCodec = Gzip,
              fileEntries = contentEntry env header #
                map (\<lambda>e. \<lparr>hdr = hdr e, content = entryData e\<rparr>) (fileEntries fin),
              fileDamage = None\<rparr>"
    using st3 by (simp add: os_Stat_def fin(5) split: option.splits)
  from createCatchpoint_tx_ok [OF tx] obtain w5 where
    rc: "recordCatchpointFile env round relPath (fileSizeOf env fileInfo) w3 = (None, w5)" and
    w4: "w4 = w5\<lparr>store := (store w5)\<lparr>unfinishedCatchpoints :=
                  (unfinishedCatchpoints (store w5))(round := None)\<rparr>\<rparr>"
    by blast
  note u = createCatchpoint_tx_effect(1) [OF tx]
  have a: "files w dataPath = Some fin" using fin(1) by (simp add: fields)
  have b: "files w3 = (files w)(absPath \<mapsto>
       \<lparr>fileCodec = Gzip,
        fileEntries = contentEntry env header #
          map (\<lambda>e. \<lparr>hdr = hdr e, content = entryData e\<rparr>) (fileEntries fin),
        fileDamage = None\<rparr>)"
    using fin(5) by (simp add: fields)
  have c: "storedCatchpoints (store w3) = storedCatchpoints (store w)"
    by (simp add: fin(4) s2)
  have d: "catchpointFileHistoryLength (tracker w3) = catchpointFileHistoryLength (tracker w)"
    by (simp add: fin(3) t2)
  have d': "dbDirectory (tracker w3) = dbDirectory (tracker w)"
    by (simp add: fin(3) t2)
  have e: "files w' = files w5" by (simp add: w' w4 logf_def)
  have f: "storedCatchpoints (store w') = storedCatchpoints (store w5)"
    by (simp add: w' w4 logf_def)
  have g: "unfinishedCatchpoints (store w') = (unfinishedCatchpoints (store w))(round := None)"
    using u by (simp add: w' logf_def fin(4) s2)
  from a fin(2) b c d d' rc [unfolded fi] e f g show ?thesis
    by - (rule exI, rule exI, rule exI, (rule conjI, assumption)+, assumption)
qed

lemma fst_None_pair: "fst p = None \<Longrightarrow> p = (None, snd p)"
  by (cases p) simp

subsection \<open>Claims about createCatchpoint\<close>

text \<open>
  C4.  The label maker and the file version are a function of the two consensus
  flags: the current maker and V8 with the online accounts (and the state-proof
  contexts), the V7 maker and V7 with the state-proof contexts alone, the V6 maker and
  V6 with neither.  With the online accounts but without the state-proof contexts
  \<open>createCatchpoint\<close> returns the error and the world is as it was: no label and no
  file has been written.  When \<open>createCatchpoint\<close> returns nil, the label it has put
  in the tracker and in the store is the label of the selected maker; and when files
  are generated, the data file is found and every file is kept, the archive it leaves
  starts with the encoded header of the selected version.
\<close>

theorem createCatchpoint_version_selection:
  "(EnableCatchpointsWithOnlineAccounts params \<and> EnableCatchpointsWithSPContexts params \<longrightarrow>
      createCatchpoint_labelMaker params round dataInfo blockHash =
        Inr (CatchpointLabelMakerCurrent round blockHash (TrieBalancesHash dataInfo)
               (Totals dataInfo) (StateProofVerificationHash dataInfo)
               (OnlineAccountsHash dataInfo) (OnlineRoundParamsHash dataInfo),
             CatchpointFileVersionV8)) \<and>
   (\<not> EnableCatchpointsWithOnlineAccounts params \<and> EnableCatchpointsWithSPContexts params \<longrightarrow>
      createCatchpoint_labelMaker params round dataInfo blockHash =
        Inr (CatchpointLabelMakerV7 round blockHash (TrieBalancesHash dataInfo)
               (Totals dataInfo) (StateProofVerificationHash dataInfo),
             CatchpointFileVersionV7)) \<and>
   (\<not> EnableCatchpointsWithOnlineAccounts params \<and>
    \<not> EnableCatchpointsWithSPContexts params \<longrightarrow>
      createCatchpoint_labelMaker params round dataInfo blockHash =
        Inr (CatchpointLabelMakerV6 round blockHash (TrieBalancesHash dataInfo)
               (Totals dataInfo),
             CatchpointFileVersionV6)) \<and>
   (EnableCatchpointsWithOnlineAccounts (Consensus env blockProto) \<and>
    \<not> EnableCatchpointsWithSPContexts (Consensus env blockProto) \<longrightarrow>
      createCatchpoint env ctx accountsRound round dataInfo blockHash blockProto w =
        (Some (ErrorfMsg
           ''invalid params for catchpoint file version v8: SP contexts not enabled''), w)) \<and>
   (createCatchpoint env ctx accountsRound round dataInfo blockHash blockProto w = (None, w') \<longrightarrow>
      (\<exists>maker version.
         createCatchpoint_labelMaker (Consensus env blockProto) round dataInfo blockHash =
           Inr (maker, version) \<and>
         lastCatchpointLabel (tracker w') = MakeLabel env maker \<and>
         catchpointStateString (store w') CatchpointStateLastCatchpoint = MakeLabel env maker \<and>
         (enableGeneratingCatchpointFiles (tracker w) \<and>
          os_Stat env
            (filepath_Join (filepath_Join (tmpDir (tracker w)) CatchpointDirName)
               (makeCatchpointDataFilePath accountsRound)) w \<noteq> Inl ErrNotExist \<and>
          catchpointFileHistoryLength (tracker w) = - 1 \<longrightarrow>
            (\<exists>rest.
               files w'
                 (filepath_Join (dbDirectory (tracker w))
                    (filepath_Join CatchpointDirName (MakeCatchpointFilePath env round))) =
               Some \<lparr>fileCodec = Gzip,
                     fileEntries =
                       contentEntry env
                         \<lparr>Version = version, BalancesRound = accountsRound,
                          BlocksRound = round, HeaderTotals = Totals dataInfo,
                          HeaderTotalAccounts = TotalAccounts dataInfo,
                          HeaderTotalKVs = TotalKVs dataInfo,
                          HeaderTotalOnlineAccounts = TotalOnlineAccounts dataInfo,
                          HeaderTotalOnlineRoundParams = TotalOnlineRoundParams dataInfo,
                          HeaderTotalChunks = TotalChunks dataInfo,
                          Catchpoint = MakeLabel env maker,
                          BlockHeaderDigest = blockHash\<rparr> # rest,
                     fileDamage = None\<rparr>))))"
proof (intro conjI impI)
  assume "EnableCatchpointsWithOnlineAccounts params \<and> EnableCatchpointsWithSPContexts params"
  then show "createCatchpoint_labelMaker params round dataInfo blockHash =
        Inr (CatchpointLabelMakerCurrent round blockHash (TrieBalancesHash dataInfo)
               (Totals dataInfo) (StateProofVerificationHash dataInfo)
               (OnlineAccountsHash dataInfo) (OnlineRoundParamsHash dataInfo),
             CatchpointFileVersionV8)"
    by (simp add: createCatchpoint_labelMaker_def)
next
  assume "\<not> EnableCatchpointsWithOnlineAccounts params \<and> EnableCatchpointsWithSPContexts params"
  then show "createCatchpoint_labelMaker params round dataInfo blockHash =
        Inr (CatchpointLabelMakerV7 round blockHash (TrieBalancesHash dataInfo)
               (Totals dataInfo) (StateProofVerificationHash dataInfo),
             CatchpointFileVersionV7)"
    by (simp add: createCatchpoint_labelMaker_def)
next
  assume "\<not> EnableCatchpointsWithOnlineAccounts params \<and>
    \<not> EnableCatchpointsWithSPContexts params"
  then show "createCatchpoint_labelMaker params round dataInfo blockHash =
        Inr (CatchpointLabelMakerV6 round blockHash (TrieBalancesHash dataInfo)
               (Totals dataInfo),
             CatchpointFileVersionV6)"
    by (simp add: createCatchpoint_labelMaker_def)
next
  assume "EnableCatchpointsWithOnlineAccounts (Consensus env blockProto) \<and>
    \<not> EnableCatchpointsWithSPContexts (Consensus env blockProto)"
  then show "createCatchpoint env ctx accountsRound round dataInfo blockHash blockProto w =
        (Some (ErrorfMsg
           ''invalid params for catchpoint file version v8: SP contexts not enabled''), w)"
    using createCatchpoint_invalid by blast
next
  assume ok: "createCatchpoint env ctx accountsRound round dataInfo blockHash blockProto w =
    (None, w')"
  from createCatchpoint_success_label [OF ok] obtain maker version where
    lm: "createCatchpoint_labelMaker (Consensus env blockProto) round dataInfo blockHash =
           Inr (maker, version)" and
    l1: "lastCatchpointLabel (tracker w') = MakeLabel env maker" and
    l2: "catchpointStateString (store w') CatchpointStateLastCatchpoint = MakeLabel env maker"
    by blast
  have fl: "\<exists>rest.
               files w'
                 (filepath_Join (dbDirectory (tracker w))
                    (filepath_Join CatchpointDirName (MakeCatchpointFilePath env round))) =
               Some \<lparr>fileCodec = Gzip,
                     fileEntries =
                       contentEntry env
                         \<lparr>Version = version, BalancesRound = accountsRound,
                          BlocksRound = round, HeaderTotals = Totals dataInfo,
                          HeaderTotalAccounts = TotalAccounts dataInfo,
                          HeaderTotalKVs = TotalKVs dataInfo,
                          HeaderTotalOnlineAccounts = TotalOnlineAccounts dataInfo,
                          HeaderTotalOnlineRoundParams = TotalOnlineRoundParams dataInfo,
                          HeaderTotalChunks = TotalChunks dataInfo,
                          Catchpoint = MakeLabel env maker,
                          BlockHeaderDigest = blockHash\<rparr> # rest,
                     fileDamage = None\<rparr>"
    if h: "enableGeneratingCatchpointFiles (tracker w) \<and>
          os_Stat env
            (filepath_Join (filepath_Join (tmpDir (tracker w)) CatchpointDirName)
               (makeCatchpointDataFilePath accountsRound)) w \<noteq> Inl ErrNotExist \<and>
          catchpointFileHistoryLength (tracker w) = - 1"
  proof -
    from h have en: "enableGeneratingCatchpointFiles (tracker w)"
      and st: "os_Stat env
            (filepath_Join (filepath_Join (tmpDir (tracker w)) CatchpointDirName)
               (makeCatchpointDataFilePath accountsRound)) w \<noteq> Inl ErrNotExist"
      and keep: "catchpointFileHistoryLength (tracker w) = - 1"
      by simp_all
    from createCatchpoint_file_branch [OF ok lm en st refl refl refl refl]
    show ?thesis
    proof (elim exE conjE)
      fix fin w3 w5
      assume f3: "files w3 = (files w)
         (filepath_Join (dbDirectory (tracker w))
            (filepath_Join CatchpointDirName (MakeCatchpointFilePath env round)) \<mapsto>
          \<lparr>fileCodec = Gzip,
             fileEntries = contentEntry env
                         \<lparr>Version = version, BalancesRound = accountsRound,
                          BlocksRound = round, HeaderTotals = Totals dataInfo,
                          HeaderTotalAccounts = TotalAccounts dataInfo,
                          HeaderTotalKVs = TotalKVs dataInfo,
                          HeaderTotalOnlineAccounts = TotalOnlineAccounts dataInfo,
                          HeaderTotalOnlineRoundParams = TotalOnlineRoundParams dataInfo,
                          HeaderTotalChunks = TotalChunks dataInfo,
                          Catchpoint = MakeLabel env maker,
                          BlockHeaderDigest = blockHash\<rparr> #
               map (\<lambda>e. \<lparr>hdr = hdr e, content = entryData e\<rparr>) (fileEntries fin),
             fileDamage = None\<rparr>)" and
        h3: "catchpointFileHistoryLength (tracker w3) = catchpointFileHistoryLength (tracker w)" and
      rc: "recordCatchpointFile env round
             (filepath_Join CatchpointDirName (MakeCatchpointFilePath env round))
             (fileSizeOf env \<lparr>fileCodec = Gzip,
             fileEntries = contentEntry env
                         \<lparr>Version = version, BalancesRound = accountsRound,
                          BlocksRound = round, HeaderTotals = Totals dataInfo,
                          HeaderTotalAccounts = TotalAccounts dataInfo,
                          HeaderTotalKVs = TotalKVs dataInfo,
                          HeaderTotalOnlineAccounts = TotalOnlineAccounts dataInfo,
                          HeaderTotalOnlineRoundParams = TotalOnlineRoundParams dataInfo,
                          HeaderTotalChunks = TotalChunks dataInfo,
                          Catchpoint = MakeLabel env maker,
                          BlockHeaderDigest = blockHash\<rparr> #
               map (\<lambda>e. \<lparr>hdr = hdr e, content = entryData e\<rparr>) (fileEntries fin),
             fileDamage = None\<rparr>) w3 = (None, w5)" and
      f': "files w' = files w5"
      from recordCatchpointFile_keep_all [OF rc _ relCatchpointFilePath_not_empty] h3 keep
      have "files w5 = files w3" by simp
      with f' f3 show ?thesis by simp
    qed
  qed
  from lm l1 l2 fl show "\<exists>maker version.
         createCatchpoint_labelMaker (Consensus env blockProto) round dataInfo blockHash =
           Inr (maker, version) \<and>
         lastCatchpointLabel (tracker w') = MakeLabel env maker \<and>
         catchpointStateString (store w') CatchpointStateLastCatchpoint = MakeLabel env maker \<and>
         (enableGeneratingCatchpointFiles (tracker w) \<and>
          os_Stat env
            (filepath_Join (filepath_Join (tmpDir (tracker w)) CatchpointDirName)
               (makeCatchpointDataFilePath accountsRound)) w \<noteq> Inl ErrNotExist \<and>
          catchpointFileHistoryLength (tracker w) = - 1 \<longrightarrow>
            (\<exists>rest.
               files w'
                 (filepath_Join (dbDirectory (tracker w))
                    (filepath_Join CatchpointDirName (MakeCatchpointFilePath env round))) =
               Some \<lparr>fileCodec = Gzip,
                     fileEntries =
                       contentEntry env
                         \<lparr>Version = version, BalancesRound = accountsRound,
                          BlocksRound = round, HeaderTotals = Totals dataInfo,
                          HeaderTotalAccounts = TotalAccounts dataInfo,
                          HeaderTotalKVs = TotalKVs dataInfo,
                          HeaderTotalOnlineAccounts = TotalOnlineAccounts dataInfo,
                          HeaderTotalOnlineRoundParams = TotalOnlineRoundParams dataInfo,
                          HeaderTotalChunks = TotalChunks dataInfo,
                          Catchpoint = MakeLabel env maker,
                          BlockHeaderDigest = blockHash\<rparr> # rest,
                     fileDamage = None\<rparr>))"
    by blast
qed

text \<open>
  An instance: the three versions, the refused combination on the example world, and
  a run under \<open>v7\<close> that writes the label and an archive whose header encodes 130.
\<close>

theorem createCatchpoint_version_selection_witness:
  "createCatchpoint_labelMaker (exampleParams ''v8'') 400 exampleInfo [9] =
     Inr (CatchpointLabelMakerCurrent 400 [9] [3] 5 [4] [1] [2], 131) \<and>
   createCatchpoint_labelMaker (exampleParams ''v7'') 400 exampleInfo [9] =
     Inr (CatchpointLabelMakerV7 400 [9] [3] 5 [4], 130) \<and>
   createCatchpoint_labelMaker (exampleParams ''v6'') 400 exampleInfo [9] =
     Inr (CatchpointLabelMakerV6 400 [9] [3] 5, 129) \<and>
   createCatchpoint exampleEnv Background 80 400 exampleInfo [9] ''v8-without-v7'' exampleWorld =
     (Some (ErrorfMsg ''invalid params for catchpoint file version v8: SP contexts not enabled''),
      exampleWorld) \<and>
   fst (createCatchpoint exampleEnv Background 80 400 exampleInfo [9] ''v7''
          (exampleWorld\<lparr>tracker := exampleTracker\<lparr>catchpointFileHistoryLength := - 1\<rparr>\<rparr>)) = None \<and>
   lastCatchpointLabel (tracker (snd
     (createCatchpoint exampleEnv Background 80 400 exampleInfo [9] ''v7''
        (exampleWorld\<lparr>tracker := exampleTracker\<lparr>catchpointFileHistoryLength := - 1\<rparr>\<rparr>)))) =
     ''label-v7'' \<and>
   map content (take 1 (fileEntries (the (files (snd
     (createCatchpoint exampleEnv Background 80 400 exampleInfo [9] ''v7''
        (exampleWorld\<lparr>tracker := exampleTracker\<lparr>catchpointFileHistoryLength := - 1\<rparr>\<rparr>)))
     ''cold/catchpoints/400.catchpoint'')))) = [[130]]"
proof -
  define W where "W = exampleWorld\<lparr>tracker := exampleTracker\<lparr>catchpointFileHistoryLength := - 1\<rparr>\<rparr>"
  define X where "X = createCatchpoint exampleEnv Background 80 400 exampleInfo [9] ''v7'' W"
  note t8 = createCatchpoint_version_selection
    [where params = "exampleParams ''v8''" and round = 400 and dataInfo = exampleInfo
       and blockHash = "[9]" and env = exampleEnv and blockProto = "''v8-without-v7''"
       and ctx = Background and accountsRound = 80 and w = exampleWorld]
  note t7 = createCatchpoint_version_selection
    [where params = "exampleParams ''v7''" and round = 400 and dataInfo = exampleInfo
       and blockHash = "[9]" and env = exampleEnv and blockProto = "''v7''"
       and ctx = Background and accountsRound = 80 and w = W and w' = "snd X"]
  note t6 = createCatchpoint_version_selection
    [where params = "exampleParams ''v6''" and round = 400 and dataInfo = exampleInfo
       and blockHash = "[9]"]
  have a8: "createCatchpoint_labelMaker (exampleParams ''v8'') 400 exampleInfo [9] =
     Inr (CatchpointLabelMakerCurrent 400 [9] [3] 5 [4] [1] [2], 131)"
    using t8 [THEN conjunct1]
    by (simp add: exampleParams_def exampleInfo_def CatchpointFileVersionV8_def)
  have a7: "createCatchpoint_labelMaker (exampleParams ''v7'') 400 exampleInfo [9] =
     Inr (CatchpointLabelMakerV7 400 [9] [3] 5 [4], 130)"
    using t7 [THEN conjunct2, THEN conjunct1]
    by (simp add: exampleParams_def exampleInfo_def CatchpointFileVersionV7_def)
  have a6: "createCatchpoint_labelMaker (exampleParams ''v6'') 400 exampleInfo [9] =
     Inr (CatchpointLabelMakerV6 400 [9] [3] 5, 129)"
    using t6 [THEN conjunct2, THEN conjunct2, THEN conjunct1]
    by (simp add: exampleParams_def exampleInfo_def CatchpointFileVersionV6_def)
  have e: "createCatchpoint exampleEnv Background 80 400 exampleInfo [9] ''v8-without-v7''
      exampleWorld =
     (Some (ErrorfMsg ''invalid params for catchpoint file version v8: SP contexts not enabled''),
      exampleWorld)"
    by (rule t8 [THEN conjunct2, THEN conjunct2, THEN conjunct2, THEN conjunct1, THEN mp])
      (simp add: exampleEnv_def exampleParams_def)
  have ok: "fst X = None"
    unfolding X_def W_def by code_simp
  have hyp: "enableGeneratingCatchpointFiles (tracker W) \<and>
          os_Stat exampleEnv
            (filepath_Join (filepath_Join (tmpDir (tracker W)) CatchpointDirName)
               (makeCatchpointDataFilePath 80)) W \<noteq> Inl ErrNotExist \<and>
          catchpointFileHistoryLength (tracker W) = - 1"
    unfolding W_def by code_simp
  have path: "filepath_Join (dbDirectory (tracker W))
                (filepath_Join CatchpointDirName (MakeCatchpointFilePath exampleEnv 400)) =
              ''cold/catchpoints/400.catchpoint''"
    unfolding W_def by code_simp
  have c7: "Consensus exampleEnv ''v7'' = exampleParams ''v7''"
    by (simp add: exampleEnv_def)
  have okp: "createCatchpoint exampleEnv Background 80 400 exampleInfo [9] ''v7'' W =
      (None, snd X)"
    using fst_None_pair [OF ok] unfolding X_def .
  from t7 [THEN conjunct2, THEN conjunct2, THEN conjunct2, THEN conjunct2, THEN mp, OF okp]
  obtain maker version rest where
    lm: "createCatchpoint_labelMaker (Consensus exampleEnv ''v7'') 400 exampleInfo [9] =
           Inr (maker, version)" and
    l1: "lastCatchpointLabel (tracker (snd X)) = MakeLabel exampleEnv maker" and
    fl: "files (snd X)
           (filepath_Join (dbDirectory (tracker W))
              (filepath_Join CatchpointDirName (MakeCatchpointFilePath exampleEnv 400))) =
         Some \<lparr>fileCodec = Gzip,
               fileEntries =
                 contentEntry exampleEnv
                   \<lparr>Version = version, BalancesRound = 80,
                    BlocksRound = 400, HeaderTotals = Totals exampleInfo,
                    HeaderTotalAccounts = TotalAccounts exampleInfo,
                    HeaderTotalKVs = TotalKVs exampleInfo,
                    HeaderTotalOnlineAccounts = TotalOnlineAccounts exampleInfo,
                    HeaderTotalOnlineRoundParams = TotalOnlineRoundParams exampleInfo,
                    HeaderTotalChunks = TotalChunks exampleInfo,
                    Catchpoint = MakeLabel exampleEnv maker,
                    BlockHeaderDigest = [9]\<rparr> # rest,
               fileDamage = None\<rparr>"
    using hyp by blast
  from lm a7 have mv: "maker = CatchpointLabelMakerV7 400 [9] [3] 5 [4]" "version = 130"
    by (simp_all add: c7)
  have b: "lastCatchpointLabel (tracker (snd X)) = ''label-v7''"
    using l1 by (simp add: mv exampleEnv_def)
  have c: "map content (take 1 (fileEntries (the (files (snd X)
     ''cold/catchpoints/400.catchpoint'')))) = [[130]]"
    using fl unfolding path by (simp add: mv contentEntry_def exampleEnv_def)
  from a8 a7 a6 e ok b c show ?thesis
    unfolding X_def W_def by (intro conjI)
qed

subsection \<open>finishCatchpoint\<close>

lemma recordCatchpointFile_no_prune:
  assumes rc: "recordCatchpointFile env round p s w = (None, w')"
    and keep: "catchpointFileHistoryLength (tracker w) = - 1 \<or>
               int (length (storedCatchpoints (store w))) < catchpointFileHistoryLength (tracker w)"
    and p: "p \<noteq> []"
  shows "files w' = files w \<and>
         storedCatchpoints (store w') =
           (round, p, s) # filter (\<lambda>row. fst row \<noteq> round) (storedCatchpoints (store w))"
proof (cases "catchpointFileHistoryLength (tracker w) = - 1")
  case True
  from recordCatchpointFile_keep_all [OF rc True p] show ?thesis .
next
  case False
  with keep have lt:
    "int (length (storedCatchpoints (store w))) < catchpointFileHistoryLength (tracker w)"
    by simp
  then have nz: "catchpointFileHistoryLength (tracker w) \<noteq> 0" by auto
  obtain r0 w0 where st: "StoreCatchpoint env round p s w = (r0, w0)"
    by (cases "StoreCatchpoint env round p s w")
  note f = StoreCatchpoint_frame [OF st]
  have r0: "r0 = None"
    using rc nz st by (cases r0) (simp_all add: recordCatchpointFile_def)
  have rows: "storedCatchpoints (store w0) =
           (round, p, s) # filter (\<lambda>row. fst row \<noteq> round) (storedCatchpoints (store w))"
    using st r0 p by (auto simp: StoreCatchpoint_def Let_def split: option.splits)
  have "length (storedCatchpoints (store w0)) \<le> Suc (length (storedCatchpoints (store w)))"
    unfolding rows by simp
  with lt have le: "length (storedCatchpoints (store w0)) \<le>
      nat (catchpointFileHistoryLength (tracker w))"
    by linarith
  have h0: "catchpointFileHistoryLength (tracker w0) = catchpointFileHistoryLength (tracker w)"
    using f by simp
  have go: "GetOldestCatchpointFiles env 2 (nat (catchpointFileHistoryLength (tracker w))) w0 =
      Inr [] \<or>
     (\<exists>e. GetOldestCatchpointFiles env 2 (nat (catchpointFileHistoryLength (tracker w))) w0 =
      Inl e)"
    using le by (auto simp: GetOldestCatchpointFiles_def Let_def split: option.splits)
  have "w' = w0"
    using rc nz st r0 False h0 go
    by (auto simp: recordCatchpointFile_def)
  with rows f show ?thesis by simp
qed

lemma finishCatchpoint_missing:
  assumes "SelectCatchpointFirstStageInfo env (round - lb)
             (logf (Infof ''finishing catchpoint round'') w) = Inr None"
  shows "finishCatchpoint env ctx round blockHash blockProto lb w =
           DeleteUnfinishedCatchpoint env round (logf (Infof ''finishing catchpoint round'') w)"
  using assms by (simp add: finishCatchpoint_def Let_def)

lemma finishCatchpoint_exists:
  assumes "SelectCatchpointFirstStageInfo env (round - lb)
             (logf (Infof ''finishing catchpoint round'') w) = Inr (Some dataInfo)"
  shows "finishCatchpoint env ctx round blockHash blockProto lb w =
           createCatchpoint env ctx (round - lb) round dataInfo blockHash blockProto
             (logf (Infof ''finishing catchpoint round'') w)"
  using assms by (simp add: finishCatchpoint_def Let_def)

lemma DeleteUnfinishedCatchpoint_effect:
  assumes "DeleteUnfinishedCatchpoint env round w = (res, w')"
  shows "tracker w' = tracker w \<and> files w' = files w \<and>
         storedCatchpoints (store w') = storedCatchpoints (store w) \<and>
         catchpointStateString (store w') = catchpointStateString (store w) \<and>
         (res = None \<longrightarrow> unfinishedCatchpoints (store w') =
            (unfinishedCatchpoints (store w))(round := None)) \<and>
         (res \<noteq> None \<longrightarrow> w' = w)"
  using assms by (auto simp: DeleteUnfinishedCatchpoint_def split: option.splits)

lemma deleteOldCatchpointFiles_effect:
  "deleteOldCatchpointFiles env xs w = (None, w') \<Longrightarrow>
     storedCatchpoints (store w') =
       filter (\<lambda>row. fst row \<notin> fst ` set xs) (storedCatchpoints (store w)) \<and>
     files w' =
       (\<lambda>q. if q \<in> (\<lambda>x. filepath_Join (dbDirectory (tracker w)) (snd x)) ` set xs then None
            else files w q)"
proof (induction xs arbitrary: w)
  case Nil
  then show ?case by simp
next
  case (Cons x xs)
  obtain round fileToDelete where x: "x = (round, fileToDelete)" by (cases x)
  obtain r1 w1 where rm:
    "RemoveSingleCatchpointFileFromDisk env (dbDirectory (tracker w)) fileToDelete w = (r1, w1)"
    by (cases "RemoveSingleCatchpointFileFromDisk env (dbDirectory (tracker w)) fileToDelete w")
  obtain r2 w2 where st: "StoreCatchpoint env round [] 0 w1 = (r2, w2)"
    by (cases "StoreCatchpoint env round [] 0 w1")
  from Cons.prems x rm st have r1: "r1 = None" and r2: "r2 = None"
    and rec: "deleteOldCatchpointFiles env xs w2 = (None, w')"
    by (auto split: option.splits)
  have w1: "tracker w1 = tracker w" "store w1 = store w"
    "files w1 = (files w)(filepath_Join (dbDirectory (tracker w)) fileToDelete := None)"
    using rm r1
    by (auto simp: RemoveSingleCatchpointFileFromDisk_def Let_def split: option.splits)
  have w2: "tracker w2 = tracker w1" "files w2 = files w1"
    "storedCatchpoints (store w2) =
       filter (\<lambda>row. fst row \<noteq> round) (storedCatchpoints (store w1))"
    using st r2 by (auto simp: StoreCatchpoint_def Let_def split: option.splits)
  from Cons.IH [OF rec] have
    s': "storedCatchpoints (store w') =
       filter (\<lambda>row. fst row \<notin> fst ` set xs) (storedCatchpoints (store w2))" and
    f': "files w' =
       (\<lambda>q. if q \<in> (\<lambda>x. filepath_Join (dbDirectory (tracker w2)) (snd x)) ` set xs then None
            else files w2 q)"
    by simp_all
  have "storedCatchpoints (store w') =
       filter (\<lambda>row. fst row \<notin> fst ` set (x # xs)) (storedCatchpoints (store w))"
    unfolding s' w2 w1 x by (auto intro: filter_cong)
  moreover have "files w' =
       (\<lambda>q. if q \<in> (\<lambda>x. filepath_Join (dbDirectory (tracker w)) (snd x)) ` set (x # xs)
            then None else files w q)"
    unfolding f' w2 w1 x by (rule ext) simp
  ultimately show ?case by simp
qed

lemma recordCatchpointFile_effect:
  assumes rc: "recordCatchpointFile env round p s w = (None, w')"
    and p: "p \<noteq> []"
    and rows1: "rows1 =
      (if catchpointFileHistoryLength (tracker w) \<noteq> 0
       then (round, p, s) # filter (\<lambda>row. fst row \<noteq> round) (storedCatchpoints (store w))
       else storedCatchpoints (store w))"
    and files1: "files1 =
      (if catchpointFileHistoryLength (tracker w) \<noteq> 0 then files w
       else (files w)(filepath_Join (dbDirectory (tracker w)) p := None))"
  shows "storedCatchpoints (store w') =
           filter (\<lambda>row. fst row \<notin>
                     fst ` set (prunedCatchpoints (catchpointFileHistoryLength (tracker w)) rows1))
             rows1 \<and>
         files w' =
           (\<lambda>q. if q \<in> (\<lambda>x. filepath_Join (dbDirectory (tracker w)) (snd x)) `
                         set (prunedCatchpoints (catchpointFileHistoryLength (tracker w)) rows1)
                then None else files1 q)"
proof -
  define first where "first =
    (if catchpointFileHistoryLength (tracker w) \<noteq> 0
     then (case StoreCatchpoint env round p s w of
             (Some err, w1) \<Rightarrow>
               (Some err,
                logf (Warnf ''catchpointTracker.recordCatchpointFile() unable to save catchpoint'') w1)
           | (None, w1) \<Rightarrow> (None, w1))
     else (case RemoveSingleCatchpointFileFromDisk env (dbDirectory (tracker w)) p w of
             (Some err, w1) \<Rightarrow>
               (Some err,
                logf (Warnf ''catchpointTracker.recordCatchpointFile() unable to remove file'') w1)
           | (None, w1) \<Rightarrow> (None, w1)))"
  have rcd: "recordCatchpointFile env round p s w =
     (case first of
        (Some err, w1) \<Rightarrow> (Some err, w1)
      | (None, w1) \<Rightarrow>
          if catchpointFileHistoryLength (tracker w1) = - 1 then (None, w1)
          else
            (case GetOldestCatchpointFiles env 2 (nat (catchpointFileHistoryLength (tracker w1))) w1 of
               Inl err \<Rightarrow>
                 (Some (ErrorfWrap
                    ''unable to delete catchpoint file, getOldestCatchpointFiles failed'' err), w1)
             | Inr filesToDelete \<Rightarrow> deleteOldCatchpointFiles env filesToDelete w1))"
    unfolding recordCatchpointFile_def first_def ..
  obtain r1 w1 where f: "first = (r1, w1)" by (cases first)
  have r1: "r1 = None" using rc rcd f by (cases r1) simp_all
  have w1: "tracker w1 = tracker w \<and> storedCatchpoints (store w1) = rows1 \<and> files w1 = files1"
  proof (cases "catchpointFileHistoryLength (tracker w) \<noteq> 0")
    case True
    obtain r0 w0 where st: "StoreCatchpoint env round p s w = (r0, w0)"
      by (cases "StoreCatchpoint env round p s w")
    from f r1 True st have "r0 = None" "w0 = w1"
      by (cases r0; simp add: first_def)+
    with st True p show ?thesis
      by (auto simp: StoreCatchpoint_def Let_def rows1 files1 split: option.splits)
  next
    case False
    obtain r0 w0 where rm:
      "RemoveSingleCatchpointFileFromDisk env (dbDirectory (tracker w)) p w = (r0, w0)"
      by (cases "RemoveSingleCatchpointFileFromDisk env (dbDirectory (tracker w)) p w")
    from f r1 False rm have "r0 = None" "w0 = w1"
      by (cases r0; simp add: first_def)+
    with rm False show ?thesis
      by (auto simp: RemoveSingleCatchpointFileFromDisk_def Let_def rows1 files1
          split: option.splits)
  qed
  show ?thesis
  proof (cases "catchpointFileHistoryLength (tracker w) = - 1")
    case True
    with rc rcd f r1 w1 have "w' = w1" by simp
    with w1 True show ?thesis by (simp add: prunedCatchpoints_def)
  next
    case False
    then have nm: "catchpointFileHistoryLength (tracker w1) \<noteq> - 1" using w1 by simp
    from rc rcd f r1 nm obtain old where
      go: "GetOldestCatchpointFiles env 2 (nat (catchpointFileHistoryLength (tracker w1))) w1 =
             Inr old" and
      d: "deleteOldCatchpointFiles env old w1 = (None, w')"
      by (auto split: sum.splits)
    have old: "old = prunedCatchpoints (catchpointFileHistoryLength (tracker w)) rows1"
      using go False w1
      by (auto simp: GetOldestCatchpointFiles_def Let_def prunedCatchpoints_def
          split: option.splits)
    from deleteOldCatchpointFiles_effect [OF d] show ?thesis
      by (simp add: old w1 cong: if_cong)
  qed
qed

lemma insort_key_last:
  "\<forall>y \<in> set ys. f y < f x \<Longrightarrow> insort_key f x ys = ys @ [x]"
  by (induction ys) auto

lemma newest_not_pruned:
  fixes round :: Round
  assumes h: "0 < history"
    and le: "\<forall>row \<in> set rows. fst row \<le> round"
  shows "round \<notin> fst ` set (prunedCatchpoints history
           ((round, p, s) # filter (\<lambda>row. fst row \<noteq> round) rows))"
proof -
  define rest where "rest = filter (\<lambda>row. fst row \<noteq> round) rows"
  define T where "T = take 2 (take (length ((round, p, s) # rest) - nat history)
              (sort_key fst ((round, p, s) # rest)))"
  have lt: "\<forall>y \<in> set (sort_key fst rest). fst y < fst (round, p, s)"
    using le by (auto simp: rest_def)
  have srt: "sort_key fst ((round, p, s) # rest) = sort_key fst rest @ [(round, p, s)]"
    using insort_key_last [OF lt] by simp
  have k: "length ((round, p, s) # rest) - nat history \<le> length (sort_key fst rest)"
    using h by simp
  have "set (take (length ((round, p, s) # rest) - nat history)
              (sort_key fst ((round, p, s) # rest))) \<subseteq> set rest"
    unfolding srt using k by (auto dest: in_set_takeD)
  then have sub: "set T \<subseteq> set rest"
    unfolding T_def by (blast dest: in_set_takeD)
  have pr: "prunedCatchpoints history ((round, p, s) # rest) =
      map (\<lambda>row. (fst row, fst (snd row))) T"
    using h by (simp add: prunedCatchpoints_def T_def)
  have "round \<notin> fst ` set rest" by (auto simp: rest_def)
  with sub have "round \<notin> fst ` set (map (\<lambda>row. (fst row, fst (snd row))) T)"
    by force
  then show ?thesis
    unfolding rest_def [symmetric] pr .
qed

lemma nothing_pruned:
  "history = - 1 \<or> int (length rows) \<le> history \<Longrightarrow> prunedCatchpoints history rows = []"
  by (auto simp: prunedCatchpoints_def)

subsection \<open>Claims about finishCatchpoint\<close>

text \<open>
  C7, as stated, on the example world, where the first-stage record of round 80
  exists.  With \<open>catchpointFileHistoryLength = 0\<close> \<open>finishCatchpoint\<close> returns nil, but
  \<open>recordCatchpointFile\<close> has stored no row for round 400 and has removed the archive
  it was given (\<open>if ct.catchpointFileHistoryLength != 0 ... else\<close>).  With
  \<open>enableGeneratingCatchpointFiles\<close> off it returns nil after the label, and there is
  neither a row nor an archive for round 400.
\<close>

theorem finishCatchpoint_not_recorded_counterexample:
  "SelectCatchpointFirstStageInfo exampleEnv (400 - 320)
     (logf (Infof ''finishing catchpoint round'')
        (exampleWorld\<lparr>tracker := exampleTracker\<lparr>catchpointFileHistoryLength := 0\<rparr>\<rparr>)) =
     Inr (Some exampleInfo) \<and>
   fst (finishCatchpoint exampleEnv Background 400 [9] ''v8'' 320
          (exampleWorld\<lparr>tracker := exampleTracker\<lparr>catchpointFileHistoryLength := 0\<rparr>\<rparr>)) = None \<and>
   map fst (storedCatchpoints (store (snd
     (finishCatchpoint exampleEnv Background 400 [9] ''v8'' 320
        (exampleWorld\<lparr>tracker := exampleTracker\<lparr>catchpointFileHistoryLength := 0\<rparr>\<rparr>))))) =
     [300] \<and>
   files (snd
     (finishCatchpoint exampleEnv Background 400 [9] ''v8'' 320
        (exampleWorld\<lparr>tracker := exampleTracker\<lparr>catchpointFileHistoryLength := 0\<rparr>\<rparr>)))
     ''cold/catchpoints/400.catchpoint'' = None \<and>
   fst (finishCatchpoint exampleEnv Background 400 [9] ''v8'' 320
          (exampleWorld\<lparr>tracker := exampleTracker\<lparr>enableGeneratingCatchpointFiles := False\<rparr>\<rparr>)) =
     None \<and>
   map fst (storedCatchpoints (store (snd
     (finishCatchpoint exampleEnv Background 400 [9] ''v8'' 320
        (exampleWorld\<lparr>tracker := exampleTracker\<lparr>enableGeneratingCatchpointFiles := False\<rparr>\<rparr>))))) =
     [100, 200, 300] \<and>
   files (snd
     (finishCatchpoint exampleEnv Background 400 [9] ''v8'' 320
        (exampleWorld\<lparr>tracker := exampleTracker\<lparr>enableGeneratingCatchpointFiles := False\<rparr>\<rparr>)))
     ''cold/catchpoints/400.catchpoint'' = None"
  by code_simp

text \<open>
  C7, amended.  When there is no first-stage record for \<open>round - catchpointLookback\<close>,
  \<open>finishCatchpoint\<close> is the deletion of the unfinished marker of the round: the label,
  the registry and the files stay as they are, and the marker is gone when it returns
  nil.  When the record exists, \<open>finishCatchpoint\<close> is \<open>createCatchpoint\<close> on that
  record.  When files are generated and the data file is found, a \<open>createCatchpoint\<close>
  that returns nil has deleted the marker of the round and has run
  \<open>recordCatchpointFile\<close> on the new archive \<open>f\<close>: with a history length other than 0
  the row of the archive is put in front of the rows of the other rounds, with a
  history length of 0 no row is stored and the archive is removed; then the pruned
  rows leave the registry and their files the disk.  So the archive is on disk and
  its row is the first of the registry when nothing is pruned (the history length is
  -1 or larger than the number of rows), and its row is in the registry whenever the
  history length is positive and no registered round is later than the round.  When
  \<open>createCatchpoint\<close> returns an error, the registry and the markers are as before:
  the row is stored and the marker deleted together or not at all.
\<close>

theorem finishCatchpoint_amended:
  "(SelectCatchpointFirstStageInfo env (round - lb)
      (logf (Infof ''finishing catchpoint round'') w) = Inr None \<longrightarrow>
      finishCatchpoint env ctx round blockHash blockProto lb w =
        DeleteUnfinishedCatchpoint env round (logf (Infof ''finishing catchpoint round'') w) \<and>
      (finishCatchpoint env ctx round blockHash blockProto lb w = (res, w') \<longrightarrow>
         lastCatchpointLabel (tracker w') = lastCatchpointLabel (tracker w) \<and>
         catchpointStateString (store w') = catchpointStateString (store w) \<and>
         storedCatchpoints (store w') = storedCatchpoints (store w) \<and>
         files w' = files w \<and>
         (res = None \<longrightarrow>
            unfinishedCatchpoints (store w') = (unfinishedCatchpoints (store w))(round := None)))) \<and>
   (SelectCatchpointFirstStageInfo env (round - lb)
      (logf (Infof ''finishing catchpoint round'') w) = Inr (Some dataInfo) \<longrightarrow>
      finishCatchpoint env ctx round blockHash blockProto lb w =
        createCatchpoint env ctx (round - lb) round dataInfo blockHash blockProto
          (logf (Infof ''finishing catchpoint round'') w)) \<and>
   (createCatchpoint env ctx accountsRound round dataInfo blockHash blockProto v = (None, v') \<and>
    enableGeneratingCatchpointFiles (tracker v) \<and>
    os_Stat env
      (filepath_Join (filepath_Join (tmpDir (tracker v)) CatchpointDirName)
         (makeCatchpointDataFilePath accountsRound)) v \<noteq> Inl ErrNotExist \<longrightarrow>
      unfinishedCatchpoints (store v') = (unfinishedCatchpoints (store v))(round := None) \<and>
      (\<exists>f rows1 files1.
         fileCodec f = Gzip \<and>
         rows1 =
           (if catchpointFileHistoryLength (tracker v) \<noteq> 0
            then (round, filepath_Join CatchpointDirName (MakeCatchpointFilePath env round),
                  fileSizeOf env f) #
                 filter (\<lambda>row. fst row \<noteq> round) (storedCatchpoints (store v))
            else storedCatchpoints (store v)) \<and>
         files1 =
           (if catchpointFileHistoryLength (tracker v) \<noteq> 0
            then (files v)
                   (filepath_Join (dbDirectory (tracker v))
                      (filepath_Join CatchpointDirName (MakeCatchpointFilePath env round)) \<mapsto> f)
            else (files v)
                   (filepath_Join (dbDirectory (tracker v))
                      (filepath_Join CatchpointDirName (MakeCatchpointFilePath env round)) := None)) \<and>
         storedCatchpoints (store v') =
           filter (\<lambda>row. fst row \<notin>
                     fst ` set (prunedCatchpoints (catchpointFileHistoryLength (tracker v)) rows1))
             rows1 \<and>
         files v' =
           (\<lambda>q. if q \<in> (\<lambda>x. filepath_Join (dbDirectory (tracker v)) (snd x)) `
                         set (prunedCatchpoints (catchpointFileHistoryLength (tracker v)) rows1)
                then None else files1 q) \<and>
         (catchpointFileHistoryLength (tracker v) = - 1 \<or>
          int (length (storedCatchpoints (store v))) < catchpointFileHistoryLength (tracker v) \<longrightarrow>
            files v' =
              (files v)
                (filepath_Join (dbDirectory (tracker v))
                   (filepath_Join CatchpointDirName (MakeCatchpointFilePath env round)) \<mapsto> f) \<and>
            storedCatchpoints (store v') =
              (round, filepath_Join CatchpointDirName (MakeCatchpointFilePath env round),
               fileSizeOf env f) #
              filter (\<lambda>row. fst row \<noteq> round) (storedCatchpoints (store v))) \<and>
         (0 < catchpointFileHistoryLength (tracker v) \<and>
          (\<forall>row \<in> set (storedCatchpoints (store v)). fst row \<le> round) \<longrightarrow>
            (round, filepath_Join CatchpointDirName (MakeCatchpointFilePath env round),
             fileSizeOf env f) \<in> set (storedCatchpoints (store v'))))) \<and>
   (createCatchpoint env ctx accountsRound round dataInfo blockHash blockProto v = (Some e, v') \<longrightarrow>
      storedCatchpoints (store v') = storedCatchpoints (store v) \<and>
      unfinishedCatchpoints (store v') = unfinishedCatchpoints (store v))"
proof (intro conjI impI)
  assume m: "SelectCatchpointFirstStageInfo env (round - lb)
      (logf (Infof ''finishing catchpoint round'') w) = Inr None"
  from finishCatchpoint_missing [OF m]
  show eq: "finishCatchpoint env ctx round blockHash blockProto lb w =
        DeleteUnfinishedCatchpoint env round (logf (Infof ''finishing catchpoint round'') w)" .
  assume r: "finishCatchpoint env ctx round blockHash blockProto lb w = (res, w')"
  note d = DeleteUnfinishedCatchpoint_effect [OF r [unfolded eq]]
  from d show "lastCatchpointLabel (tracker w') = lastCatchpointLabel (tracker w)"
    by (simp add: logf_def)
  from d show "catchpointStateString (store w') = catchpointStateString (store w)"
    by (simp add: logf_def)
  from d show "storedCatchpoints (store w') = storedCatchpoints (store w)"
    by (simp add: logf_def)
  from d show "files w' = files w"
    by (simp add: logf_def)
  assume "res = None"
  with d show "unfinishedCatchpoints (store w') = (unfinishedCatchpoints (store w))(round := None)"
    by (simp add: logf_def)
next
  assume "SelectCatchpointFirstStageInfo env (round - lb)
      (logf (Infof ''finishing catchpoint round'') w) = Inr (Some dataInfo)"
  from finishCatchpoint_exists [OF this]
  show "finishCatchpoint env ctx round blockHash blockProto lb w =
        createCatchpoint env ctx (round - lb) round dataInfo blockHash blockProto
          (logf (Infof ''finishing catchpoint round'') w)" .
next
  assume h: "createCatchpoint env ctx accountsRound round dataInfo blockHash blockProto v =
      (None, v') \<and>
    enableGeneratingCatchpointFiles (tracker v) \<and>
    os_Stat env
      (filepath_Join (filepath_Join (tmpDir (tracker v)) CatchpointDirName)
         (makeCatchpointDataFilePath accountsRound)) v \<noteq> Inl ErrNotExist"
  then have ok: "createCatchpoint env ctx accountsRound round dataInfo blockHash blockProto v =
      (None, v')"
    and en: "enableGeneratingCatchpointFiles (tracker v)"
    and st: "os_Stat env
      (filepath_Join (filepath_Join (tmpDir (tracker v)) CatchpointDirName)
         (makeCatchpointDataFilePath accountsRound)) v \<noteq> Inl ErrNotExist"
    by simp_all
  from createCatchpoint_success_start [OF ok] obtain maker version where
    lm: "createCatchpoint_labelMaker (Consensus env blockProto) round dataInfo blockHash =
       Inr (maker, version)"
    by blast
  define rel where "rel = filepath_Join CatchpointDirName (MakeCatchpointFilePath env round)"
  define abs where "abs = filepath_Join (dbDirectory (tracker v)) rel"
  define hl where "hl = catchpointFileHistoryLength (tracker v)"
  define header where "header =
    \<lparr>Version = version, BalancesRound = accountsRound, BlocksRound = round,
       HeaderTotals = Totals dataInfo, HeaderTotalAccounts = TotalAccounts dataInfo,
       HeaderTotalKVs = TotalKVs dataInfo,
       HeaderTotalOnlineAccounts = TotalOnlineAccounts dataInfo,
       HeaderTotalOnlineRoundParams = TotalOnlineRoundParams dataInfo,
       HeaderTotalChunks = TotalChunks dataInfo,
       Catchpoint = MakeLabel env maker, BlockHeaderDigest = blockHash\<rparr>"
  note br = createCatchpoint_file_branch [OF ok lm en st refl rel_def abs_def header_def]
  from br show "unfinishedCatchpoints (store v') = (unfinishedCatchpoints (store v))(round := None)"
    by (elim exE conjE)
  from br show "\<exists>f rows1 files1.
         fileCodec f = Gzip \<and>
         rows1 =
           (if catchpointFileHistoryLength (tracker v) \<noteq> 0
            then (round, filepath_Join CatchpointDirName (MakeCatchpointFilePath env round),
                  fileSizeOf env f) #
                 filter (\<lambda>row. fst row \<noteq> round) (storedCatchpoints (store v))
            else storedCatchpoints (store v)) \<and>
         files1 =
           (if catchpointFileHistoryLength (tracker v) \<noteq> 0
            then (files v)
                   (filepath_Join (dbDirectory (tracker v))
                      (filepath_Join CatchpointDirName (MakeCatchpointFilePath env round)) \<mapsto> f)
            else (files v)
                   (filepath_Join (dbDirectory (tracker v))
                      (filepath_Join CatchpointDirName (MakeCatchpointFilePath env round)) := None)) \<and>
         storedCatchpoints (store v') =
           filter (\<lambda>row. fst row \<notin>
                     fst ` set (prunedCatchpoints (catchpointFileHistoryLength (tracker v)) rows1))
             rows1 \<and>
         files v' =
           (\<lambda>q. if q \<in> (\<lambda>x. filepath_Join (dbDirectory (tracker v)) (snd x)) `
                         set (prunedCatchpoints (catchpointFileHistoryLength (tracker v)) rows1)
                then None else files1 q) \<and>
         (catchpointFileHistoryLength (tracker v) = - 1 \<or>
          int (length (storedCatchpoints (store v))) < catchpointFileHistoryLength (tracker v) \<longrightarrow>
            files v' =
              (files v)
                (filepath_Join (dbDirectory (tracker v))
                   (filepath_Join CatchpointDirName (MakeCatchpointFilePath env round)) \<mapsto> f) \<and>
            storedCatchpoints (store v') =
              (round, filepath_Join CatchpointDirName (MakeCatchpointFilePath env round),
               fileSizeOf env f) #
              filter (\<lambda>row. fst row \<noteq> round) (storedCatchpoints (store v))) \<and>
         (0 < catchpointFileHistoryLength (tracker v) \<and>
          (\<forall>row \<in> set (storedCatchpoints (store v)). fst row \<le> round) \<longrightarrow>
            (round, filepath_Join CatchpointDirName (MakeCatchpointFilePath env round),
             fileSizeOf env f) \<in> set (storedCatchpoints (store v')))"
    unfolding rel_def [symmetric] abs_def [symmetric] hl_def [symmetric]
  proof (elim exE conjE)
    fix fin w3 w5
    define f where "f = \<lparr>fileCodec = Gzip,
         fileEntries = contentEntry env header #
           map (\<lambda>e. \<lparr>hdr = hdr e, content = entryData e\<rparr>) (fileEntries fin),
         fileDamage = None\<rparr>"
    define rows1 where "rows1 =
           (if hl \<noteq> 0
            then (round, rel, fileSizeOf env f) #
                 filter (\<lambda>row. fst row \<noteq> round) (storedCatchpoints (store v))
            else storedCatchpoints (store v))"
    define files1 where "files1 =
           (if hl \<noteq> 0 then (files v)(abs \<mapsto> f) else (files v)(abs := None))"
    assume f3: "files w3 = (files v)(abs \<mapsto>
          \<lparr>fileCodec = Gzip,
           fileEntries = contentEntry env header #
             map (\<lambda>e. \<lparr>hdr = hdr e, content = entryData e\<rparr>) (fileEntries fin),
           fileDamage = None\<rparr>)"
      and s3: "storedCatchpoints (store w3) = storedCatchpoints (store v)"
      and h3: "catchpointFileHistoryLength (tracker w3) = hl"
      and d3: "dbDirectory (tracker w3) = dbDirectory (tracker v)"
      and rc: "recordCatchpointFile env round rel
             (fileSizeOf env \<lparr>fileCodec = Gzip,
                fileEntries = contentEntry env header #
                  map (\<lambda>e. \<lparr>hdr = hdr e, content = entryData e\<rparr>) (fileEntries fin),
                fileDamage = None\<rparr>) w3 = (None, w5)"
      and f': "files v' = files w5"
      and s': "storedCatchpoints (store v') = storedCatchpoints (store w5)"
    have relne: "rel \<noteq> []" unfolding rel_def by (rule relCatchpointFilePath_not_empty)
    have r3: "rows1 =
      (if catchpointFileHistoryLength (tracker w3) \<noteq> 0
       then (round, rel, fileSizeOf env f) #
            filter (\<lambda>row. fst row \<noteq> round) (storedCatchpoints (store w3))
       else storedCatchpoints (store w3))"
      by (simp add: rows1_def h3 s3)
    have fl3: "files1 =
      (if catchpointFileHistoryLength (tracker w3) \<noteq> 0 then files w3
       else (files w3)(filepath_Join (dbDirectory (tracker w3)) rel := None))"
      by (simp add: files1_def h3 d3 f3 f_def abs_def)
    note eff = recordCatchpointFile_effect [OF rc [folded f_def] relne r3 fl3]
    have 1: "fileCodec f = Gzip" by (simp add: f_def)
    have 4: "storedCatchpoints (store v') =
           filter (\<lambda>row. fst row \<notin> fst ` set (prunedCatchpoints hl rows1)) rows1"
      using eff by (simp add: s' h3)
    have 5: "files v' =
           (\<lambda>q. if q \<in> (\<lambda>x. filepath_Join (dbDirectory (tracker v)) (snd x)) `
                         set (prunedCatchpoints hl rows1)
                then None else files1 q)"
      using eff by (simp add: f' h3 d3)
    have 6: "hl = - 1 \<or> int (length (storedCatchpoints (store v))) < hl \<longrightarrow>
            files v' = (files v)(abs \<mapsto> f) \<and>
            storedCatchpoints (store v') =
              (round, rel, fileSizeOf env f) #
              filter (\<lambda>row. fst row \<noteq> round) (storedCatchpoints (store v))"
    proof
      assume k: "hl = - 1 \<or> int (length (storedCatchpoints (store v))) < hl"
      then have nz: "hl \<noteq> 0" by auto
      have lf: "length (filter (\<lambda>row. fst row \<noteq> round) (storedCatchpoints (store v))) \<le>
          length (storedCatchpoints (store v))"
        by (rule length_filter_le)
      have lr: "length rows1 =
          Suc (length (filter (\<lambda>row. fst row \<noteq> round) (storedCatchpoints (store v))))"
        using nz by (simp add: rows1_def)
      have "hl = - 1 \<or> int (length rows1) \<le> hl"
      proof (cases "hl = - 1")
        case True
        then show ?thesis by simp
      next
        case False
        with k have "int (length (storedCatchpoints (store v))) < hl" by simp
        with lf lr show ?thesis by linarith
      qed
      from nothing_pruned [OF this] have np: "prunedCatchpoints hl rows1 = []" .
      show "files v' = (files v)(abs \<mapsto> f) \<and>
            storedCatchpoints (store v') =
              (round, rel, fileSizeOf env f) #
              filter (\<lambda>row. fst row \<noteq> round) (storedCatchpoints (store v))"
        unfolding 4 5 np using nz by (auto simp: rows1_def files1_def fun_upd_def)
    qed
    have 7: "0 < hl \<and> (\<forall>row \<in> set (storedCatchpoints (store v)). fst row \<le> round) \<longrightarrow>
            (round, rel, fileSizeOf env f) \<in> set (storedCatchpoints (store v'))"
    proof
      assume k: "0 < hl \<and> (\<forall>row \<in> set (storedCatchpoints (store v)). fst row \<le> round)"
      then have nz: "hl \<noteq> 0" by auto
      have r1: "rows1 = (round, rel, fileSizeOf env f) #
                 filter (\<lambda>row. fst row \<noteq> round) (storedCatchpoints (store v))"
        using nz by (simp add: rows1_def)
      from newest_not_pruned [of hl "storedCatchpoints (store v)" round rel "fileSizeOf env f"] k
      have "round \<notin> fst ` set (prunedCatchpoints hl rows1)"
        unfolding r1 by blast
      then show "(round, rel, fileSizeOf env f) \<in> set (storedCatchpoints (store v'))"
        unfolding 4 by (simp add: r1)
    qed
    from 1 rows1_def files1_def 4 5 6 7
    show "\<exists>f rows1 files1.
         fileCodec f = Gzip \<and>
         rows1 =
           (if hl \<noteq> 0
            then (round, rel, fileSizeOf env f) #
                 filter (\<lambda>row. fst row \<noteq> round) (storedCatchpoints (store v))
            else storedCatchpoints (store v)) \<and>
         files1 = (if hl \<noteq> 0 then (files v)(abs \<mapsto> f) else (files v)(abs := None)) \<and>
         storedCatchpoints (store v') =
           filter (\<lambda>row. fst row \<notin> fst ` set (prunedCatchpoints hl rows1)) rows1 \<and>
         files v' =
           (\<lambda>q. if q \<in> (\<lambda>x. filepath_Join (dbDirectory (tracker v)) (snd x)) `
                         set (prunedCatchpoints hl rows1)
                then None else files1 q) \<and>
         (hl = - 1 \<or> int (length (storedCatchpoints (store v))) < hl \<longrightarrow>
            files v' = (files v)(abs \<mapsto> f) \<and>
            storedCatchpoints (store v') =
              (round, rel, fileSizeOf env f) #
              filter (\<lambda>row. fst row \<noteq> round) (storedCatchpoints (store v))) \<and>
         (0 < hl \<and> (\<forall>row \<in> set (storedCatchpoints (store v)). fst row \<le> round) \<longrightarrow>
            (round, rel, fileSizeOf env f) \<in> set (storedCatchpoints (store v')))"
      by - (rule exI, rule exI, rule exI, (rule conjI, assumption)+, assumption)
  qed
next
  assume "createCatchpoint env ctx accountsRound round dataInfo blockHash blockProto v =
    (Some e, v')"
  note fs = createCatchpoint_failure_store [OF this]
  from fs show "storedCatchpoints (store v') = storedCatchpoints (store v)" by simp
  from fs show "unfinishedCatchpoints (store v') = unfinishedCatchpoints (store v)" by simp
qed

text \<open>
  An instance, on the example world, whose history length is 2 and whose registry
  has the rounds 100, 200 and 300: with a lookback of 300 there is no record for
  round 100 and the marker of round 400 is deleted; with a lookback of 320 the archive
  of round 400 is registered, the rows and the archives of rounds 100 and 200 are
  pruned, and the marker is deleted.
\<close>

theorem finishCatchpoint_amended_witness:
  "fst (finishCatchpoint exampleEnv Background 400 [9] ''v8'' 300 exampleWorld) = None \<and>
   unfinishedCatchpoints (store (snd
     (finishCatchpoint exampleEnv Background 400 [9] ''v8'' 300 exampleWorld))) 400 = None \<and>
   storedCatchpoints (store (snd
     (finishCatchpoint exampleEnv Background 400 [9] ''v8'' 300 exampleWorld))) =
     storedCatchpoints exampleStore \<and>
   files (snd (finishCatchpoint exampleEnv Background 400 [9] ''v8'' 300 exampleWorld)) =
     files exampleWorld \<and>
   fst (finishCatchpoint exampleEnv Background 400 [9] ''v8'' 320 exampleWorld) = None \<and>
   unfinishedCatchpoints (store (snd
     (finishCatchpoint exampleEnv Background 400 [9] ''v8'' 320 exampleWorld))) 400 = None \<and>
   map (\<lambda>row. (fst row, fst (snd row))) (storedCatchpoints (store (snd
     (finishCatchpoint exampleEnv Background 400 [9] ''v8'' 320 exampleWorld)))) =
     [(400, ''catchpoints/400.catchpoint''), (300, ''catchpoints/300.catchpoint'')] \<and>
   files (snd (finishCatchpoint exampleEnv Background 400 [9] ''v8'' 320 exampleWorld))
     ''cold/catchpoints/100.catchpoint'' = None \<and>
   files (snd (finishCatchpoint exampleEnv Background 400 [9] ''v8'' 320 exampleWorld))
     ''cold/catchpoints/400.catchpoint'' \<noteq> None"
proof -
  define V where "V = logf (Infof ''finishing catchpoint round'') exampleWorld"
  define X where "X = finishCatchpoint exampleEnv Background 400 [9] ''v8'' 320 exampleWorld"
  define Y where "Y = finishCatchpoint exampleEnv Background 400 [9] ''v8'' 300 exampleWorld"
  note tm = finishCatchpoint_amended
    [where env = exampleEnv and round = 400 and lb = 300 and w = exampleWorld
       and ctx = Background and blockHash = "[9]" and blockProto = "''v8''"
       and res = None and w' = "snd Y", THEN conjunct1, THEN mp]
  note te = finishCatchpoint_amended
    [where env = exampleEnv and round = 400 and lb = 320 and w = exampleWorld
       and ctx = Background and blockHash = "[9]" and blockProto = "''v8''"
       and dataInfo = exampleInfo and accountsRound = "400 - 320" and v = V and v' = "snd X",
     THEN conjunct2]
  have m: "SelectCatchpointFirstStageInfo exampleEnv (400 - 300)
      (logf (Infof ''finishing catchpoint round'') exampleWorld) = Inr None"
    by code_simp
  have y: "fst Y = None" unfolding Y_def by code_simp
  have yp: "finishCatchpoint exampleEnv Background 400 [9] ''v8'' 300 exampleWorld =
      (None, snd Y)"
    using fst_None_pair [OF y] unfolding Y_def .
  from tm [OF m, THEN conjunct2, THEN mp, OF yp]
  have y1: "unfinishedCatchpoints (store (snd Y)) =
              (unfinishedCatchpoints (store exampleWorld))(400 := None)"
    and y2: "storedCatchpoints (store (snd Y)) = storedCatchpoints (store exampleWorld)"
    and y3: "files (snd Y) = files exampleWorld"
    by simp_all
  have a: "unfinishedCatchpoints (store (snd Y)) 400 = None"
    by (simp add: y1)
  have b: "storedCatchpoints (store (snd Y)) = storedCatchpoints exampleStore"
    by (simp add: y2 exampleWorld_def)
  have s: "SelectCatchpointFirstStageInfo exampleEnv (400 - 320) V = Inr (Some exampleInfo)"
    unfolding V_def by code_simp
  have x: "fst X = None" unfolding X_def by code_simp
  have xe: "X = createCatchpoint exampleEnv Background (400 - 320) 400 exampleInfo [9] ''v8'' V"
    unfolding X_def using te [THEN conjunct1, THEN mp, OF s [unfolded V_def]]
    by (simp only: V_def)
  have xp: "createCatchpoint exampleEnv Background (400 - 320) 400 exampleInfo [9] ''v8'' V =
      (None, snd X)"
    using fst_None_pair [OF x] by (simp only: xe [symmetric])
  have hyp: "enableGeneratingCatchpointFiles (tracker V) \<and>
    os_Stat exampleEnv
      (filepath_Join (filepath_Join (tmpDir (tracker V)) CatchpointDirName)
         (makeCatchpointDataFilePath (400 - 320))) V \<noteq> Inl ErrNotExist"
    unfolding V_def by code_simp
  have hl: "catchpointFileHistoryLength (tracker V) = 2"
    unfolding V_def by code_simp
  have db: "dbDirectory (tracker V) = ''cold''"
    unfolding V_def by code_simp
  have rel: "filepath_Join CatchpointDirName (MakeCatchpointFilePath exampleEnv 400) =
      ''catchpoints/400.catchpoint''"
    by code_simp
  have rows: "storedCatchpoints (store V) =
        [(100, ''catchpoints/100.catchpoint'', 3),
         (200, ''catchpoints/200.catchpoint'', 3),
         (300, ''catchpoints/300.catchpoint'', 3)]"
    unfolding V_def by (simp add: logf_def exampleWorld_def exampleStore_def)
  have mk: "unfinishedCatchpoints (store V) = [400 \<mapsto> [9]]"
    unfolding V_def by (simp add: logf_def exampleWorld_def exampleStore_def)
  from te [THEN conjunct2, THEN conjunct1, THEN mp] xp hyp
  obtain f rows1 files1 where
    u: "unfinishedCatchpoints (store (snd X)) = (unfinishedCatchpoints (store V))(400 := None)" and
    r1: "rows1 =
           (if catchpointFileHistoryLength (tracker V) \<noteq> 0
            then (400, filepath_Join CatchpointDirName (MakeCatchpointFilePath exampleEnv 400),
                  fileSizeOf exampleEnv f) #
                 filter (\<lambda>row. fst row \<noteq> 400) (storedCatchpoints (store V))
            else storedCatchpoints (store V))" and
    f1: "files1 =
           (if catchpointFileHistoryLength (tracker V) \<noteq> 0
            then (files V)
                   (filepath_Join (dbDirectory (tracker V))
                      (filepath_Join CatchpointDirName (MakeCatchpointFilePath exampleEnv 400)) \<mapsto> f)
            else (files V)
                   (filepath_Join (dbDirectory (tracker V))
                      (filepath_Join CatchpointDirName (MakeCatchpointFilePath exampleEnv 400)) := None))" and
    r: "storedCatchpoints (store (snd X)) =
           filter (\<lambda>row. fst row \<notin>
                     fst ` set (prunedCatchpoints (catchpointFileHistoryLength (tracker V)) rows1))
             rows1" and
    fl: "files (snd X) =
           (\<lambda>q. if q \<in> (\<lambda>x. filepath_Join (dbDirectory (tracker V)) (snd x)) `
                         set (prunedCatchpoints (catchpointFileHistoryLength (tracker V)) rows1)
                then None else files1 q)"
    by blast
  have rows1: "rows1 =
        [(400, ''catchpoints/400.catchpoint'', fileSizeOf exampleEnv f),
         (100, ''catchpoints/100.catchpoint'', 3),
         (200, ''catchpoints/200.catchpoint'', 3),
         (300, ''catchpoints/300.catchpoint'', 3)]"
    unfolding r1 hl rel rows by simp
  have pr: "prunedCatchpoints 2 rows1 =
      [(100, ''catchpoints/100.catchpoint''), (200, ''catchpoints/200.catchpoint'')]"
    unfolding rows1 by (simp add: prunedCatchpoints_def)
  have files1: "files1 = (files V)(''cold/catchpoints/400.catchpoint'' \<mapsto> f)"
    unfolding f1 hl rel db by (simp add: filepath_Join_def)
  have c: "unfinishedCatchpoints (store (snd X)) 400 = None"
    by (simp add: u)
  have d: "map (\<lambda>row. (fst row, fst (snd row))) (storedCatchpoints (store (snd X))) =
     [(400, ''catchpoints/400.catchpoint''), (300, ''catchpoints/300.catchpoint'')]"
    unfolding r hl pr by (simp add: rows1)
  have e1: "files (snd X) ''cold/catchpoints/100.catchpoint'' = None"
    unfolding fl hl pr db by (simp add: filepath_Join_def)
  have e2: "files (snd X) ''cold/catchpoints/400.catchpoint'' \<noteq> None"
    unfolding fl hl pr db files1 by (simp add: filepath_Join_def)
  from y a b y3 x c d e1 e2 show ?thesis
    unfolding X_def Y_def by (intro conjI)
qed

subsection \<open>GetCatchpointStream on a missing file\<close>

text \<open>
  When no call fails and \<open>catchpointFileHistoryLength\<close> is not 0, a request for a round
  whose row names a file that is not on disk returns \<open>ErrNoEntry\<close> and leaves no row
  for the round.
\<close>

lemma deleteOldCatchpointFiles_no_fault:
  assumes nf: "\<forall>op. fault env op = None"
  shows "\<exists>w'. deleteOldCatchpointFiles env xs w = (None, w') \<and>
           set (storedCatchpoints (store w')) \<subseteq> set (storedCatchpoints (store w))"
proof (induction xs arbitrary: w)
  case Nil
  then show ?case by simp
next
  case (Cons x xs)
  obtain round fileToDelete where x: "x = (round, fileToDelete)" by (cases x)
  define w1 where "w1 = w\<lparr>files := (files w)
    (filepath_Join (dbDirectory (tracker w)) fileToDelete := None)\<rparr>"
  define w2 where "w2 = w1\<lparr>store := (store w1)\<lparr>storedCatchpoints :=
    filter (\<lambda>row. fst row \<noteq> round) (storedCatchpoints (store w1))\<rparr>\<rparr>"
  have rm: "RemoveSingleCatchpointFileFromDisk env (dbDirectory (tracker w)) fileToDelete w =
      (None, w1)"
    by (simp add: RemoveSingleCatchpointFileFromDisk_def Let_def nf w1_def)
  have st: "StoreCatchpoint env round [] 0 w1 = (None, w2)"
    by (simp add: StoreCatchpoint_def Let_def nf w2_def)
  from Cons.IH [of w2] obtain w' where
    d: "deleteOldCatchpointFiles env xs w2 = (None, w')" and
    s: "set (storedCatchpoints (store w')) \<subseteq> set (storedCatchpoints (store w2))"
    by blast
  have "deleteOldCatchpointFiles env (x # xs) w = (None, w')"
    by (simp add: x rm st d)
  moreover have "set (storedCatchpoints (store w2)) \<subseteq> set (storedCatchpoints (store w))"
    by (auto simp: w2_def w1_def)
  ultimately show ?case using s by blast
qed

lemma recordCatchpointFile_delete_row:
  assumes nf: "\<forall>op. fault env op = None"
    and nz: "catchpointFileHistoryLength (tracker w) \<noteq> 0"
  shows "\<exists>w'. recordCatchpointFile env round [] 0 w = (None, w') \<and>
           round \<notin> fst ` set (storedCatchpoints (store w'))"
proof -
  define w1 where "w1 = w\<lparr>store := (store w)\<lparr>storedCatchpoints :=
    filter (\<lambda>row. fst row \<noteq> round) (storedCatchpoints (store w))\<rparr>\<rparr>"
  have st: "StoreCatchpoint env round [] 0 w = (None, w1)"
    by (simp add: StoreCatchpoint_def Let_def nf w1_def)
  have r1: "round \<notin> fst ` set (storedCatchpoints (store w1))"
    by (auto simp: w1_def)
  have h1: "catchpointFileHistoryLength (tracker w1) = catchpointFileHistoryLength (tracker w)"
    by (simp add: w1_def)
  show ?thesis
  proof (cases "catchpointFileHistoryLength (tracker w) = - 1")
    case True
    then have "recordCatchpointFile env round [] 0 w = (None, w1)"
      using nz by (simp add: recordCatchpointFile_def st h1)
    with r1 show ?thesis by blast
  next
    case False
    obtain old where go:
      "GetOldestCatchpointFiles env 2 (nat (catchpointFileHistoryLength (tracker w))) w1 = Inr old"
      by (simp add: GetOldestCatchpointFiles_def Let_def nf)
    from deleteOldCatchpointFiles_no_fault [OF nf, of old w1] obtain w' where
      d: "deleteOldCatchpointFiles env old w1 = (None, w')" and
      s: "set (storedCatchpoints (store w')) \<subseteq> set (storedCatchpoints (store w1))"
      by blast
    have "recordCatchpointFile env round [] 0 w = (None, w')"
      using nz False by (simp add: recordCatchpointFile_def st h1 go d)
    moreover have "round \<notin> fst ` set (storedCatchpoints (store w'))"
      using r1 s by blast
    ultimately show ?thesis by blast
  qed
qed

lemma GetCatchpointStream_missing_file:
  assumes nf: "\<forall>op. fault env op = None"
    and nz: "catchpointFileHistoryLength (tracker w) \<noteq> 0"
    and row: "map_of (storedCatchpoints (store w)) round = Some (dbFileName, fileSize)"
    and nm: "dbFileName \<noteq> []"
    and gone: "files w (filepath_Join (dbDirectory (tracker w)) dbFileName) = None"
  shows "\<exists>w'. GetCatchpointStream env round w = (Inl ErrNoEntry, w') \<and>
           round \<notin> fst ` set (storedCatchpoints (store w'))"
proof -
  from recordCatchpointFile_delete_row [OF nf nz, of round] obtain w' where
    rc: "recordCatchpointFile env round [] 0 w = (None, w')" and
    r: "round \<notin> fst ` set (storedCatchpoints (store w'))"
    by blast
  have op: "os_Open env (filepath_Join (dbDirectory (tracker w)) dbFileName) w = Inl ErrNotExist"
    by (simp add: os_Open_def nf gone)
  have "GetCatchpointStream_found env round dbFileName fileSize w = (Inl ErrNoEntry, w')"
    by (simp add: GetCatchpointStream_found_def Let_def nm op nf rc)
  moreover have "GetCatchpoint env round w = Inr (dbFileName, fileSize)"
    by (simp add: GetCatchpoint_def nf row)
  ultimately have "GetCatchpointStream env round w = (Inl ErrNoEntry, w')"
    by (simp add: GetCatchpointStream_def nf)
  with r show ?thesis by blast
qed

subsection \<open>Claims about GetCatchpointStream\<close>

text \<open>
  C8, on a tracker with \<open>catchpointFileHistoryLength = 0\<close> whose registry has the rows
  of rounds 100, 200 and 300 while the archive of round 300 is not on disk.
  \<open>GetCatchpointStream(300)\<close> finds the row, fails to open the file and calls
  \<open>recordCatchpointFile(round, "", 0)\<close> to "delete it from the database"; with a
  history length of 0 that function does not call \<open>StoreCatchpoint\<close> for the round but
  asks for the removal of the file of name \<open>""\<close>, which is the directory \<open>cold\<close> itself.
  On the example world the archives of rounds 100 and 200 are under that directory
  and the removal is refused: the error of the removal is returned, not \<open>ErrNoEntry\<close>,
  and the registry is as it was.  On a world with nothing on disk the removal
  succeeds, the two oldest rows are pruned and \<open>ErrNoEntry\<close> is returned.  In both the
  row of round 300 is still in the registry.
\<close>

theorem GetCatchpointStream_history_zero_keeps_row:
  "GetCatchpoint exampleEnv 300
     (exampleWorld\<lparr>tracker := exampleTracker\<lparr>catchpointFileHistoryLength := 0\<rparr>\<rparr>) =
     Inr (''catchpoints/300.catchpoint'', 3) \<and>
   os_Open exampleEnv ''cold/catchpoints/300.catchpoint''
     (exampleWorld\<lparr>tracker := exampleTracker\<lparr>catchpointFileHistoryLength := 0\<rparr>\<rparr>) =
     Inl ErrNotExist \<and>
   fst (GetCatchpointStream
     (exampleEnv\<lparr>fault := (\<lambda>op. if op = OpRemove ''cold''
                                 then Some (ErrOther ''directory not empty'') else None)\<rparr>)
     300
     (exampleWorld\<lparr>tracker := exampleTracker\<lparr>catchpointFileHistoryLength := 0\<rparr>\<rparr>)) =
     Inl (ErrorfWrap ''unable to delete old catchpoint file''
            (ErrOther ''directory not empty'')) \<and>
   storedCatchpoints (store (snd (GetCatchpointStream
     (exampleEnv\<lparr>fault := (\<lambda>op. if op = OpRemove ''cold''
                                 then Some (ErrOther ''directory not empty'') else None)\<rparr>)
     300
     (exampleWorld\<lparr>tracker := exampleTracker\<lparr>catchpointFileHistoryLength := 0\<rparr>\<rparr>)))) =
     [(100, ''catchpoints/100.catchpoint'', 3),
      (200, ''catchpoints/200.catchpoint'', 3),
      (300, ''catchpoints/300.catchpoint'', 3)] \<and>
   fst (GetCatchpointStream exampleEnv 300
     (exampleWorld\<lparr>tracker := exampleTracker\<lparr>catchpointFileHistoryLength := 0\<rparr>,
                   files := Map.empty\<rparr>)) =
     Inl ErrNoEntry \<and>
   storedCatchpoints (store (snd (GetCatchpointStream exampleEnv 300
     (exampleWorld\<lparr>tracker := exampleTracker\<lparr>catchpointFileHistoryLength := 0\<rparr>,
                   files := Map.empty\<rparr>)))) =
     [(300, ''catchpoints/300.catchpoint'', 3)]"
  by code_simp

end
